(* ===== verification/Prelude.thy ===== *)
theory Prelude
  imports Complex_Main "HOL-Library.Sublist" "HOL-Library.Monad_Syntax"
begin

text \<open>
  Shared vocabulary of the smart-farm backend development: the collections of
  lemmas the component theories contribute to, and generic facts on lists and
  characters that several components use (the code's \<open>Array.prototype.some\<close>,
  \<open>push\<close> and \<open>unshift\<close> are list operations; its strings are lists of
  code units).
\<close>

named_theorems handler_simps \<open>equations of the request handlers, for unfolding a step\<close>
named_theorems inv_intros \<open>preservation lemmas of the state invariant\<close>

type_synonym jsstr = string

subsection \<open>Characters as code units\<close>

text \<open>
  Isabelle's \<open>char\<close> has 256 values. A character stands for a UTF-16 code unit
  below 256 (multer hands the original file name over decoded as Latin-1, so
  every code unit of it is below 256). The characters JavaScript counts as
  white space (the class \<open>\s\<close> of a regular expression, and StrWhiteSpaceChar
  of the Number conversion; both are WhiteSpace together with LineTerminator)
  are, among these code units: TAB, LF, VT, FF, CR, SPACE and NO-BREAK SPACE.
\<close>

definition is_js_space :: "char \<Rightarrow> bool" where
  "is_js_space c \<longleftrightarrow> of_char c \<in> ({9, 10, 11, 12, 13, 32, 160} :: nat set)"

definition is_digit :: "char \<Rightarrow> bool" where
  "is_digit c \<longleftrightarrow> 48 \<le> (of_char c :: nat) \<and> (of_char c :: nat) \<le> 57"

definition digit_val :: "char \<Rightarrow> nat" where
  "digit_val c = of_char c - 48"

lemma is_js_space_code [code]:
  "is_js_space c \<longleftrightarrow>
     (let n = (of_char c :: nat) in n = 9 \<or> n = 10 \<or> n = 11 \<or> n = 12 \<or> n = 13 \<or> n = 32 \<or> n = 160)"
  by (simp add: is_js_space_def Let_def)

lemma not_space_dash [simp]: "\<not> is_js_space CHR ''-''"
  by (simp add: is_js_space_def)

lemma digit_not_space [simp]: "is_digit c \<Longrightarrow> \<not> is_js_space c"
  by (auto simp: is_digit_def is_js_space_def)

subsection \<open>Lists\<close>

lemma prefix_snoc_self [intro]: "prefix xs (xs @ [x])"
  by simp

lemma suffix_Cons_self [intro]: "suffix xs (x # xs)"
  by (simp add: suffix_def)

lemma length_dropWhile_le [simp]: "length (dropWhile P xs) \<le> length xs"
  by (induction xs) auto

lemma length_dropWhile_less:
  "takeWhile P xs \<noteq> [] \<Longrightarrow> length (dropWhile P xs) < length xs"
  by (cases xs) (auto simp: less_Suc_eq_le split: if_splits)

lemma find_Some_mem: "find P xs = Some x \<Longrightarrow> x \<in> set xs \<and> P x"
  by (induction xs) (auto split: if_splits)

end
