(* ===== verification/JS_Values.thy ===== *)
theory JS_Values
  imports Prelude
begin

text \<open>
  The JavaScript values the server reads from request bodies and writes into
  responses, and the operators of the language it applies to them:
  truthiness and \<open>||\<close>, \<open>typeof\<close>, property reads with and without optional
  chaining, \<open>===\<close> against a string, \<open>Math.min\<close> and \<open>Math.max\<close>, and the
  value transformation \<open>JSON.stringify\<close> performs in \<open>res.json\<close>.
  Numbers are the extended reals with NaN; rounding to binary64 and the sign
  of zero are not modelled (no branch of the server depends on them).
\<close>

datatype jsnum = Fin real | PosInf | NegInf | NaN

datatype jsval =
    JUndef
  | JNull
  | JBool bool
  | JNum jsnum
  | JStr jsstr
  | JArr "jsval list"
  | JObj "(jsstr \<times> jsval) list"

subsection \<open>Truthiness and the \<open>||\<close> operator\<close>

fun num_truthy :: "jsnum \<Rightarrow> bool" where
  "num_truthy (Fin x) \<longleftrightarrow> x \<noteq> 0"
| "num_truthy NaN \<longleftrightarrow> False"
| "num_truthy PosInf \<longleftrightarrow> True"
| "num_truthy NegInf \<longleftrightarrow> True"

fun js_truthy :: "jsval \<Rightarrow> bool" where
  "js_truthy JUndef \<longleftrightarrow> False"
| "js_truthy JNull \<longleftrightarrow> False"
| "js_truthy (JBool b) \<longleftrightarrow> b"
| "js_truthy (JNum n) \<longleftrightarrow> num_truthy n"
| "js_truthy (JStr s) \<longleftrightarrow> s \<noteq> []"
| "js_truthy (JArr _) \<longleftrightarrow> True"
| "js_truthy (JObj _) \<longleftrightarrow> True"

text \<open>\<open>a || b\<close>: the left operand when it is truthy, otherwise the right one.\<close>

definition js_or :: "jsval \<Rightarrow> jsval \<Rightarrow> jsval" where
  "js_or a b = (if js_truthy a then a else b)"

definition num_or :: "jsnum \<Rightarrow> jsnum \<Rightarrow> jsnum" where
  "num_or a b = (if num_truthy a then a else b)"

subsection \<open>\<open>typeof\<close>\<close>

fun js_typeof :: "jsval \<Rightarrow> jsstr" where
  "js_typeof JUndef = ''undefined''"
| "js_typeof JNull = ''object''"
| "js_typeof (JBool _) = ''boolean''"
| "js_typeof (JNum _) = ''number''"
| "js_typeof (JStr _) = ''string''"
| "js_typeof (JArr _) = ''object''"
| "js_typeof (JObj _) = ''object''"

subsection \<open>Property reads\<close>

text \<open>
  \<open>v.k\<close> throws a TypeError (\<open>None\<close>) when \<open>v\<close> is \<open>undefined\<close> or \<open>null\<close>.
  On an object it reads the own property; every other value has no property
  of the names the server reads (\<open>soundId\<close>, \<open>confidence\<close>, \<open>time\<close>,
  \<open>confidenceThreshold\<close>, \<open>autoSound\<close>, \<open>pushAlerts\<close>, \<open>volume\<close>,
  \<open>selectedSoundId\<close>: none is defined on a built-in prototype), so the read
  gives \<open>undefined\<close>.
\<close>

fun js_get :: "jsval \<Rightarrow> jsstr \<Rightarrow> jsval option" where
  "js_get JUndef k = None"
| "js_get JNull k = None"
| "js_get (JObj kvs) k = Some (case map_of kvs k of None \<Rightarrow> JUndef | Some v \<Rightarrow> v)"
| "js_get _ k = Some JUndef"

text \<open>Optional chaining \<open>v?.k\<close>: \<open>undefined\<close> on a nullish receiver, never a throw.\<close>

definition js_get_opt :: "jsval \<Rightarrow> jsstr \<Rightarrow> jsval" where
  "js_get_opt v k = (case js_get v k of None \<Rightarrow> JUndef | Some r \<Rightarrow> r)"

text \<open>\<open>s === v\<close> for a string \<open>s\<close>: true exactly for a string of the same code units.\<close>

definition strict_eq_str :: "jsstr \<Rightarrow> jsval \<Rightarrow> bool" where
  "strict_eq_str s v \<longleftrightarrow> v = JStr s"

subsection \<open>\<open>Math.min\<close> and \<open>Math.max\<close> on two arguments\<close>

fun num_less :: "jsnum \<Rightarrow> jsnum \<Rightarrow> bool" where
  "num_less (Fin x) (Fin y) \<longleftrightarrow> x < y"
| "num_less NegInf (Fin _) \<longleftrightarrow> True"
| "num_less NegInf PosInf \<longleftrightarrow> True"
| "num_less (Fin _) PosInf \<longleftrightarrow> True"
| "num_less _ _ \<longleftrightarrow> False"

definition math_max :: "jsnum \<Rightarrow> jsnum \<Rightarrow> jsnum" where
  "math_max a b = (if a = NaN \<or> b = NaN then NaN else if num_less a b then b else a)"

definition math_min :: "jsnum \<Rightarrow> jsnum \<Rightarrow> jsnum" where
  "math_min a b = (if a = NaN \<or> b = NaN then NaN else if num_less b a then b else a)"

text \<open>The clamp the settings handler writes twice: \<open>Math.min(hi, Math.max(lo, x))\<close>.\<close>

definition clamp_num :: "real \<Rightarrow> real \<Rightarrow> jsnum \<Rightarrow> jsnum" where
  "clamp_num lo hi x = math_min (Fin hi) (math_max (Fin lo) x)"

subsection \<open>Numbers read from decimal text\<close>

text \<open>
  \<open>Number(s)\<close> and \<open>JSON.parse\<close> read the exact decimal value of a
  literal and round it to binary64, nearest with ties to even. The model
  keeps the exact value inside the range of binary64 (rounding within it is
  not modelled) and writes out the two ends: a magnitude at or above the
  overflow threshold \<open>2^1024 - 2^970\<close> (the largest double plus half
  an ulp) becomes an infinity, and one at or below half the smallest
  subnormal, \<open>2^-1075\<close>, becomes 0.
\<close>

definition b64_overflow :: real where
  "b64_overflow = 2 ^ 1024 - 2 ^ 970"

definition to_binary64 :: "real \<Rightarrow> jsnum" where
  "to_binary64 x =
     (if b64_overflow \<le> x then PosInf
      else if x \<le> - b64_overflow then NegInf
      else if \<bar>x\<bar> * 2 ^ 1075 \<le> 1 then Fin 0
      else Fin x)"

subsection \<open>JSON values and \<open>JSON.stringify\<close>\<close>

text \<open>
  A JSON value with finite numbers: no \<open>undefined\<close>, objects with
  distinct keys. These are the values whose \<open>JSON.stringify\<close> text reads
  back as themselves.
\<close>

fun json_value :: "jsval \<Rightarrow> bool" where
  "json_value JUndef \<longleftrightarrow> False"
| "json_value JNull \<longleftrightarrow> True"
| "json_value (JBool _) \<longleftrightarrow> True"
| "json_value (JNum n) \<longleftrightarrow> (case n of Fin _ \<Rightarrow> True | _ \<Rightarrow> False)"
| "json_value (JStr _) \<longleftrightarrow> True"
| "json_value (JArr vs) \<longleftrightarrow> list_all json_value vs"
| "json_value (JObj kvs) \<longleftrightarrow> distinct (map fst kvs) \<and> list_all (\<lambda>kv. json_value (snd kv)) kvs"

text \<open>
  What \<open>JSON.parse\<close> can return: as above, but a number literal too
  large for binary64 reads as an infinity (\<open>1e400\<close>).
\<close>

fun json_like :: "jsval \<Rightarrow> bool" where
  "json_like JUndef \<longleftrightarrow> False"
| "json_like (JNum n) \<longleftrightarrow> n \<noteq> NaN"
| "json_like (JArr vs) \<longleftrightarrow> list_all json_like vs"
| "json_like (JObj kvs) \<longleftrightarrow> distinct (map fst kvs) \<and> list_all (\<lambda>kv. json_like (snd kv)) kvs"
| "json_like _ \<longleftrightarrow> True"

text \<open>
  What \<open>res.json\<close> sends for a value: \<open>JSON.stringify\<close> writes NaN and the
  infinities as \<open>null\<close>, drops object properties whose value is \<open>undefined\<close>
  and writes \<open>undefined\<close> array elements as \<open>null\<close>.
\<close>

fun stringify_value :: "jsval \<Rightarrow> jsval" where
  "stringify_value (JNum (Fin x)) = JNum (Fin x)"
| "stringify_value (JNum _) = JNull"
| "stringify_value (JArr vs) =
     JArr (map (\<lambda>v. if v = JUndef then JNull else stringify_value v) vs)"
| "stringify_value (JObj kvs) =
     JObj (map (\<lambda>kv. (fst kv, stringify_value (snd kv))) (filter (\<lambda>kv. snd kv \<noteq> JUndef) kvs))"
| "stringify_value v = v"

subsection \<open>Lemmas\<close>

lemma js_get_Some_iff: "js_get v k \<noteq> None \<longleftrightarrow> v \<noteq> JUndef \<and> v \<noteq> JNull"
  by (cases v) auto

lemma truthy_not_nullish [simp]:
  "js_truthy v \<Longrightarrow> js_get v k \<noteq> None"
  by (cases v) auto

lemma js_or_truthy_left: "js_truthy (js_or a (JObj []))"
  by (simp add: js_or_def)

lemma math_max_fin [simp]: "math_max (Fin a) (Fin b) = Fin (max a b)"
  by (simp add: math_max_def max_def)

lemma math_min_fin [simp]: "math_min (Fin a) (Fin b) = Fin (min a b)"
  by (simp add: math_min_def min_def)

lemma clamp_num_fin [simp]: "clamp_num lo hi (Fin x) = Fin (min hi (max lo x))"
  by (simp add: clamp_num_def)

lemma clamp_num_inf [simp]:
  "lo \<le> hi \<Longrightarrow> clamp_num lo hi PosInf = Fin hi"
  "lo \<le> hi \<Longrightarrow> clamp_num lo hi NegInf = Fin lo"
  by (simp_all add: clamp_num_def math_max_def math_min_def)

lemma clamp_num_NaN [simp]: "clamp_num lo hi NaN = NaN"
  by (simp add: clamp_num_def math_max_def math_min_def)

lemma clamp_num_range:
  assumes "lo \<le> hi" and "x \<noteq> NaN"
  shows "\<exists>r. clamp_num lo hi x = Fin r \<and> lo \<le> r \<and> r \<le> hi"
  using assms by (cases x) auto

lemma to_binary64_not_NaN [simp]: "to_binary64 x \<noteq> NaN"
  by (simp add: to_binary64_def)

lemma b64_overflow_big: "(10::real) ^ 21 < b64_overflow"
  by (simp add: b64_overflow_def)

text \<open>Every number \<open>Number::toString\<close> writes in plain notation is a double's value unchanged.\<close>

lemma to_binary64_plain:
  assumes "x = 0 \<or> (1 \<le> \<bar>x\<bar> * 10 ^ 6 \<and> \<bar>x\<bar> < 10 ^ 21)"
  shows "to_binary64 x = Fin x"
proof (cases "x = 0")
  case False
  with assms have lo: "1 \<le> \<bar>x\<bar> * 10 ^ 6" and hi: "\<bar>x\<bar> < 10 ^ 21" by auto
  have "\<bar>x\<bar> * 10 ^ 6 < \<bar>x\<bar> * 2 ^ 1075"
    using False by (intro mult_strict_left_mono) simp_all
  then have "\<not> \<bar>x\<bar> * 2 ^ 1075 \<le> 1" using lo by linarith
  moreover have "\<bar>x\<bar> < b64_overflow" using hi b64_overflow_big by linarith
  ultimately show ?thesis by (auto simp: to_binary64_def)
qed (simp add: to_binary64_def b64_overflow_def)

lemma json_value_like: "json_value v \<Longrightarrow> json_like v"
  by (induction v rule: json_like.induct) (auto simp: list_all_iff split: jsnum.splits)

lemma json_value_defined [simp]: "json_value v \<Longrightarrow> v \<noteq> JUndef"
  by auto

lemma json_value_stringify [simp]: "json_value v \<Longrightarrow> stringify_value v = v"
proof (induction v rule: stringify_value.induct)
  case (3 vs)
  then show ?case by (auto simp: list_all_iff intro!: map_idI)
next
  case (4 kvs)
  then have "filter (\<lambda>kv. snd kv \<noteq> JUndef) kvs = kvs"
    by (auto simp: list_all_iff intro: filter_True elim: json_value.elims)
  with 4 show ?case by (auto simp: list_all_iff intro: map_idI)
qed (auto split: jsnum.splits)

end
