(* ===== verification/Sound_Catalog.thy ===== *)
theory Sound_Catalog
  imports JS_Values
begin

text \<open>
  The sound catalog: the module-level array \<open>sounds\<close> of index.js (lines
  27-29), its built-in entry, the \<open>push\<close> of an uploaded sound (line 62) and
  the existence test \<open>sounds.some((sound) => sound.id === x)\<close> that the select
  and settings handlers share (lines 69 and 123). Sounds are never removed or
  changed.
\<close>

datatype sound_source = BuiltIn | Uploaded

record sound =
  sound_id :: jsstr
  sound_name :: jsstr
  sound_filename :: "jsstr option"
  sound_source :: sound_source

definition default_sound :: sound where
  "default_sound = \<lparr>sound_id = ''default'', sound_name = ''Default Deterrent'',
                    sound_filename = None, sound_source = BuiltIn\<rparr>"

definition initial_sounds :: "sound list" where
  "initial_sounds = [default_sound]"

definition sound_exists :: "sound list \<Rightarrow> jsval \<Rightarrow> bool" where
  "sound_exists sounds v \<longleftrightarrow> list_ex (\<lambda>s. strict_eq_str (sound_id s) v) sounds"

definition add_sound :: "sound list \<Rightarrow> sound \<Rightarrow> sound list" where
  "add_sound sounds s = sounds @ [s]"

definition sound_ids :: "sound list \<Rightarrow> jsstr list" where
  "sound_ids sounds = map sound_id sounds"

text \<open>
  The object literal of a sound as \<open>res.json\<close> sees it: the built-in one has
  the keys \<open>id, name, source\<close> (line 28), an uploaded one
  \<open>id, name, filename, source\<close> (lines 55-60).
\<close>

fun source_str :: "sound_source \<Rightarrow> jsstr" where
  "source_str BuiltIn = ''built-in''"
| "source_str Uploaded = ''uploaded''"

definition sound_json :: "sound \<Rightarrow> jsval" where
  "sound_json s =
     JObj ([(''id'', JStr (sound_id s)), (''name'', JStr (sound_name s))]
           @ (case sound_filename s of None \<Rightarrow> [] | Some f \<Rightarrow> [(''filename'', JStr f)])
           @ [(''source'', JStr (source_str (sound_source s)))])"

subsection \<open>Lemmas\<close>

lemma sound_exists_iff: "sound_exists sounds v \<longleftrightarrow> (\<exists>s\<in>set sounds. v = JStr (sound_id s))"
  by (auto simp: sound_exists_def strict_eq_str_def list_ex_iff)

lemma sound_exists_str: "sound_exists sounds v \<Longrightarrow> \<exists>i. v = JStr i \<and> i \<in> set (sound_ids sounds)"
  by (auto simp: sound_exists_iff sound_ids_def)

lemma sound_exists_JStr [simp]: "sound_exists sounds (JStr i) \<longleftrightarrow> i \<in> set (sound_ids sounds)"
  by (auto simp: sound_exists_iff sound_ids_def)

lemma sound_exists_non_string:
  "(\<And>i. v \<noteq> JStr i) \<Longrightarrow> \<not> sound_exists sounds v"
  by (auto simp: sound_exists_iff)

lemma sound_ids_add [simp]: "sound_ids (add_sound sounds s) = sound_ids sounds @ [sound_id s]"
  by (simp add: sound_ids_def add_sound_def)

lemma length_add_sound [simp]: "length (add_sound sounds s) = Suc (length sounds)"
  by (simp add: add_sound_def)

lemma prefix_add_sound [intro]: "prefix sounds (add_sound sounds s)"
  by (simp add: add_sound_def)

lemma prefix_add_sound_trans [intro]: "prefix xs sounds \<Longrightarrow> prefix xs (add_sound sounds s)"
  by (simp add: add_sound_def prefix_prefix)

lemma sound_ids_initial [simp]: "sound_ids initial_sounds = [''default'']"
  by (simp add: sound_ids_def initial_sounds_def default_sound_def)

end
