(* ===== verification/Settings_Store.thy ===== *)
theory Settings_Store
  imports Sound_Catalog
begin

text \<open>
  The settings record of index.js (lines 30-36) and the store operations the
  handlers perform on it: the select of \<open>POST /sounds/select\<close> (lines 69-75),
  the per-field merge of \<open>PUT /settings\<close> (lines 101-127) and the
  assignment an upload makes (line 63). The merge reads each field of the
  request object with \<open>next.f\<close>; a read on a nullish receiver throws, which is
  the \<open>None\<close> of every step (the handler passes \<open>req.body || {}\<close>, so it never
  happens; see \<open>update_settings_total\<close>).
\<close>

record settings =
  confidenceThreshold :: jsnum
  autoSound :: bool
  pushAlerts :: bool
  volume :: jsnum
  selectedSoundId :: jsval

definition initial_settings :: settings where
  "initial_settings = \<lparr>confidenceThreshold = Fin (1/2), autoSound = True, pushAlerts = True,
                       volume = Fin 70, selectedSoundId = JStr ''default''\<rparr>"

definition select_sound :: "sound list \<Rightarrow> jsval \<Rightarrow> settings \<Rightarrow> settings option" where
  "select_sound sounds soundId st =
     (if \<not> sound_exists sounds soundId then None
      else Some (st\<lparr>selectedSoundId := soundId\<rparr>))"

definition select_uploaded :: "jsstr \<Rightarrow> settings \<Rightarrow> settings" where
  "select_uploaded sid st = st\<lparr>selectedSoundId := JStr sid\<rparr>"

subsection \<open>\<open>PUT /settings\<close>, one step per \<open>if\<close> of the handler\<close>

definition upd_threshold :: "jsval \<Rightarrow> settings \<Rightarrow> settings option" where
  "upd_threshold next st = do {
     v \<leftarrow> js_get next ''confidenceThreshold'';
     Some (case v of JNum n \<Rightarrow> st\<lparr>confidenceThreshold := clamp_num 0 1 n\<rparr> | _ \<Rightarrow> st) }"

definition upd_auto_sound :: "jsval \<Rightarrow> settings \<Rightarrow> settings option" where
  "upd_auto_sound next st = do {
     v \<leftarrow> js_get next ''autoSound'';
     Some (case v of JBool b \<Rightarrow> st\<lparr>autoSound := b\<rparr> | _ \<Rightarrow> st) }"

definition upd_push_alerts :: "jsval \<Rightarrow> settings \<Rightarrow> settings option" where
  "upd_push_alerts next st = do {
     v \<leftarrow> js_get next ''pushAlerts'';
     Some (case v of JBool b \<Rightarrow> st\<lparr>pushAlerts := b\<rparr> | _ \<Rightarrow> st) }"

definition upd_volume :: "jsval \<Rightarrow> settings \<Rightarrow> settings option" where
  "upd_volume next st = do {
     v \<leftarrow> js_get next ''volume'';
     Some (case v of JNum n \<Rightarrow> st\<lparr>volume := clamp_num 0 100 n\<rparr> | _ \<Rightarrow> st) }"

definition upd_selected :: "sound list \<Rightarrow> jsval \<Rightarrow> settings \<Rightarrow> settings option" where
  "upd_selected sounds next st = do {
     v \<leftarrow> js_get next ''selectedSoundId'';
     Some (case v of
             JStr _ \<Rightarrow> if sound_exists sounds v then st\<lparr>selectedSoundId := v\<rparr> else st
           | _ \<Rightarrow> st) }"

definition update_settings :: "sound list \<Rightarrow> jsval \<Rightarrow> settings \<Rightarrow> settings option" where
  "update_settings sounds next st = do {
     st1 \<leftarrow> upd_threshold next st;
     st2 \<leftarrow> upd_auto_sound next st1;
     st3 \<leftarrow> upd_push_alerts next st2;
     st4 \<leftarrow> upd_volume next st3;
     upd_selected sounds next st4 }"

text \<open>
  \<open>res.json({ settings })\<close>: the record as an object with the keys in the
  order of its literal.
\<close>

definition settings_json :: "settings \<Rightarrow> jsval" where
  "settings_json st =
     JObj [(''confidenceThreshold'', JNum (confidenceThreshold st)), (''autoSound'', JBool (autoSound st)),
           (''pushAlerts'', JBool (pushAlerts st)), (''volume'', JNum (volume st)),
           (''selectedSoundId'', selectedSoundId st)]"

text \<open>
  The merge written out field by field: what \<open>PUT /settings\<close> leaves in the
  record for a request object \<open>next\<close>.
\<close>

definition merged_settings :: "sound list \<Rightarrow> jsval \<Rightarrow> settings \<Rightarrow> settings" where
  "merged_settings sounds next st = st\<lparr>
     confidenceThreshold := (case js_get_opt next ''confidenceThreshold'' of
                               JNum n \<Rightarrow> clamp_num 0 1 n | _ \<Rightarrow> confidenceThreshold st),
     autoSound := (case js_get_opt next ''autoSound'' of JBool b \<Rightarrow> b | _ \<Rightarrow> autoSound st),
     pushAlerts := (case js_get_opt next ''pushAlerts'' of JBool b \<Rightarrow> b | _ \<Rightarrow> pushAlerts st),
     volume := (case js_get_opt next ''volume'' of JNum n \<Rightarrow> clamp_num 0 100 n | _ \<Rightarrow> volume st),
     selectedSoundId := (case js_get_opt next ''selectedSoundId'' of
                           JStr i \<Rightarrow> if i \<in> set (sound_ids sounds) then JStr i else selectedSoundId st
                         | _ \<Rightarrow> selectedSoundId st)\<rparr>"



subsection \<open>The invariant of the settings record\<close>

text \<open>
  The threshold is a number in [0, 1], the volume a number in [0, 100], and
  the selected id is the id of a sound of the catalog.
\<close>

definition threshold_ok :: "settings \<Rightarrow> bool" where
  "threshold_ok st \<longleftrightarrow> (case confidenceThreshold st of Fin r \<Rightarrow> 0 \<le> r \<and> r \<le> 1 | _ \<Rightarrow> False)"

definition volume_ok :: "settings \<Rightarrow> bool" where
  "volume_ok st \<longleftrightarrow> (case volume st of Fin v \<Rightarrow> 0 \<le> v \<and> v \<le> 100 | _ \<Rightarrow> False)"

definition selection_ok :: "sound list \<Rightarrow> settings \<Rightarrow> bool" where
  "selection_ok sounds st \<longleftrightarrow> sound_exists sounds (selectedSoundId st)"

subsection \<open>Lemmas\<close>

lemma js_get_nonnull:
  "v \<noteq> JUndef \<Longrightarrow> v \<noteq> JNull \<Longrightarrow> js_get v k = Some (js_get_opt v k)"
  by (cases v) (auto simp: js_get_opt_def)

lemma json_like_get_num:
  "json_like v \<Longrightarrow> js_get_opt v k = JNum n \<Longrightarrow> n \<noteq> NaN"
proof (cases v)
  case (JObj kvs)
  assume j: "json_like v" and g: "js_get_opt v k = JNum n"
  from g JObj have "(k, JNum n) \<in> set kvs"
    by (auto simp: js_get_opt_def split: option.splits dest: map_of_SomeD)
  with j JObj have "json_like (JNum n)" by (auto simp: list_all_iff)
  then show ?thesis by (auto split: jsnum.splits)
qed (auto simp: js_get_opt_def)

lemma upd_steps:
  assumes "next \<noteq> JUndef" "next \<noteq> JNull"
  shows "upd_threshold next st = Some (st\<lparr>confidenceThreshold := (case js_get_opt next ''confidenceThreshold'' of
                               JNum n \<Rightarrow> clamp_num 0 1 n | _ \<Rightarrow> confidenceThreshold st)\<rparr>)"
    and "upd_auto_sound next st = Some (st\<lparr>autoSound := (case js_get_opt next ''autoSound'' of JBool b \<Rightarrow> b | _ \<Rightarrow> autoSound st)\<rparr>)"
    and "upd_push_alerts next st = Some (st\<lparr>pushAlerts := (case js_get_opt next ''pushAlerts'' of JBool b \<Rightarrow> b | _ \<Rightarrow> pushAlerts st)\<rparr>)"
    and "upd_volume next st = Some (st\<lparr>volume := (case js_get_opt next ''volume'' of JNum n \<Rightarrow> clamp_num 0 100 n | _ \<Rightarrow> volume st)\<rparr>)"
    and "upd_selected sounds next st = Some (st\<lparr>selectedSoundId := (case js_get_opt next ''selectedSoundId'' of
                           JStr i \<Rightarrow> if i \<in> set (sound_ids sounds) then JStr i else selectedSoundId st
                         | _ \<Rightarrow> selectedSoundId st)\<rparr>)"
  using assms
  by (simp_all add: upd_threshold_def upd_auto_sound_def upd_push_alerts_def upd_volume_def
                    upd_selected_def js_get_nonnull split: jsval.split)

lemma update_settings_eq:
  "next \<noteq> JUndef \<Longrightarrow> next \<noteq> JNull \<Longrightarrow> update_settings sounds next st = Some (merged_settings sounds next st)"
  by (simp add: update_settings_def upd_steps merged_settings_def cong: jsval.case_cong if_cong)

lemma clamp_field_ok:
  assumes "lo \<le> hi" and "\<And>n. v = JNum n \<Longrightarrow> n \<noteq> NaN"
    and "case old of Fin r \<Rightarrow> lo \<le> r \<and> r \<le> hi | _ \<Rightarrow> False"
  shows "case (case v of JNum n \<Rightarrow> clamp_num lo hi n | _ \<Rightarrow> old) of
           Fin r \<Rightarrow> lo \<le> r \<and> r \<le> hi | _ \<Rightarrow> False"
proof (cases v)
  case (JNum n)
  with assms(2) have "n \<noteq> NaN" by simp
  with assms(1) obtain r where "clamp_num lo hi n = Fin r" "lo \<le> r" "r \<le> hi"
    using clamp_num_range by blast
  with JNum show ?thesis by simp
qed (use assms(3) in simp_all)

lemma merged_threshold_ok [inv_intros]:
  assumes "json_like next" and "threshold_ok st"
  shows "threshold_ok (merged_settings sounds next st)"
proof -
  have "\<And>n. js_get_opt next ''confidenceThreshold'' = JNum n \<Longrightarrow> n \<noteq> NaN"
    using assms(1) by (rule json_like_get_num)
  from clamp_field_ok [OF _ this] assms(2) show ?thesis
    by (simp add: threshold_ok_def merged_settings_def)
qed

lemma merged_volume_ok [inv_intros]:
  assumes "json_like next" and "volume_ok st"
  shows "volume_ok (merged_settings sounds next st)"
proof -
  have "\<And>n. js_get_opt next ''volume'' = JNum n \<Longrightarrow> n \<noteq> NaN"
    using assms(1) by (rule json_like_get_num)
  from clamp_field_ok [OF _ this] assms(2) show ?thesis
    by (simp add: volume_ok_def merged_settings_def)
qed

lemma merged_selection_ok [inv_intros]:
  "selection_ok sounds st \<Longrightarrow> selection_ok sounds (merged_settings sounds next st)"
  by (auto simp: selection_ok_def merged_settings_def split: jsval.split)

lemma select_sound_Some:
  "select_sound sounds v st = Some st' \<longleftrightarrow> sound_exists sounds v \<and> st' = st\<lparr>selectedSoundId := v\<rparr>"
  by (auto simp: select_sound_def)

lemma select_sound_selection_ok [inv_intros]:
  "select_sound sounds v st = Some st' \<Longrightarrow> selection_ok sounds st'"
  by (simp add: select_sound_Some selection_ok_def)

lemma selection_ok_add [inv_intros]:
  "selection_ok sounds st \<Longrightarrow> selection_ok (add_sound sounds s) st"
  by (auto simp: selection_ok_def sound_exists_iff add_sound_def)

lemma select_uploaded_ok [inv_intros]:
  "sound_id s = i \<Longrightarrow> selection_ok (add_sound sounds s) (select_uploaded i st)"
  by (simp add: selection_ok_def select_uploaded_def)

lemma select_uploaded_ranges [simp]:
  "threshold_ok (select_uploaded i st) = threshold_ok st"
  "volume_ok (select_uploaded i st) = volume_ok st"
  by (simp_all add: threshold_ok_def volume_ok_def select_uploaded_def)

lemma select_sound_ranges:
  "select_sound sounds v st = Some st' \<Longrightarrow> threshold_ok st' = threshold_ok st \<and> volume_ok st' = volume_ok st"
  by (auto simp: select_sound_Some threshold_ok_def volume_ok_def)

lemma initial_settings_ok:
  "threshold_ok initial_settings" "volume_ok initial_settings" "selection_ok initial_sounds initial_settings"
  by (simp_all add: threshold_ok_def volume_ok_def selection_ok_def initial_settings_def)

lemma case_guard_ill_typed:
  "js_typeof v \<noteq> ''number'' \<Longrightarrow> (case v of JNum n \<Rightarrow> f n | _ \<Rightarrow> d) = d"
  "js_typeof v \<noteq> ''boolean'' \<Longrightarrow> (case v of JBool b \<Rightarrow> g b | _ \<Rightarrow> d') = d'"
  "js_typeof v \<noteq> ''string'' \<Longrightarrow> (case v of JStr i \<Rightarrow> h i | _ \<Rightarrow> d'') = d''"
  by (cases v; simp)+

lemma merged_settings_ill_typed:
  assumes "js_typeof (js_get_opt next ''confidenceThreshold'') \<noteq> ''number''"
    and "js_typeof (js_get_opt next ''autoSound'') \<noteq> ''boolean''"
    and "js_typeof (js_get_opt next ''pushAlerts'') \<noteq> ''boolean''"
    and "js_typeof (js_get_opt next ''volume'') \<noteq> ''number''"
    and "js_typeof (js_get_opt next ''selectedSoundId'') \<noteq> ''string''"
  shows "merged_settings ss next st = st"
  using assms by (simp add: merged_settings_def case_guard_ill_typed)

end
