(* ===== verification/JS_Number.thy ===== *)
theory JS_Number
  imports JS_Values
begin

text \<open>
  The two number conversions of the server: \<open>Number(x)\<close> (ECMAScript ToNumber,
  with StringToNumber for strings), used by the detection handler on the
  client's \<open>confidence\<close>, and \<open>String(n)\<close> on the millisecond clock
  \<open>Date.now()\<close>, which makes the ids of uploaded sounds and of alerts and the
  prefix of stored file names. Decimal literals are read exactly (no rounding
  to binary64).
\<close>

subsection \<open>Digits\<close>

fun dec_acc :: "nat \<Rightarrow> jsstr \<Rightarrow> nat" where
  "dec_acc n [] = n"
| "dec_acc n (c # cs) = dec_acc (10 * n + digit_val c) cs"

text \<open>The value of a digit in radix notation: \<open>0\<close>-\<open>9\<close>, then letters of either case.\<close>

definition char_digit :: "char \<Rightarrow> nat option" where
  "char_digit c =
     (let n = (of_char c :: nat) in
      if 48 \<le> n \<and> n \<le> 57 then Some (n - 48)
      else if 97 \<le> n \<and> n \<le> 122 then Some (n - 87)
      else if 65 \<le> n \<and> n \<le> 90 then Some (n - 55)
      else None)"

fun radix_value :: "nat \<Rightarrow> nat \<Rightarrow> jsstr \<Rightarrow> nat option" where
  "radix_value r n [] = Some n"
| "radix_value r n (c # cs) =
     (case char_digit c of
        Some d \<Rightarrow> if d < r then radix_value r (r * n + d) cs else None
      | None \<Rightarrow> None)"

definition scale10 :: "nat \<Rightarrow> int \<Rightarrow> real" where
  "scale10 m e = (if 0 \<le> e then real m * 10 ^ nat e else real m / 10 ^ nat (- e))"

subsection \<open>StringToNumber\<close>

text \<open>
  \<open>StrWhiteSpace\<close> is stripped at both ends; the empty string is 0; a
  \<open>NonDecimalIntegerLiteral\<close> (\<open>0x\<close>, \<open>0o\<close>, \<open>0b\<close>, no sign) is read in its
  radix; otherwise a \<open>StrDecimalLiteral\<close>: an optional sign, then
  \<open>Infinity\<close> or digits with an optional fraction and exponent. Anything else
  is NaN.
\<close>

definition trim_js :: "jsstr \<Rightarrow> jsstr" where
  "trim_js s = rev (dropWhile is_js_space (rev (dropWhile is_js_space s)))"

definition parse_digits :: "jsstr \<Rightarrow> int option" where
  "parse_digits ds = (if ds \<noteq> [] \<and> list_all is_digit ds then Some (int (dec_acc 0 ds)) else None)"

fun parse_exponent :: "jsstr \<Rightarrow> int option" where
  "parse_exponent [] = Some 0"
| "parse_exponent (c # r) =
     (if c = CHR ''e'' \<or> c = CHR ''E'' then
        (case r of
           s # ds \<Rightarrow>
             if s = CHR ''+'' then parse_digits ds
             else if s = CHR ''-'' then map_option uminus (parse_digits ds)
             else parse_digits r
         | [] \<Rightarrow> None)
      else None)"

definition parse_unsigned_decimal :: "jsstr \<Rightarrow> jsnum option" where
  "parse_unsigned_decimal s =
     (if s = ''Infinity'' then Some PosInf
      else
        let ip = takeWhile is_digit s;
            r1 = dropWhile is_digit s;
            (fp, r2) = (case r1 of
                          c # r \<Rightarrow> if c = CHR ''.'' then (takeWhile is_digit r, dropWhile is_digit r)
                                   else ([], r1)
                        | [] \<Rightarrow> ([], []))
        in if ip = [] \<and> fp = [] then None
           else map_option (\<lambda>e. to_binary64 (scale10 (dec_acc 0 (ip @ fp)) (e - int (length fp))))
                  (parse_exponent r2))"

definition radix_of :: "char \<Rightarrow> nat option" where
  "radix_of c =
     (if c = CHR ''x'' \<or> c = CHR ''X'' then Some 16
      else if c = CHR ''o'' \<or> c = CHR ''O'' then Some 8
      else if c = CHR ''b'' \<or> c = CHR ''B'' then Some 2
      else None)"

fun radix_literal :: "jsstr \<Rightarrow> jsnum option" where
  "radix_literal (c0 # c # ds) =
     (if c0 = CHR ''0'' then
        (case radix_of c of
           None \<Rightarrow> None
         | Some r \<Rightarrow> Some (if ds = [] then NaN
                          else case radix_value r 0 ds of None \<Rightarrow> NaN | Some n \<Rightarrow> to_binary64 (real n)))
      else None)"
| "radix_literal _ = None"

fun negate_num :: "jsnum \<Rightarrow> jsnum" where
  "negate_num (Fin x) = Fin (- x)"
| "negate_num PosInf = NegInf"
| "negate_num NegInf = PosInf"
| "negate_num NaN = NaN"

definition parse_numeric :: "jsstr \<Rightarrow> jsnum" where
  "parse_numeric t =
     (case radix_literal t of
        Some n \<Rightarrow> n
      | None \<Rightarrow>
          (case t of
             c # r \<Rightarrow>
               if c = CHR ''+'' then (case parse_unsigned_decimal r of Some n \<Rightarrow> n | None \<Rightarrow> NaN)
               else if c = CHR ''-'' then
                 (case parse_unsigned_decimal r of Some n \<Rightarrow> negate_num n | None \<Rightarrow> NaN)
               else (case parse_unsigned_decimal t of Some n \<Rightarrow> n | None \<Rightarrow> NaN)
           | [] \<Rightarrow> NaN))"

definition string_to_number :: "jsstr \<Rightarrow> jsnum" where
  "string_to_number s = (let t = trim_js s in if t = [] then Fin 0 else parse_numeric t)"

subsection \<open>ToNumber\<close>

text \<open>
  An object converts through \<open>"[object Object]"\<close>, which is NaN. An array
  converts through its \<open>join(",")\<close>: the empty array is \<open>""\<close>, so 0; an array
  of two or more elements contains a comma, so NaN; a one-element array
  converts as the string of its element, which is \<open>""\<close> for \<open>null\<close> and
  \<open>undefined\<close>, \<open>"true"\<close> or \<open>"false"\<close> (NaN) for a boolean, and otherwise
  converts to the element's own number (the string of a number reads back as
  that number).
\<close>

fun js_to_number :: "jsval \<Rightarrow> jsnum" where
  "js_to_number JUndef = NaN"
| "js_to_number JNull = Fin 0"
| "js_to_number (JBool b) = Fin (if b then 1 else 0)"
| "js_to_number (JNum n) = n"
| "js_to_number (JStr s) = string_to_number s"
| "js_to_number (JObj _) = NaN"
| "js_to_number (JArr []) = Fin 0"
| "js_to_number (JArr [v]) =
     (case v of JUndef \<Rightarrow> Fin 0 | JNull \<Rightarrow> Fin 0 | JBool _ \<Rightarrow> NaN | _ \<Rightarrow> js_to_number v)"
| "js_to_number (JArr (v # w # vs)) = NaN"

subsection \<open>\<open>String(n)\<close> for a clock reading\<close>

text \<open>
  \<open>Number.prototype.toString\<close> writes an integer below \<open>10^21\<close> in plain
  decimal; every \<open>Date.now()\<close> of the next few hundred million years is one.
\<close>

definition digit_char :: "nat \<Rightarrow> char" where
  "digit_char d = ''0123456789'' ! d"

fun nat_to_dec :: "nat \<Rightarrow> jsstr" where
  "nat_to_dec n = (if n < 10 then [digit_char n] else nat_to_dec (n div 10) @ [digit_char (n mod 10)])"

declare nat_to_dec.simps [simp del]

subsection \<open>Lemmas: digits and the decimal round trip\<close>

lemma negate_num_NaN_iff [simp]: "negate_num x = NaN \<longleftrightarrow> x = NaN"
  by (cases x) simp_all

lemma dec_acc_append: "dec_acc n (xs @ ys) = dec_acc (dec_acc n xs) ys"
  by (induction xs arbitrary: n) auto

lemma digit_char_props:
  assumes "d < 10"
  shows "is_digit (digit_char d)" and "digit_val (digit_char d) = d"
proof -
  have "d \<in> {0,1,2,3,4,5,6,7,8,9}" using assms by auto
  then show "is_digit (digit_char d)" and "digit_val (digit_char d) = d"
    by (auto simp: digit_char_def is_digit_def digit_val_def)
qed

lemma nat_to_dec_nonempty [simp]: "nat_to_dec n \<noteq> []"
  by (subst nat_to_dec.simps) simp

lemma nat_to_dec_ne: "nat_to_dec n \<noteq> []"
  by (subst nat_to_dec.simps) simp

lemma nat_to_dec_digits: "list_all is_digit (nat_to_dec n)"
proof (induction n rule: nat_to_dec.induct)
  case (1 n)
  then show ?case by (subst nat_to_dec.simps) (auto simp: digit_char_props)
qed

lemma dec_acc_nat_to_dec: "dec_acc 0 (nat_to_dec n) = n"
proof (induction n rule: nat_to_dec.induct)
  case (1 n)
  show ?case
  proof (cases "n < 10")
    case True
    then show ?thesis by (subst nat_to_dec.simps) (simp add: digit_char_props)
  next
    case False
    with "1" have "dec_acc 0 (nat_to_dec (n div 10)) = n div 10" by simp
    with False show ?thesis
      by (subst nat_to_dec.simps) (simp add: dec_acc_append digit_char_props)
  qed
qed
lemma trim_js_no_space: "\<not> list_ex is_js_space t \<Longrightarrow> trim_js t = t"
proof -
  assume h: "\<not> list_ex is_js_space t"
  have "\<And>xs. \<not> list_ex is_js_space xs \<Longrightarrow> dropWhile is_js_space xs = xs"
    by (case_tac xs) auto
  with h show ?thesis by (simp add: trim_js_def list_ex_rev)
qed

lemma radix_of_Some: "radix_of c \<noteq> None \<Longrightarrow> \<not> is_digit c"
  unfolding radix_of_def by (simp split: if_splits; elim disjE; simp add: is_digit_def)

lemma radix_of_digit: "is_digit c \<Longrightarrow> radix_of c = None"
  using radix_of_Some by blast

lemma radix_literal_digits: "list_all is_digit t \<Longrightarrow> radix_literal t = None"
  by (cases t rule: radix_literal.cases) (auto simp: radix_of_digit)
lemma string_to_number_digits:
  assumes "t \<noteq> []" and "list_all is_digit t"
  shows "string_to_number t = to_binary64 (real (dec_acc 0 t))"
proof -
  have nosp: "\<not> list_ex is_js_space t"
    using assms(2) by (auto simp: list_all_iff list_ex_iff)
  obtain c r where t: "t = c # r" using assms(1) by (cases t) auto
  have c: "is_digit c" using assms(2) t by simp
  then have sgn: "c \<noteq> CHR ''+''" "c \<noteq> CHR ''-''" "t \<noteq> ''Infinity''"
    using t by (auto simp: is_digit_def)
  have tw: "takeWhile is_digit t = t" and dw: "dropWhile is_digit t = []"
    using assms(2) by (simp_all add: list_all_iff)
  have dec: "parse_unsigned_decimal t = Some (to_binary64 (real (dec_acc 0 t)))"
    using sgn(3) assms(1) unfolding parse_unsigned_decimal_def Let_def tw dw
    by (simp add: scale10_def)
  have "parse_numeric t = (case parse_unsigned_decimal t of Some n \<Rightarrow> n | None \<Rightarrow> NaN)"
    using t sgn(1,2) assms(2) by (simp add: parse_numeric_def radix_literal_digits)
  with dec nosp assms(1) show ?thesis
    by (simp add: string_to_number_def trim_js_no_space)
qed

lemma dec_acc_shift: "dec_acc n xs = n * 10 ^ length xs + dec_acc 0 xs"
proof (induction xs arbitrary: n)
  case (Cons c cs)
  have "dec_acc n (c # cs) = (10 * n + digit_val c) * 10 ^ length cs + dec_acc 0 cs"
    using Cons.IH [of "10 * n + digit_val c"] by simp
  moreover have "dec_acc 0 (c # cs) = digit_val c * 10 ^ length cs + dec_acc 0 cs"
    using Cons.IH [of "digit_val c"] by simp
  ultimately show ?case by (simp add: algebra_simps)
qed simp

lemma dec_acc_zeros: "dec_acc 0 (replicate j CHR ''0'' @ ds) = dec_acc 0 ds"
  by (induction j) (simp_all add: digit_val_def)

lemma nat_to_dec_length: "n < 10 ^ k \<Longrightarrow> 0 < k \<Longrightarrow> length (nat_to_dec n) \<le> k"
proof (induction n arbitrary: k rule: nat_to_dec.induct)
  case (1 n)
  show ?case
  proof (cases "n < 10")
    case False
    then obtain k' where k: "k = Suc k'" using "1.prems" by (cases k) auto
    have "n div 10 < 10 ^ k'" using "1.prems"(1) k by (simp add: less_mult_imp_div_less mult.commute)
    moreover have "0 < k'" using False "1.prems"(1) k by (cases k') auto
    ultimately have "length (nat_to_dec (n div 10)) \<le> k'" using "1.IH" False by blast
    then show ?thesis using False k by (subst nat_to_dec.simps) simp
  qed (use "1.prems" in \<open>subst nat_to_dec.simps, simp\<close>)
qed

lemma nat_to_dec_hd: "0 < n \<Longrightarrow> hd (nat_to_dec n) \<noteq> CHR ''0''"
proof (induction n rule: nat_to_dec.induct)
  case (1 n)
  show ?case
  proof (cases "n < 10")
    case True
    then have "n \<in> {1,2,3,4,5,6,7,8,9}" using "1.prems" by auto
    then show ?thesis by (subst nat_to_dec.simps) (auto simp: digit_char_def)
  next
    case False
    then have "hd (nat_to_dec (n div 10)) \<noteq> CHR ''0''" using "1.IH" by simp
    then show ?thesis using False by (subst nat_to_dec.simps) simp
  qed
qed

lemma takeWhile_digits_delim:
  "list_all is_digit ds \<Longrightarrow> (rest = [] \<or> \<not> is_digit (hd rest)) \<Longrightarrow>
   takeWhile is_digit (ds @ rest) = ds \<and> dropWhile is_digit (ds @ rest) = rest"
proof (induction ds)
  case Nil
  then show ?case by (cases rest) auto
qed auto

subsection \<open>Lemmas: the clock ids\<close>

text \<open>\<open>Number(String(n))\<close> is \<open>n\<close> for every clock reading \<open>n\<close>.\<close>

lemma string_to_number_nat_to_dec:
  assumes "n < 10 ^ 21"
  shows "string_to_number (nat_to_dec n) = Fin (real n)"
proof -
  have "real n = 0 \<or> (1 \<le> \<bar>real n\<bar> * 10 ^ 6 \<and> \<bar>real n\<bar> < 10 ^ 21)"
  proof (cases "n = 0")
    case False
    have "(1::real) \<le> real n" using False by simp
    moreover have "real n < 10 ^ 21" using assms by (metis of_nat_less_iff of_nat_numeral of_nat_power)
    ultimately show ?thesis by simp
  qed simp
  then show ?thesis using nat_to_dec_digits [of n]
    by (simp add: string_to_number_digits dec_acc_nat_to_dec nat_to_dec_ne to_binary64_plain)
qed

text \<open>
  Ids made from clock readings are equal exactly when the readings are, and
  none of them is the built-in id \<open>"default"\<close>.
\<close>

lemma nat_to_dec_injective:
  "(nat_to_dec m = nat_to_dec n \<longleftrightarrow> m = n) \<and> nat_to_dec n \<noteq> ''default''"
proof
  show "nat_to_dec m = nat_to_dec n \<longleftrightarrow> m = n"
    by (metis dec_acc_nat_to_dec)
  have "\<not> list_all is_digit ''default''"
    by (simp add: is_digit_def)
  then show "nat_to_dec n \<noteq> ''default''"
    using nat_to_dec_digits [of n] by auto
qed

end
