(* ===== verification/Alert_Log.thy ===== *)
theory Alert_Log
  imports JS_Number
begin

text \<open>
  The alert log: the module-level array \<open>alerts\<close> of index.js (line 26) and
  the alert the detection handler builds and puts in front of it with
  \<open>unshift\<close> (lines 81-87). The clock reading \<open>Date.now()\<close> and the
  wall-clock string \<open>new Date().toLocaleTimeString()\<close> are inputs.
\<close>

record alert =
  alert_id :: jsstr
  alert_time :: jsval
  alert_confidence :: jsnum

text \<open>\<open>Number(req.body?.confidence) || 0.8\<close> (line 81).\<close>

definition detection_confidence :: "jsval \<Rightarrow> jsnum" where
  "detection_confidence body = num_or (js_to_number (js_get_opt body ''confidence'')) (Fin (8 / 10))"

text \<open>\<open>req.body?.time || new Date().toLocaleTimeString()\<close> (line 82).\<close>

definition detection_time :: "jsval \<Rightarrow> jsstr \<Rightarrow> jsval" where
  "detection_time body local_time = js_or (js_get_opt body ''time'') (JStr local_time)"

definition record_detection :: "nat \<Rightarrow> jsstr \<Rightarrow> jsval \<Rightarrow> alert list \<Rightarrow> alert list" where
  "record_detection now local_time body alerts =
     \<lparr>alert_id = nat_to_dec now, alert_time = detection_time body local_time,
      alert_confidence = detection_confidence body\<rparr> # alerts"

definition alert_json :: "alert \<Rightarrow> jsval" where
  "alert_json a = JObj [(''id'', JStr (alert_id a)), (''time'', alert_time a),
                        (''confidence'', JNum (alert_confidence a))]"

subsection \<open>Lemmas\<close>

lemma detection_confidence_truthy: "num_truthy (detection_confidence body)"
  by (simp add: detection_confidence_def num_or_def)

lemma record_detection_Cons:
  "record_detection now lt body alerts = a # rest \<longleftrightarrow>
     rest = alerts \<and> alert_id a = nat_to_dec now \<and> alert_time a = detection_time body lt
     \<and> alert_confidence a = detection_confidence body"
  by (auto simp: record_detection_def)

lemma length_record_detection [simp]:
  "length (record_detection now lt body alerts) = Suc (length alerts)"
  by (simp add: record_detection_def)

lemma suffix_record_detection [intro]: "suffix alerts (record_detection now lt body alerts)"
  by (simp add: record_detection_def suffix_def)

subsection \<open>Properties\<close>

text \<open>
  C12. The confidence the detection handler stores is never NaN and never 0:
  \<open>Number(x) || 0.8\<close> replaces every falsy number by 0.8.
\<close>

theorem detection_confidence_valid: "detection_confidence body \<noteq> NaN \<and> detection_confidence body \<noteq> Fin 0"
  using detection_confidence_truthy [of body] by auto

text \<open>
  C32. The default 0.8 is stored exactly when the reported confidence reads
  as 0 or as no number (or is 0.8 itself): a valid reported 0, written 0,
  "0", "", false or null, or a literal below the binary64 range such as
  1e-400, is recorded as 0.8, as if it were missing (the spec says the
  default applies only when the value is not a valid number).
\<close>

theorem detection_zero_confidence:
  "detection_confidence body = Fin (8 / 10) \<longleftrightarrow>
     js_to_number (js_get_opt body ''confidence'') \<in> {Fin 0, NaN, Fin (8 / 10)}"
proof (cases "js_to_number (js_get_opt body ''confidence'')")
  case (Fin x)
  then show ?thesis by (auto simp: detection_confidence_def num_or_def)
qed (simp_all add: detection_confidence_def num_or_def)

text \<open>
  C33. A truthy \<open>time\<close> of the request is stored as it is, whatever its type:
  a number or an object becomes the alert's \<open>time\<close> (the spec's data model
  says \<open>time\<close> is a string).
\<close>

theorem detection_time_kept:
  "js_truthy t \<Longrightarrow> detection_time (JObj [(''time'', t)]) lt = t"
  by (simp add: detection_time_def js_get_opt_def js_or_def)

theorem detection_time_kept_witness:
  "js_truthy (JNum (Fin 5)) \<and> detection_time (JObj [(''time'', JNum (Fin 5))]) ''10:00:00'' = JNum (Fin 5)"
  using detection_time_kept [of "JNum (Fin 5)" "''10:00:00''"] by simp

end
