(* ===== verification/Upload_Storage.thy ===== *)
theory Upload_Storage
  imports JS_Number
begin

text \<open>
  The multer disk storage of index.js (lines 17-24) and what
  \<open>upload.single("file")\<close> hands to the upload handler: no file, an error
  (a file part under another field name, more than one file, or a failed
  disk write; multer passes it to Express, which answers 500), or the stored
  file with its original name and the generated file name
  \<open>`${Date.now()}-${safeName}`\<close>, where \<open>safeName\<close> replaces every run of
  white space of the original name by one \<open>-\<close> (\<open>replace(/\s+/g, "-")\<close>).
  The disk is a store from file names to contents (\<open>multer_disk\<close>);
  the directory creation (lines 12-15) is in \<open>Startup\<close>.
\<close>

text \<open>
  The global replace scans left to right; at a white-space character the
  greedy \<open>\s+\<close> takes the whole run, which becomes one \<open>-\<close>.
\<close>

function safe_name :: "jsstr \<Rightarrow> jsstr" where
  "safe_name [] = []"
| "safe_name (c # cs) =
     (if is_js_space c then CHR ''-'' # safe_name (dropWhile is_js_space cs) else c # safe_name cs)"
  by pat_completeness auto
termination
  by (relation "measure length") (auto simp: le_imp_less_Suc)

definition multer_filename :: "nat \<Rightarrow> jsstr \<Rightarrow> jsstr" where
  "multer_filename now originalname = nat_to_dec now @ ''-'' @ safe_name originalname"

datatype upload_result = NoFile | UploadError | Stored jsstr jsstr

text \<open>
  The file parts of a multipart request, as (field name, original name);
  whether the disk write succeeds and the clock reading of the filename
  callback are inputs.
\<close>

definition multer_single :: "jsstr \<Rightarrow> bool \<Rightarrow> nat \<Rightarrow> (jsstr \<times> jsstr) list \<Rightarrow> upload_result" where
  "multer_single field disk_ok now files =
     (case files of
        [] \<Rightarrow> NoFile
      | [(f, name)] \<Rightarrow>
          if f \<noteq> field \<or> \<not> disk_ok then UploadError else Stored name (multer_filename now name)
      | _ \<Rightarrow> UploadError)"

subsection \<open>The disk storage\<close>

text \<open>
  The uploads directory as a store from file names to contents. Multer's
  \<open>diskStorage\<close> writes an accepted file under the generated name in the
  directory the \<open>destination\<close> callback gives (line 18: \<open>uploadsDir\<close>,
  the only directory the server writes), replacing a file of the same name;
  on an error it removes what it wrote, so the directory is unchanged. A file
  part is (field name, original name, content).
\<close>

type_synonym disk = "jsstr \<rightharpoonup> jsstr"

definition file_parts :: "(jsstr \<times> jsstr \<times> jsstr) list \<Rightarrow> (jsstr \<times> jsstr) list" where
  "file_parts ps = map (\<lambda>(f, n, c). (f, n)) ps"

definition multer_disk :: "jsstr \<Rightarrow> bool \<Rightarrow> nat \<Rightarrow> (jsstr \<times> jsstr \<times> jsstr) list \<Rightarrow> disk \<Rightarrow> upload_result \<times> disk" where
  "multer_disk field disk_ok now ps d =
     (case multer_single field disk_ok now (file_parts ps) of
        Stored name filename \<Rightarrow> (Stored name filename, d(filename \<mapsto> snd (snd (hd ps))))
      | res \<Rightarrow> (res, d))"

subsection \<open>Lemmas\<close>

lemma filter_dropWhile:
  "(\<And>x. Q x \<Longrightarrow> \<not> P x) \<Longrightarrow> filter P (dropWhile Q xs) = filter P xs"
  by (induction xs) auto

lemma no_space_dropWhile: "\<not> list_ex is_js_space xs \<Longrightarrow> dropWhile is_js_space xs = xs"
  by (cases xs) auto

lemma safe_name_no_space: "\<not> list_ex is_js_space (safe_name s)"
  by (induction s rule: safe_name.induct) auto

lemma safe_name_id: "\<not> list_ex is_js_space s \<Longrightarrow> safe_name s = s"
  by (induction s rule: safe_name.induct) auto

lemma safe_name_length: "length (safe_name s) \<le> length s"
proof (induction s rule: safe_name.induct)
  case (2 c cs)
  have "length (dropWhile is_js_space cs) \<le> length cs" by simp
  with 2 show ?case by (auto intro: le_trans)
qed simp

lemma fst_multer_disk: "fst (multer_disk field ok now ps d) = multer_single field ok now (file_parts ps)"
  by (simp add: multer_disk_def split: upload_result.split)

lemma multer_disk_grows: "dom d \<subseteq> dom (snd (multer_disk field ok now ps d))"
  by (auto simp: multer_disk_def split: upload_result.split)

lemma multer_disk_Stored:
  "multer_single field ok now (file_parts ps) = Stored n f \<Longrightarrow>
   snd (multer_disk field ok now ps d) = d(f \<mapsto> snd (snd (hd ps)))"
  by (simp add: multer_disk_def)

subsection \<open>Lemmas: the file name\<close>

text \<open>
  A stored file name contains no white space: the clock digits, the dash
  and the normalised original name have none.
\<close>

theorem multer_filename_no_space: "\<not> list_ex is_js_space (multer_filename now name)"
proof -
  have "\<not> list_ex is_js_space (nat_to_dec now)"
    using nat_to_dec_digits [of now] by (auto simp: list_all_iff list_ex_iff)
  then show ?thesis by (simp add: multer_filename_def safe_name_no_space)
qed

text \<open>
  The normalisation only turns white space into dashes: apart from dashes,
  the name keeps exactly its non-white-space characters, in their order.
\<close>

theorem safe_name_keeps_text:
  "filter (\<lambda>c. c \<noteq> CHR ''-'') (safe_name s) = filter (\<lambda>c. \<not> is_js_space c \<and> c \<noteq> CHR ''-'') s"
proof (induction s rule: safe_name.induct)
  case (2 c cs)
  show ?case
  proof (cases "is_js_space c")
    case True
    with "2.IH"(1) show ?thesis by (simp add: filter_dropWhile)
  next
    case False
    with "2.IH"(2) show ?thesis by simp
  qed
qed simp

text \<open>
  Normalising a normalised name changes nothing.
\<close>

theorem safe_name_idempotent: "safe_name (safe_name s) = safe_name s"
  by (rule safe_name_id [OF safe_name_no_space])

end
