(* ===== verification/Json_Parse.thy ===== *)
theory Json_Parse
  imports JS_Number "HOL-Library.Code_Target_Nat"
begin

text \<open>
  \<open>JSON.parse\<close>, which \<open>express.json()\<close> applies to the body of a request
  (line 10), as a recursive-descent parser over the body text. Strings are
  lists of code units below 256, as everywhere in this development: a \<open>\u\<close>
  escape of a larger code unit is the error \<open>Unrepresentable\<close>, not a value.
  Numbers are read exactly (no rounding to binary64). Objects are built the
  way the specification builds them, a repeated key keeping its first place
  and its last value, and list their keys in own-property order. The
  properties at the end: the parser always returns, and what it returns is a
  JSON value in that order.
\<close>

datatype json_error = Syntax_Error | Unrepresentable

definition is_json_ws :: "char \<Rightarrow> bool" where
  "is_json_ws c \<longleftrightarrow> of_char c \<in> ({9, 10, 13, 32} :: nat set)"

definition skip_ws :: "jsstr \<Rightarrow> jsstr" where
  "skip_ws s = dropWhile is_json_ws s"

subsection \<open>Numbers\<close>

text \<open>
  A JSON number: an optional minus, an integer part without leading zeros,
  an optional fraction and an optional exponent. \<open>None\<close> is a syntax error.
\<close>

definition fraction_part :: "jsstr \<Rightarrow> (jsstr \<times> jsstr) option" where
  "fraction_part s =
     (case s of
        c # r \<Rightarrow>
          if c = CHR ''.'' then
            (let fp = takeWhile is_digit r in
             if fp = [] then None else Some (fp, dropWhile is_digit r))
          else Some ([], s)
      | [] \<Rightarrow> Some ([], []))"

definition exponent_part :: "jsstr \<Rightarrow> (int \<times> jsstr) option" where
  "exponent_part s =
     (case s of
        c # r \<Rightarrow>
          if c = CHR ''e'' \<or> c = CHR ''E'' then
            (let (neg, r1) = (case r of
                                d # r' \<Rightarrow> if d = CHR ''+'' then (False, r')
                                         else if d = CHR ''-'' then (True, r')
                                         else (False, r)
                              | [] \<Rightarrow> (False, r));
                 ds = takeWhile is_digit r1
             in if ds = [] then None
                else Some ((if neg then - 1 else 1) * int (dec_acc 0 ds), dropWhile is_digit r1))
          else Some (0, s)
      | [] \<Rightarrow> Some (0, []))"

definition parse_json_number :: "jsstr \<Rightarrow> (jsnum \<times> jsstr) option" where
  "parse_json_number s =
     (let (neg, s1) = (case s of
                         c # r \<Rightarrow> if c = CHR ''-'' then (True, r) else (False, s)
                       | [] \<Rightarrow> (False, s));
          ip = takeWhile is_digit s1
      in if ip = [] \<or> (hd ip = CHR ''0'' \<and> tl ip \<noteq> []) then None
         else
           case fraction_part (dropWhile is_digit s1) of
             None \<Rightarrow> None
           | Some (fp, r2) \<Rightarrow>
               (case exponent_part r2 of
                  None \<Rightarrow> None
                | Some (e, r3) \<Rightarrow>
                    let x = to_binary64 (scale10 (dec_acc 0 (ip @ fp)) (e - int (length fp)))
                    in Some (if neg then negate_num x else x, r3)))"

subsection \<open>Strings\<close>

text \<open>
  The two-character escapes of \<open>JSON.stringify\<close> (QuoteJSONString): the
  character and the letter after the backslash. \<open>JSON.parse\<close> reads these
  and \<open>\/\<close>; every other code unit below 32 is written as \<open>\u00xx\<close> with
  lower-case hex digits.
\<close>

definition short_escapes :: "(char \<times> char) list" where
  "short_escapes =
     [(CHR 0x08, CHR ''b''), (CHR 0x09, CHR ''t''), (CHR 0x0A, CHR ''n''), (CHR 0x0C, CHR ''f''),
      (CHR 0x0D, CHR ''r''), (CHR 0x22, CHR 0x22), (CHR 0x5C, CHR 0x5C)]"

definition hex4 :: "char \<Rightarrow> char \<Rightarrow> char \<Rightarrow> char \<Rightarrow> nat option" where
  "hex4 a b c d = radix_value 16 0 [a, b, c, d]"

definition unescape :: "char \<Rightarrow> char option" where
  "unescape e = map_of (map (\<lambda>(c, l). (l, c)) short_escapes @ [(CHR ''/'', CHR ''/'')]) e"

text \<open>The body of a string literal after its opening quote; the accumulator is reversed.\<close>

fun parse_string_body :: "jsstr \<Rightarrow> jsstr \<Rightarrow> json_error + (jsstr \<times> jsstr)" where
  "parse_string_body acc [] = Inl Syntax_Error"
| "parse_string_body acc (c # cs) =
     (if c = CHR 0x22 then Inr (rev acc, cs)
      else if c = CHR 0x5C then
        (case cs of
           [] \<Rightarrow> Inl Syntax_Error
         | e # cs' \<Rightarrow>
             if e = CHR ''u'' then
               (case cs' of
                  h1 # h2 # h3 # h4 # rest \<Rightarrow>
                    (case hex4 h1 h2 h3 h4 of
                       None \<Rightarrow> Inl Syntax_Error
                     | Some n \<Rightarrow> if n < 256 then parse_string_body (char_of n # acc) rest
                                else Inl Unrepresentable)
                | _ \<Rightarrow> Inl Syntax_Error)
             else
               (case unescape e of
                  None \<Rightarrow> Inl Syntax_Error
                | Some d \<Rightarrow> parse_string_body (d # acc) cs'))
      else if of_char c < (32 :: nat) then Inl Syntax_Error
      else parse_string_body (c # acc) cs)"

subsection \<open>Objects\<close>

text \<open>
  \<open>JSON.parse\<close> builds an object by CreateDataProperty in member order: a
  repeated key keeps its place and takes the later value. The object's own
  keys are then enumerated (by \<open>JSON.stringify\<close> and everything else) with
  the array indices first, ascending, then the other keys in creation order.
\<close>

fun obj_put :: "(jsstr \<times> jsval) list \<Rightarrow> jsstr \<Rightarrow> jsval \<Rightarrow> (jsstr \<times> jsval) list" where
  "obj_put [] k v = [(k, v)]"
| "obj_put ((k', v') # kvs) k v = (if k' = k then (k, v) # kvs else (k', v') # obj_put kvs k v)"

definition is_array_index :: "jsstr \<Rightarrow> bool" where
  "is_array_index k \<longleftrightarrow>
     k \<noteq> [] \<and> list_all is_digit k \<and> (k = ''0'' \<or> hd k \<noteq> CHR ''0'') \<and> dec_acc 0 k < 4294967295"

definition own_keys_order :: "(jsstr \<times> jsval) list \<Rightarrow> (jsstr \<times> jsval) list" where
  "own_keys_order kvs =
     sort_key (\<lambda>kv. dec_acc 0 (fst kv)) (filter (\<lambda>kv. is_array_index (fst kv)) kvs)
     @ filter (\<lambda>kv. \<not> is_array_index (fst kv)) kvs"

definition make_object :: "(jsstr \<times> jsval) list \<Rightarrow> jsval" where
  "make_object kvs = JObj (own_keys_order (fold (\<lambda>(k, v) acc. obj_put acc k v) kvs []))"

subsection \<open>The parser\<close>

text \<open>
  A recursive-descent parser with fuel: \<open>None\<close> is running out of fuel,
  \<open>Some (Inl e)\<close> a \<open>SyntaxError\<close> (or an unrepresentable escape), and
  \<open>Some (Inr (v, rest))\<close> a value followed by the unread text. Every call
  but one reads at least one character before the next call, and the one
  that does not (the first element of an array) is given the same fuel;
  \<open>json_parse\<close> gives one unit more than the length of the text, which is
  enough (\<open>parse_fuel\<close>).
\<close>

text \<open>A literal, a string or a number, after its first character \<open>c\<close>.\<close>

definition parse_scalar :: "char \<Rightarrow> jsstr \<Rightarrow> json_error + (jsval \<times> jsstr)" where
  "parse_scalar c r =
     (if c = CHR 0x22 then
        (case parse_string_body [] r of
           Inl e \<Rightarrow> Inl e
         | Inr (t, r') \<Rightarrow> Inr (JStr t, r'))
      else if c = CHR ''t'' then
        (if take 3 r = ''rue'' then Inr (JBool True, drop 3 r) else Inl Syntax_Error)
      else if c = CHR ''f'' then
        (if take 4 r = ''alse'' then Inr (JBool False, drop 4 r) else Inl Syntax_Error)
      else if c = CHR ''n'' then
        (if take 3 r = ''ull'' then Inr (JNull, drop 3 r) else Inl Syntax_Error)
      else
        (case parse_json_number (c # r) of
           None \<Rightarrow> Inl Syntax_Error
         | Some (x, r') \<Rightarrow> Inr (JNum x, r')))"

text \<open>The key of an object member and its colon.\<close>

definition parse_key :: "jsstr \<Rightarrow> json_error + (jsstr \<times> jsstr)" where
  "parse_key s =
     (case skip_ws s of
        c # r \<Rightarrow>
          if c = CHR 0x22 then
            (case parse_string_body [] r of
               Inl e \<Rightarrow> Inl e
             | Inr (k, r1) \<Rightarrow>
                 (case skip_ws r1 of
                    d # r2 \<Rightarrow> if d = CHR '':'' then Inr (k, r2) else Inl Syntax_Error
                  | [] \<Rightarrow> Inl Syntax_Error))
          else Inl Syntax_Error
      | [] \<Rightarrow> Inl Syntax_Error)"

fun parse_value :: "nat \<Rightarrow> jsstr \<Rightarrow> (json_error + (jsval \<times> jsstr)) option"
and parse_elements :: "nat \<Rightarrow> jsval list \<Rightarrow> jsstr \<Rightarrow> (json_error + (jsval \<times> jsstr)) option"
and parse_members :: "nat \<Rightarrow> (jsstr \<times> jsval) list \<Rightarrow> jsstr \<Rightarrow> (json_error + (jsval \<times> jsstr)) option"
where
  "parse_value 0 s = None"
| "parse_value (Suc n) s =
     (case skip_ws s of
        [] \<Rightarrow> Some (Inl Syntax_Error)
      | c # r \<Rightarrow>
          if c = CHR ''['' then
            (case skip_ws r of
               d # r' \<Rightarrow> if d = CHR '']'' then Some (Inr (JArr [], r')) else parse_elements n [] r
             | [] \<Rightarrow> Some (Inl Syntax_Error))
          else if c = CHR ''{'' then
            (case skip_ws r of
               d # r' \<Rightarrow> if d = CHR ''}'' then Some (Inr (JObj [], r')) else parse_members n [] r
             | [] \<Rightarrow> Some (Inl Syntax_Error))
          else Some (parse_scalar c r))"
| "parse_elements 0 acc s = None"
| "parse_elements (Suc n) acc s =
     (case parse_value (Suc n) s of
        Some (Inr (v, r)) \<Rightarrow>
          (case skip_ws r of
             c # r' \<Rightarrow>
               if c = CHR '','' then parse_elements n (acc @ [v]) r'
               else if c = CHR '']'' then Some (Inr (JArr (acc @ [v]), r'))
               else Some (Inl Syntax_Error)
           | [] \<Rightarrow> Some (Inl Syntax_Error))
      | res \<Rightarrow> res)"
| "parse_members 0 acc s = None"
| "parse_members (Suc n) acc s =
     (case parse_key s of
        Inl e \<Rightarrow> Some (Inl e)
      | Inr (k, r2) \<Rightarrow>
          (case parse_value n r2 of
             Some (Inr (v, r3)) \<Rightarrow>
               (case skip_ws r3 of
                  c # r4 \<Rightarrow>
                    if c = CHR '','' then parse_members n (acc @ [(k, v)]) r4
                    else if c = CHR ''}'' then Some (Inr (make_object (acc @ [(k, v)]), r4))
                    else Some (Inl Syntax_Error)
                | [] \<Rightarrow> Some (Inl Syntax_Error))
           | res \<Rightarrow> res))"

definition json_parse :: "jsstr \<Rightarrow> (json_error + jsval) option" where
  "json_parse t =
     (case parse_value (Suc (length t)) t of
        None \<Rightarrow> None
      | Some (Inl e) \<Rightarrow> Some (Inl e)
      | Some (Inr (v, r)) \<Rightarrow> Some (if skip_ws r = [] then Inr v else Inl Syntax_Error))"

text \<open>
  The values \<open>JSON.parse\<close> returns list the keys of their objects in
  own-property order; \<open>parsed_ok\<close> names that with \<open>json_like\<close>, and
  \<open>json_ok\<close> the values among them with finite numbers, whose text reads
  back as themselves.
\<close>

fun json_canonical :: "jsval \<Rightarrow> bool" where
  "json_canonical (JArr vs) \<longleftrightarrow> list_all json_canonical vs"
| "json_canonical (JObj kvs) \<longleftrightarrow> own_keys_order kvs = kvs \<and> list_all (\<lambda>kv. json_canonical (snd kv)) kvs"
| "json_canonical _ \<longleftrightarrow> True"

abbreviation json_ok :: "jsval \<Rightarrow> bool" where
  "json_ok v \<equiv> json_value v \<and> json_canonical v"

abbreviation parsed_ok :: "jsval \<Rightarrow> bool" where
  "parsed_ok v \<equiv> json_like v \<and> json_canonical v"

subsection \<open>Lemmas: every read consumes input, and the fuel is enough\<close>

lemma length_skip_ws [simp]: "length (skip_ws s) \<le> length s"
  by (simp add: skip_ws_def)

lemma skip_ws_Cons_length: "skip_ws s = c # r \<Longrightarrow> length r < length s"
  using length_skip_ws [of s] by simp

lemma parse_string_body_shorter:
  "parse_string_body acc s = Inr (t, r) \<Longrightarrow> length r < length s"
proof (induction acc s rule: parse_string_body.induct)
  case (2 acc c cs)
  then show ?case
    by (auto split: if_splits list.splits option.splits) fastforce+
qed simp

lemma fraction_part_shorter: "fraction_part s = Some (fp, r) \<Longrightarrow> length r \<le> length s"
  by (auto simp: fraction_part_def Let_def split: list.splits if_splits
           intro: order.trans [OF length_dropWhile_le])

lemma exponent_part_shorter: "exponent_part s = Some (e, r) \<Longrightarrow> length r \<le> length s"
  by (auto simp: exponent_part_def Let_def split: list.splits if_splits prod.splits
           intro: order.trans [OF length_dropWhile_le])

lemma parse_json_number_shorter:
  assumes "parse_json_number s = Some (x, r)"
  shows "length r < length s"
proof -
  obtain neg s1 where ns: "(case s of c # r \<Rightarrow> if c = CHR ''-'' then (True, r) else (False, s)
                              | [] \<Rightarrow> (False, s)) = (neg, s1)"
    by (metis surj_pair)
  have s1: "length s1 \<le> length s" using ns by (auto split: list.splits if_splits)
  from assms ns obtain fp r2 e where ip: "takeWhile is_digit s1 \<noteq> []"
    and fr: "fraction_part (dropWhile is_digit s1) = Some (fp, r2)"
    and ex: "exponent_part r2 = Some (e, r)"
    by (auto simp: parse_json_number_def Let_def split: if_splits option.splits prod.splits)
  have "length r \<le> length r2" using exponent_part_shorter [OF ex] .
  also have "\<dots> \<le> length (dropWhile is_digit s1)" using fraction_part_shorter [OF fr] .
  also have "\<dots> < length s1" using length_dropWhile_less [OF ip] .
  finally show ?thesis using s1 by simp
qed

lemma parse_scalar_shorter: "parse_scalar c r = Inr (v, r') \<Longrightarrow> length r' \<le> length r"
  by (auto simp: parse_scalar_def split: if_splits sum.splits option.splits prod.splits
           dest!: parse_string_body_shorter parse_json_number_shorter)

lemma parse_key_shorter: "parse_key s = Inr (k, r) \<Longrightarrow> length r < length s"
  by (auto simp: parse_key_def split: list.splits if_splits sum.splits prod.splits
           dest!: parse_string_body_shorter skip_ws_Cons_length)

lemma separator_cases:
  assumes "(case skip_ws r1 of
              c # r' \<Rightarrow> if c = sep then F r' else if c = close then Some (Inr (w, r'))
                       else Some (Inl Syntax_Error)
            | [] \<Rightarrow> Some (Inl Syntax_Error)) = Some (Inr (v, r))"
  obtains r' where "skip_ws r1 = sep # r'" and "F r' = Some (Inr (v, r))"
    | r' where "skip_ws r1 = close # r'" and "v = w" and "r = r'"
  using assms by (cases "skip_ws r1") (auto split: if_splits)

lemma separator_shorter:
  assumes "(case skip_ws r1 of
              c # r' \<Rightarrow> if c = sep then F r' else if c = close then Some (Inr (w, r'))
                       else Some (Inl Syntax_Error)
            | [] \<Rightarrow> Some (Inl Syntax_Error)) = Some (Inr (v, r))"
    and "\<And>r'. skip_ws r1 = sep # r' \<Longrightarrow> F r' = Some (Inr (v, r)) \<Longrightarrow> length r < length r'"
  shows "length r < length r1"
  using assms(1)
proof (rule separator_cases)
  fix r' assume sk: "skip_ws r1 = sep # r'" and "F r' = Some (Inr (v, r))"
  then show ?thesis using assms(2) [OF sk] skip_ws_Cons_length [OF sk] by simp
next
  fix r' assume "skip_ws r1 = close # r'" and "r = r'"
  then show ?thesis using skip_ws_Cons_length by simp
qed

lemma parse_consumes:
  "parse_value n s = Some (Inr (v, r)) \<Longrightarrow> length r < length s"
  "parse_elements n acc s = Some (Inr (v, r)) \<Longrightarrow> length r < length s"
  "parse_members n acc' s = Some (Inr (v, r)) \<Longrightarrow> length r < length s"
proof (induction n s and n acc s and n acc' s arbitrary: v r and v r and v r
       rule: parse_value_parse_elements_parse_members.induct)
  case (2 n s)
  obtain c r0 where sw: "skip_ws s = c # r0"
    using "2.prems" by (cases "skip_ws s") auto
  have "length r0 < length s" using skip_ws_Cons_length [OF sw] .
  moreover have "length r < Suc (length r0)"
  proof (cases "c = CHR ''['' \<or> c = CHR ''{''")
    case True
    then show ?thesis using "2.prems" "2.IH" sw
      by (auto split: list.splits if_splits dest: skip_ws_Cons_length) fastforce+
  next
    case False
    then show ?thesis using "2.prems" sw parse_scalar_shorter [of c r0 v r] by auto
  qed
  ultimately show ?case by simp
next
  case (4 n acc s)
  from "4.prems" obtain v1 r1 where pv: "parse_value (Suc n) s = Some (Inr (v1, r1))"
    by (auto split: option.splits sum.splits)
  have "length r1 < length s" using "4.IH"(1) [OF pv] .
  moreover have "length r < length r1"
  proof (rule separator_shorter [where F = "parse_elements n (acc @ [v1])" and w = "JArr (acc @ [v1])"])
    show "(case skip_ws r1 of
             c # r' \<Rightarrow> if c = CHR '','' then parse_elements n (acc @ [v1]) r'
                      else if c = CHR '']'' then Some (Inr (JArr (acc @ [v1]), r'))
                      else Some (Inl Syntax_Error)
           | [] \<Rightarrow> Some (Inl Syntax_Error)) = Some (Inr (v, r))"
      using "4.prems" pv by (simp del: parse_value.simps(2))
  next
    fix r' assume "skip_ws r1 = CHR '','' # r'" "parse_elements n (acc @ [v1]) r' = Some (Inr (v, r))"
    then show "length r < length r'" using "4.IH"(2) [OF pv refl refl] by blast
  qed
  ultimately show ?case by simp
next
  case (6 n acc s)
  from "6.prems" obtain k r2 where pk: "parse_key s = Inr (k, r2)"
    by (auto split: sum.splits)
  from "6.prems" pk obtain v1 r3 where pv: "parse_value n r2 = Some (Inr (v1, r3))"
    by (auto split: option.splits sum.splits)
  have "length r2 < length s" using parse_key_shorter [OF pk] .
  moreover have "length r3 < length r2" using "6.IH"(1) [OF pk refl pv] .
  moreover have "length r < length r3"
  proof (rule separator_shorter [where F = "parse_members n (acc @ [(k, v1)])"
                                   and w = "make_object (acc @ [(k, v1)])"])
    show "(case skip_ws r3 of
             c # r4 \<Rightarrow> if c = CHR '','' then parse_members n (acc @ [(k, v1)]) r4
                      else if c = CHR ''}'' then Some (Inr (make_object (acc @ [(k, v1)]), r4))
                      else Some (Inl Syntax_Error)
           | [] \<Rightarrow> Some (Inl Syntax_Error)) = Some (Inr (v, r))"
      using "6.prems" pk pv by simp
  next
    fix r' assume "skip_ws r3 = CHR '','' # r'" "parse_members n (acc @ [(k, v1)]) r' = Some (Inr (v, r))"
    then show "length r < length r'" using "6.IH"(2) [OF pk refl pv refl refl] by blast
  qed
  ultimately show ?case by simp
qed auto

lemma parse_fuel:
  "length s < n \<Longrightarrow> parse_value n s \<noteq> None"
  "length s < n \<Longrightarrow> parse_elements n acc s \<noteq> None"
  "length s < n \<Longrightarrow> parse_members n acc' s \<noteq> None"
proof (induction n s and n acc s and n acc' s rule: parse_value_parse_elements_parse_members.induct)
  case (2 n s)
  show ?case
  proof (cases "skip_ws s")
    case (Cons c r0)
    then have "length r0 < n" using "2.prems" skip_ws_Cons_length [OF Cons] by simp
    with Cons "2.IH" show ?thesis by (auto split: list.splits)
  qed simp
next
  case (4 n acc s)
  have pv: "parse_value (Suc n) s \<noteq> None" using "4.IH"(1) "4.prems" .
  show ?case
  proof (cases "parse_value (Suc n) s")
    case (Some res)
    show ?thesis
    proof (cases res)
      case (Inr vr)
      obtain v1 r1 where vr: "vr = (v1, r1)" by (cases vr)
      have pv1: "parse_value (Suc n) s = Some (Inr (v1, r1))" using Some Inr vr by simp
      have "length r1 < length s" using parse_consumes(1) [OF pv1] .
      then have "\<And>r'. skip_ws r1 = CHR '','' # r' \<Longrightarrow> parse_elements n (acc @ [v1]) r' \<noteq> None"
        using "4.IH"(2) [OF pv1 refl refl] "4.prems" skip_ws_Cons_length by fastforce
      then show ?thesis using pv1 by (auto simp del: parse_value.simps(2) split: list.splits)
    qed (use Some in \<open>simp del: parse_value.simps(2)\<close>)
  qed (use pv in simp)
next
  case (6 n acc s)
  show ?case
  proof (cases "parse_key s")
    case (Inr kr)
    obtain k r2 where kr: "kr = (k, r2)" by (cases kr)
    have pk: "parse_key s = Inr (k, r2)" using Inr kr by simp
    have r2: "length r2 < n" using parse_key_shorter [OF pk] "6.prems" by simp
    have pv: "parse_value n r2 \<noteq> None" using "6.IH"(1) [OF pk refl r2] .
    show ?thesis
    proof (cases "parse_value n r2")
      case (Some res)
      show ?thesis
      proof (cases res)
        case (Inr vr)
        obtain v1 r3 where vr: "vr = (v1, r3)" by (cases vr)
        have pv1: "parse_value n r2 = Some (Inr (v1, r3))" using Some Inr vr by simp
        have "length r3 < n" using parse_consumes(1) [OF pv1] r2 by simp
        then have "\<And>r'. skip_ws r3 = CHR '','' # r' \<Longrightarrow> parse_members n (acc @ [(k, v1)]) r' \<noteq> None"
          using "6.IH"(2) [OF pk refl pv1 refl refl] skip_ws_Cons_length by fastforce
        then show ?thesis using pk pv1 by (auto split: list.splits)
      qed (use pk Some in simp)
    qed (use pv in simp)
  qed simp
qed simp_all

subsection \<open>Lemmas: what the parser returns\<close>

lemma parse_json_number_not_NaN: "parse_json_number s = Some (x, r) \<Longrightarrow> x \<noteq> NaN"
  by (auto simp: parse_json_number_def Let_def split: if_splits option.splits prod.splits)

lemma parse_scalar_ok: "parse_scalar c r = Inr (v, r') \<Longrightarrow> parsed_ok v"
  by (auto simp: parse_scalar_def split: if_splits sum.splits option.splits prod.splits
           dest!: parse_json_number_not_NaN)

lemma map_fst_obj_put:
  "map fst (obj_put kvs k v) = (if k \<in> set (map fst kvs) then map fst kvs else map fst kvs @ [k])"
  by (induction kvs) (fastforce simp: image_iff)+

lemma set_obj_put: "set (obj_put kvs k v) \<subseteq> set kvs \<union> {(k, v)}"
  by (induction kvs) (auto split: if_splits)

lemma fold_obj_put_ok:
  assumes "distinct (map fst acc)" and "\<forall>kv \<in> set acc \<union> set kvs. parsed_ok (snd kv)"
  shows "distinct (map fst (fold (\<lambda>(k, v) acc. obj_put acc k v) kvs acc))
       \<and> (\<forall>kv \<in> set (fold (\<lambda>(k, v) acc. obj_put acc k v) kvs acc). parsed_ok (snd kv))"
  using assms
proof (induction kvs arbitrary: acc)
  case (Cons kv kvs)
  obtain k v where kv: "kv = (k, v)" by (cases kv)
  have "distinct (map fst (obj_put acc k v))" using Cons.prems(1) by (simp add: map_fst_obj_put)
  moreover have "\<forall>kv' \<in> set (obj_put acc k v) \<union> set kvs. parsed_ok (snd kv')"
    using Cons.prems(2) set_obj_put [of acc k v] kv by auto
  ultimately show ?case using Cons.IH kv by simp
qed simp

lemma own_keys_order_Nil [simp]: "own_keys_order [] = []"
  by (simp add: own_keys_order_def)

lemma own_keys_order_set: "set (own_keys_order kvs) = set kvs"
  by (auto simp: own_keys_order_def)

lemma own_keys_order_distinct:
  "distinct (map fst kvs) \<Longrightarrow> distinct (map fst (own_keys_order kvs))"
  by (auto simp: own_keys_order_def distinct_map intro: inj_on_subset)

lemma own_keys_order_idem: "own_keys_order (own_keys_order kvs) = own_keys_order kvs"
proof -
  let ?f = "\<lambda>kv. dec_acc 0 (fst kv)" and ?P = "\<lambda>kv. is_array_index (fst kv)"
  have "filter ?P (sort_key ?f (filter ?P kvs)) = sort_key ?f (filter ?P kvs)"
    by (simp add: filter_sort)
  moreover have "filter (\<lambda>kv. \<not> ?P kv) (sort_key ?f (filter ?P kvs)) = []"
    by (simp add: filter_sort)
  moreover have "sort_key ?f (sort_key ?f (filter ?P kvs)) = sort_key ?f (filter ?P kvs)"
    by (simp add: sort_key_id_if_sorted)
  ultimately show ?thesis by (simp add: own_keys_order_def)
qed

lemma make_object_ok:
  "\<forall>kv \<in> set kvs. parsed_ok (snd kv) \<Longrightarrow> parsed_ok (make_object kvs)"
  using fold_obj_put_ok [of "[]" kvs]
  by (auto simp: make_object_def own_keys_order_set own_keys_order_distinct own_keys_order_idem list_all_iff)

lemma parse_ok:
  "parse_value n s = Some (Inr (v, r)) \<Longrightarrow> parsed_ok v"
  "parse_elements n acc s = Some (Inr (v, r)) \<Longrightarrow> list_all parsed_ok acc \<Longrightarrow> parsed_ok v"
  "parse_members n acc' s = Some (Inr (v, r)) \<Longrightarrow> \<forall>kv \<in> set acc'. parsed_ok (snd kv) \<Longrightarrow> parsed_ok v"
proof (induction n s and n acc s and n acc' s arbitrary: v r and v r and v r
       rule: parse_value_parse_elements_parse_members.induct)
  case (2 n s)
  then show ?case
    by (auto split: list.splits if_splits dest: parse_scalar_ok)
next
  case (4 n acc s)
  from "4.prems"(1) obtain v1 r1 where pv: "parse_value (Suc n) s = Some (Inr (v1, r1))"
    by (auto split: option.splits sum.splits)
  have ok1: "parsed_ok v1" using "4.IH"(1) [OF pv] .
  have "(case skip_ws r1 of
           c # r' \<Rightarrow> if c = CHR '','' then parse_elements n (acc @ [v1]) r'
                    else if c = CHR '']'' then Some (Inr (JArr (acc @ [v1]), r'))
                    else Some (Inl Syntax_Error)
         | [] \<Rightarrow> Some (Inl Syntax_Error)) = Some (Inr (v, r))"
    using "4.prems"(1) pv by (simp del: parse_value.simps(2))
  then show ?case
  proof (rule separator_cases)
    fix r' assume "skip_ws r1 = CHR '','' # r'" "parse_elements n (acc @ [v1]) r' = Some (Inr (v, r))"
    then show ?thesis using "4.IH"(2) [OF pv refl refl] "4.prems"(2) ok1 by simp
  next
    assume "v = JArr (acc @ [v1])"
    then show ?thesis using "4.prems"(2) ok1 by (simp add: list_all_iff)
  qed
next
  case (6 n acc s)
  from "6.prems"(1) obtain k r2 where pk: "parse_key s = Inr (k, r2)"
    by (auto split: sum.splits)
  from "6.prems"(1) pk obtain v1 r3 where pv: "parse_value n r2 = Some (Inr (v1, r3))"
    by (auto split: option.splits sum.splits)
  have ok1: "parsed_ok v1" using "6.IH"(1) [OF pk refl pv] .
  have "(case skip_ws r3 of
           c # r4 \<Rightarrow> if c = CHR '','' then parse_members n (acc @ [(k, v1)]) r4
                    else if c = CHR ''}'' then Some (Inr (make_object (acc @ [(k, v1)]), r4))
                    else Some (Inl Syntax_Error)
         | [] \<Rightarrow> Some (Inl Syntax_Error)) = Some (Inr (v, r))"
    using "6.prems"(1) pk pv by simp
  then show ?case
  proof (rule separator_cases)
    fix r' assume "skip_ws r3 = CHR '','' # r'" "parse_members n (acc @ [(k, v1)]) r' = Some (Inr (v, r))"
    then show ?thesis using "6.IH"(2) [OF pk refl pv refl refl] "6.prems"(2) ok1 by simp
  next
    assume "v = make_object (acc @ [(k, v1)])"
    then show ?thesis using "6.prems"(2) ok1 make_object_ok [of "acc @ [(k, v1)]"] by simp
  qed
qed auto

subsection \<open>The parser terminates, and what it returns\<close>

text \<open>
  With the fuel \<open>json_parse\<close> gives it, one more than the length of the
  text, the parser returns a value or a syntax error and never runs out.
\<close>

lemma json_parse_total: "\<exists>res. json_parse t = Some res"
  using parse_fuel(1) [of t "Suc (length t)"]
  by (auto simp: json_parse_def split: option.splits sum.splits)

lemma json_parse_ok: "json_parse t = Some (Inr v) \<Longrightarrow> json_like v \<and> json_canonical v"
  by (auto simp: json_parse_def simp del: parse_value.simps(2)
           split: option.splits sum.splits if_splits dest: parse_ok(1))

end
