(* ===== verification/Json_Print.thy ===== *)
theory Json_Print
  imports Json_Parse
begin

text \<open>
  \<open>JSON.stringify\<close> as text, which \<open>res.json\<close> sends for every JSON
  response, with \<open>Number::toString\<close> for its numbers. A number is written
  in decimal when its decimal expansion ends within 22 places and it lies in
  the range the specification writes without an exponent; other numbers have
  no text in the model (\<open>None\<close>). The round
  trip (\<open>json_text_parses\<close>): \<open>JSON.parse\<close> reads the text of a JSON
  value back as that value.
\<close>

subsection \<open>Numbers\<close>

text \<open>
  \<open>Number::toString\<close> of a finite non-zero magnitude \<open>x\<close> with a decimal
  expansion of \<open>k\<close> places: the integer \<open>m = x * 10^k\<close> written with the
  decimal point \<open>k\<close> places from its end (padded with zeros after \<open>0.\<close>),
  which is the plain notation the specification uses for
  \<open>10^-6 \<le> x < 10^21\<close>; outside that range it uses an exponent, which is not
  modelled.
\<close>

definition decimal_places :: "real \<Rightarrow> nat option" where
  "decimal_places x = find (\<lambda>k. real_of_int \<lfloor>x * 10 ^ k\<rfloor> = x * 10 ^ k) [0..<23]"

definition pad_digits :: "nat \<Rightarrow> nat \<Rightarrow> jsstr" where
  "pad_digits k m = (let d = nat_to_dec m in replicate (k - length d) CHR ''0'' @ d)"

definition magnitude_to_string :: "real \<Rightarrow> jsstr option" where
  "magnitude_to_string x =
     (if 10 ^ 21 \<le> x \<or> x * 10 ^ 6 < 1 then None
      else
        case decimal_places x of
          None \<Rightarrow> None
        | Some k \<Rightarrow>
            let m = nat \<lfloor>x * 10 ^ k\<rfloor> in
            Some (if k = 0 then nat_to_dec m
                  else nat_to_dec (m div 10 ^ k) @ ''.'' @ pad_digits k (m mod 10 ^ k)))"

fun number_to_string :: "jsnum \<Rightarrow> jsstr option" where
  "number_to_string NaN = Some ''NaN''"
| "number_to_string PosInf = Some ''Infinity''"
| "number_to_string NegInf = Some ''-Infinity''"
| "number_to_string (Fin x) =
     (if x = 0 then Some ''0''
      else if x < 0 then map_option ((#) CHR ''-'') (magnitude_to_string (- x))
      else magnitude_to_string x)"

subsection \<open>Strings\<close>

definition hex_digit :: "nat \<Rightarrow> char" where
  "hex_digit d = ''0123456789abcdef'' ! d"

definition quote_char :: "char \<Rightarrow> jsstr" where
  "quote_char c =
     (case map_of short_escapes c of
        Some e \<Rightarrow> [CHR 0x5C, e]
      | None \<Rightarrow>
          if of_char c < (32 :: nat) then
            [CHR 0x5C, CHR ''u'', CHR ''0'', CHR ''0'',
             hex_digit (of_char c div 16), hex_digit (of_char c mod 16)]
          else [c])"

definition quote_string :: "jsstr \<Rightarrow> jsstr" where
  "quote_string s = CHR 0x22 # concat (map quote_char s) @ [CHR 0x22]"

subsection \<open>Values\<close>

text \<open>
  SerializeJSONProperty on the values the server sends: \<open>undefined\<close> has no
  text (and is skipped as an object property, written \<open>null\<close> as an array
  element), non-finite numbers are written \<open>null\<close>; no white space is added.
\<close>

fun join_commas :: "jsstr list \<Rightarrow> jsstr" where
  "join_commas [] = []"
| "join_commas [t] = t"
| "join_commas (t # ts) = t @ CHR '','' # join_commas ts"

fun json_text :: "jsval \<Rightarrow> jsstr option" where
  "json_text JUndef = None"
| "json_text JNull = Some ''null''"
| "json_text (JBool b) = Some (if b then ''true'' else ''false'')"
| "json_text (JNum n) = (case n of Fin _ \<Rightarrow> number_to_string n | _ \<Rightarrow> Some ''null'')"
| "json_text (JStr s) = Some (quote_string s)"
| "json_text (JArr vs) =
     map_option (\<lambda>ts. ''['' @ join_commas ts @ '']'')
       (those (map (\<lambda>v. if v = JUndef then Some ''null'' else json_text v) vs))"
| "json_text (JObj kvs) =
     map_option (\<lambda>ts. ''{'' @ join_commas ts @ ''}'')
       (those (map (\<lambda>kv. map_option (\<lambda>t. quote_string (fst kv) @ '':'' @ t) (json_text (snd kv)))
                   (filter (\<lambda>kv. snd kv \<noteq> JUndef) kvs)))"

text \<open>What may follow a value inside a JSON text without white space.\<close>

definition json_delim :: "jsstr \<Rightarrow> bool" where
  "json_delim rest \<longleftrightarrow> rest = [] \<or> hd rest \<in> {CHR '','', CHR '']'', CHR ''}''}"

text \<open>
  The values \<open>JSON.stringify\<close> writes without loss: not \<open>undefined\<close> at
  the top, objects with distinct keys in own-property order, and otherwise
  anything (\<open>undefined\<close> members are dropped, non-finite numbers become
  \<open>null\<close>).
\<close>

fun sendable :: "jsval \<Rightarrow> bool" where
  "sendable JUndef \<longleftrightarrow> False"
| "sendable (JArr vs) \<longleftrightarrow> list_all (\<lambda>v. v = JUndef \<or> sendable v) vs"
| "sendable (JObj kvs) \<longleftrightarrow>
     distinct (map fst kvs) \<and> own_keys_order kvs = kvs \<and> list_all (\<lambda>kv. snd kv = JUndef \<or> sendable (snd kv)) kvs"
| "sendable _ \<longleftrightarrow> True"

subsection \<open>Lemmas: numbers and strings read back\<close>

lemma delim_not_digit: "json_delim rest \<Longrightarrow> rest = [] \<or> \<not> is_digit (hd rest)"
  by (auto simp: json_delim_def is_digit_def)

lemma fraction_exponent_delim:
  "json_delim rest \<Longrightarrow> fraction_part rest = Some ([], rest) \<and> exponent_part rest = Some (0, rest)"
  by (cases rest) (auto simp: json_delim_def fraction_part_def exponent_part_def)

lemma parse_json_number_plain:
  assumes "list_all is_digit A" and "A \<noteq> []" and "hd A \<noteq> CHR ''0'' \<or> tl A = []"
    and "rest' = [] \<or> \<not> is_digit (hd rest')"
    and "fraction_part rest' = Some (fp, r2)" and "exponent_part r2 = Some (0, r3)"
  shows "parse_json_number (A @ rest') = Some (to_binary64 (scale10 (dec_acc 0 (A @ fp)) (- int (length fp))), r3)"
proof -
  obtain c A' where A: "A = c # A'" using assms(2) by (cases A) auto
  have "c \<noteq> CHR ''-''" using assms(1) A by (auto simp: is_digit_def)
  moreover have "takeWhile is_digit (A @ rest') = A \<and> dropWhile is_digit (A @ rest') = rest'"
    using takeWhile_digits_delim [OF assms(1) assms(4)] .
  ultimately show ?thesis using assms A by (simp add: parse_json_number_def Let_def)
qed

lemma pad_digits_props:
  assumes "b < 10 ^ k" and "0 < k"
  shows "length (pad_digits k b) = k" and "list_all is_digit (pad_digits k b)"
    and "dec_acc 0 (pad_digits k b) = b"
  using nat_to_dec_length [OF assms] nat_to_dec_digits [of b]
  by (simp_all add: pad_digits_def Let_def dec_acc_zeros dec_acc_nat_to_dec is_digit_def list_all_iff set_replicate_conv_if)

lemma decimal_places_Some:
  assumes "decimal_places x = Some k" and "0 < x"
  shows "real (nat \<lfloor>x * 10 ^ k\<rfloor>) = x * 10 ^ k"
proof -
  have "real_of_int \<lfloor>x * 10 ^ k\<rfloor> = x * 10 ^ k"
    using find_Some_mem [OF assms(1) [unfolded decimal_places_def]] by simp
  moreover have "0 \<le> \<lfloor>x * 10 ^ k\<rfloor>" using assms(2) by simp
  ultimately show ?thesis by simp
qed

lemma magnitude_parse:
  assumes "magnitude_to_string x = Some t" and "0 < x" and "json_delim rest"
  shows "parse_json_number (t @ rest) = Some (Fin x, rest)"
proof -
  from assms(1) obtain k where dp: "decimal_places x = Some k"
    by (auto simp: magnitude_to_string_def split: if_splits option.splits)
  have "\<not> (10 ^ 21 \<le> x \<or> x * 10 ^ 6 < 1)"
    using assms(1) by (auto simp: magnitude_to_string_def)
  then have bx: "to_binary64 x = Fin x" using assms(2) by (intro to_binary64_plain) simp
  define m where "m = nat \<lfloor>x * 10 ^ k\<rfloor>"
  have xm: "real m = x * 10 ^ k" using decimal_places_Some [OF dp assms(2)] by (simp add: m_def)
  have fe: "fraction_part rest = Some ([], rest)" "exponent_part rest = Some (0, rest)"
    using fraction_exponent_delim [OF assms(3)] by simp_all
  have nd: "rest = [] \<or> \<not> is_digit (hd rest)" using delim_not_digit [OF assms(3)] .
  show ?thesis
  proof (cases "k = 0")
    case True
    then have t: "t = nat_to_dec m" using assms(1) dp by (auto simp: magnitude_to_string_def m_def split: if_splits)
    have "0 < m" using xm assms(2) True by simp
    then have "hd (nat_to_dec m) \<noteq> CHR ''0''" by (rule nat_to_dec_hd)
    then have "parse_json_number (nat_to_dec m @ rest) =
               Some (to_binary64 (scale10 (dec_acc 0 (nat_to_dec m @ [])) (- int (length ([] :: jsstr)))), rest)"
      using fe nd by (intro parse_json_number_plain) (simp_all add: nat_to_dec_digits)
    then show ?thesis using t xm True bx by (simp add: dec_acc_nat_to_dec scale10_def)
  next
    case False
    define a b where "a = m div 10 ^ k" and "b = m mod 10 ^ k"
    have t: "t = nat_to_dec a @ CHR ''.'' # pad_digits k b"
      using assms(1) dp False by (auto simp: magnitude_to_string_def m_def a_def b_def Let_def split: if_splits)
    have b: "b < 10 ^ k" by (simp add: b_def)
    have k0: "0 < k" using False by simp
    have P: "length (pad_digits k b) = k" "list_all is_digit (pad_digits k b)" "dec_acc 0 (pad_digits k b) = b"
      using pad_digits_props [OF b k0] by auto
    have fr: "fraction_part (CHR ''.'' # pad_digits k b @ rest) = Some (pad_digits k b, rest)"
      using takeWhile_digits_delim [OF P(2) nd] P(1) k0 by (auto simp: fraction_part_def Let_def)
    have hdA: "hd (nat_to_dec a) \<noteq> CHR ''0'' \<or> tl (nat_to_dec a) = []"
    proof (cases "a = 0")
      case True
      then show ?thesis by (subst nat_to_dec.simps) simp
    qed (simp add: nat_to_dec_hd)
    have "parse_json_number (nat_to_dec a @ (CHR ''.'' # pad_digits k b @ rest)) =
          Some (to_binary64 (scale10 (dec_acc 0 (nat_to_dec a @ pad_digits k b)) (- int (length (pad_digits k b)))), rest)"
      using fe hdA fr by (intro parse_json_number_plain) (simp_all add: nat_to_dec_digits is_digit_def)
    moreover have "dec_acc 0 (nat_to_dec a @ pad_digits k b) = m"
    proof -
      have "dec_acc 0 (nat_to_dec a @ pad_digits k b) = dec_acc a (pad_digits k b)"
        by (simp add: dec_acc_append dec_acc_nat_to_dec)
      also have "\<dots> = a * 10 ^ k + b" using P by (subst dec_acc_shift) simp
      also have "\<dots> = m" by (simp add: a_def b_def div_mult_mod_eq)
      finally show ?thesis .
    qed
    moreover have "scale10 m (- int k) = x" using xm by (simp add: scale10_def)
    ultimately show ?thesis using t P(1) bx by simp
  qed
qed

lemma magnitude_hd:
  assumes "magnitude_to_string x = Some t"
  shows "t \<noteq> [] \<and> is_digit (hd t)"
proof -
  have "nat_to_dec n \<noteq> [] \<and> is_digit (hd (nat_to_dec n))" for n
    using nat_to_dec_digits [of n] by (cases "nat_to_dec n") auto
  then show ?thesis using assms
    by (auto simp: magnitude_to_string_def Let_def split: if_splits option.splits)
qed

lemma parse_json_number_neg:
  "t = [] \<or> hd t \<noteq> CHR ''-'' \<Longrightarrow>
   parse_json_number (CHR ''-'' # t) = map_option (\<lambda>(x, r). (negate_num x, r)) (parse_json_number t)"
  by (cases t) (auto simp: parse_json_number_def Let_def split: option.splits prod.splits)

lemma number_parse:
  assumes "number_to_string (Fin x) = Some t" and "json_delim rest"
  shows "parse_json_number (t @ rest) = Some (Fin x, rest)"
proof -
  consider "x = 0" | "x < 0" | "0 < x" by linarith
  then show ?thesis
  proof cases
    case 1
    then have t: "t = ''0''" using assms(1) by simp
    have fe: "fraction_part rest = Some ([], rest)" "exponent_part rest = Some (0, rest)"
      using fraction_exponent_delim [OF assms(2)] by simp_all
    have "parse_json_number (''0'' @ rest) =
          Some (to_binary64 (scale10 (dec_acc 0 (''0'' @ [])) (- int (length ([] :: jsstr)))), rest)"
      using fe delim_not_digit [OF assms(2)]
      by (intro parse_json_number_plain) (simp_all add: is_digit_def)
    then show ?thesis using t 1 to_binary64_plain [of 0] by (simp add: scale10_def digit_val_def)
  next
    case 2
    then obtain t' where t: "t = CHR ''-'' # t'" and m: "magnitude_to_string (- x) = Some t'"
      using assms(1) by auto
    have "t' \<noteq> [] \<and> is_digit (hd t')" using magnitude_hd [OF m] .
    then have "t' @ rest = [] \<or> hd (t' @ rest) \<noteq> CHR ''-''" by (auto simp: is_digit_def)
    then show ?thesis using magnitude_parse [OF m _ assms(2)] 2 t
      by (simp add: parse_json_number_neg)
  next
    case 3
    then show ?thesis using assms magnitude_parse by simp
  qed
qed

lemma unescape_short:
  "map_of short_escapes c = Some e \<Longrightarrow> e \<noteq> CHR ''u'' \<and> unescape e = Some c"
  by (auto simp: short_escapes_def unescape_def split: if_splits)

lemma hex_digit_val: "d < 16 \<Longrightarrow> char_digit (hex_digit d) = Some d"
proof -
  assume "d < 16"
  then have "d = 0 \<or> d = 1 \<or> d = 2 \<or> d = 3 \<or> d = 4 \<or> d = 5 \<or> d = 6 \<or> d = 7 \<or> d = 8 \<or> d = 9
             \<or> d = 10 \<or> d = 11 \<or> d = 12 \<or> d = 13 \<or> d = 14 \<or> d = 15" by presburger
  then show ?thesis by (elim disjE) (simp_all add: hex_digit_def char_digit_def)
qed

lemma hex4_control:
  assumes "n < 32"
  shows "hex4 CHR ''0'' CHR ''0'' (hex_digit (n div 16)) (hex_digit (n mod 16)) = Some n"
proof -
  have "n div 16 < 16" using assms by simp
  moreover have "char_digit CHR ''0'' = Some 0" by (simp add: char_digit_def)
  ultimately show ?thesis
    by (simp add: hex4_def hex_digit_val mult_div_mod_eq)
qed

lemma quote_char_parse:
  "parse_string_body acc (quote_char c @ r) = parse_string_body (c # acc) r"
proof (cases "map_of short_escapes c")
  case None
  have ne: "c \<noteq> CHR 0x22" "c \<noteq> CHR 0x5C" using None by (auto simp: short_escapes_def split: if_splits)
  show ?thesis
  proof (cases "of_char c < (32 :: nat)")
    case True
    then show ?thesis using None ne hex4_control [OF True]
      by (simp add: quote_char_def)
  next
    case False
    then show ?thesis using None ne by (simp add: quote_char_def)
  qed
next
  case (Some e)
  then show ?thesis using unescape_short [OF Some] by (simp add: quote_char_def)
qed

lemma string_parse:
  "parse_string_body acc (concat (map quote_char s) @ CHR 0x22 # rest) = Inr (rev acc @ s, rest)"
  by (induction s arbitrary: acc) (simp_all add: quote_char_parse [simplified])

subsection \<open>Lemmas: values read back\<close>

lemma json_text_start:
  assumes "json_text v = Some t"
  shows "t \<noteq> [] \<and> (hd t \<in> set ''[{tfn-'' \<or> hd t = CHR 0x22 \<or> is_digit (hd t))"
proof (cases v)
  case (JNum n)
  then show ?thesis
  proof (cases n)
    case (Fin x)
    then show ?thesis using assms JNum magnitude_hd [of "- x"] magnitude_hd [of x]
      by (auto simp: is_digit_def split: if_splits)
  qed (use assms JNum in auto)
qed (use assms in \<open>auto simp: quote_string_def split: if_splits\<close>)

lemma start_not_ws:
  "hd t \<in> set ''[{tfn-'' \<or> hd t = CHR 0x22 \<or> is_digit (hd t) \<Longrightarrow>
   \<not> is_json_ws (hd t) \<and> hd t \<noteq> CHR '']'' \<and> hd t \<noteq> CHR ''}''"
  by (auto simp: is_json_ws_def is_digit_def)

lemma skip_ws_text:
  "json_text v = Some t \<Longrightarrow> skip_ws (t @ rest) = t @ rest"
  using json_text_start [of v t] start_not_ws [of t] by (cases t) (auto simp: skip_ws_def)

lemma parse_key_text: "parse_key (quote_string k @ CHR '':'' # r) = Inr (k, r)"
  using string_parse [of "[]" k "CHR '':'' # r"]
  by (simp add: parse_key_def quote_string_def skip_ws_def is_json_ws_def)

lemma obj_put_fresh: "k \<notin> set (map fst kvs) \<Longrightarrow> obj_put kvs k v = kvs @ [(k, v)]"
  by (induction kvs) auto

lemma fold_obj_put_distinct:
  "distinct (map fst (acc @ kvs)) \<Longrightarrow> fold (\<lambda>(k, v) acc. obj_put acc k v) kvs acc = acc @ kvs"
  by (induction kvs arbitrary: acc) (auto simp: obj_put_fresh)

lemma make_object_canonical:
  "distinct (map fst kvs) \<Longrightarrow> own_keys_order kvs = kvs \<Longrightarrow> make_object kvs = JObj kvs"
  using fold_obj_put_distinct [of "[]" kvs] by (simp add: make_object_def)

lemma length_join_commas_Cons:
  "ts \<noteq> [] \<Longrightarrow> join_commas (t # ts) = t @ CHR '','' # join_commas ts"
  by (cases ts) auto

lemma parse_elements_text:
  assumes "\<And>v t rest n. v \<in> set vs \<Longrightarrow> json_text v = Some t \<Longrightarrow> json_delim rest \<Longrightarrow> length t < n \<Longrightarrow>
             parse_value n (t @ rest) = Some (Inr (v, rest))"
    and "those (map json_text vs) = Some ts" and "vs \<noteq> []" and "length (join_commas ts) < n"
  shows "parse_elements n acc (join_commas ts @ CHR '']'' # rest) = Some (Inr (JArr (acc @ vs), rest))"
  using assms
proof (induction vs arbitrary: acc ts n)
  case (Cons v vs')
  obtain m where n: "n = Suc m" using Cons.prems(4) by (cases n) auto
  from Cons.prems(2) obtain t ts' where ts: "ts = t # ts'" and t: "json_text v = Some t"
    and ts': "those (map json_text vs') = Some ts'"
    by (auto split: option.splits)
  show ?case
  proof (cases "vs' = []")
    case True
    then have "ts' = []" using ts' by simp
    moreover have "parse_value (Suc m) (t @ CHR '']'' # rest) = Some (Inr (v, CHR '']'' # rest))"
      using Cons.prems(1) [of v t "CHR '']'' # rest" "Suc m"] t Cons.prems(4) ts n \<open>ts' = []\<close>
      by (simp add: json_delim_def)
    ultimately show ?thesis using ts n True by (simp add: skip_ws_def is_json_ws_def)
  next
    case False
    then have "ts' \<noteq> []" using ts' by (cases vs') (auto split: option.splits)
    then have j: "join_commas ts = t @ CHR '','' # join_commas ts'" using ts by (simp add: length_join_commas_Cons)
    have pv: "parse_value (Suc m) (t @ CHR '','' # join_commas ts' @ CHR '']'' # rest) =
              Some (Inr (v, CHR '','' # join_commas ts' @ CHR '']'' # rest))"
      using Cons.prems(1) [of v t "CHR '','' # join_commas ts' @ CHR '']'' # rest" "Suc m"] t Cons.prems(4) j n
      by (simp add: json_delim_def)
    have "parse_elements m (acc @ [v]) (join_commas ts' @ CHR '']'' # rest) = Some (Inr (JArr ((acc @ [v]) @ vs'), rest))"
      using Cons.IH [of ts' m "acc @ [v]"] Cons.prems(1) ts' False Cons.prems(4) j n by simp
    then show ?thesis using pv j n by (simp add: skip_ws_def is_json_ws_def del: parse_value.simps(2))
  qed
qed simp

lemma parse_members_text:
  assumes "\<And>v t rest n. v \<in> snd ` set kvs \<Longrightarrow> json_text v = Some t \<Longrightarrow> json_delim rest \<Longrightarrow> length t < n \<Longrightarrow>
             parse_value n (t @ rest) = Some (Inr (v, rest))"
    and "those (map (\<lambda>kv. map_option (\<lambda>t. quote_string (fst kv) @ '':'' @ t) (json_text (snd kv))) kvs) = Some ts"
    and "kvs \<noteq> []" and "length (join_commas ts) < n"
  shows "parse_members n acc (join_commas ts @ CHR ''}'' # rest) = Some (Inr (make_object (acc @ kvs), rest))"
  using assms
proof (induction kvs arbitrary: acc ts n)
  case (Cons kv kvs')
  obtain k v where kv: "kv = (k, v)" by (cases kv)
  obtain m where n: "n = Suc m" using Cons.prems(4) by (cases n) auto
  from Cons.prems(2) kv obtain t ts' where ts: "ts = (quote_string k @ CHR '':'' # t) # ts'"
    and t: "json_text v = Some t"
    and ts': "those (map (\<lambda>kv. map_option (\<lambda>t. quote_string (fst kv) @ '':'' @ t) (json_text (snd kv))) kvs') = Some ts'"
    by (auto split: option.splits)
  have len: "length t < m"
    using Cons.prems(4) n ts by (cases ts') (auto simp: quote_string_def)
  show ?case
  proof (cases "kvs' = []")
    case True
    then have "ts' = []" using ts' by simp
    have "parse_value m (t @ CHR ''}'' # rest) = Some (Inr (v, CHR ''}'' # rest))"
      using Cons.prems(1) [of v t "CHR ''}'' # rest" m] t len kv by (simp add: json_delim_def)
    then show ?thesis using ts n True kv \<open>ts' = []\<close>
      by (simp add: parse_key_text skip_ws_def is_json_ws_def)
  next
    case False
    then have "ts' \<noteq> []" using ts' by (cases kvs') (auto split: option.splits)
    then have j: "join_commas ts = quote_string k @ CHR '':'' # t @ CHR '','' # join_commas ts'"
      using ts by (simp add: length_join_commas_Cons)
    have pv: "parse_value m (t @ CHR '','' # join_commas ts' @ CHR ''}'' # rest) =
              Some (Inr (v, CHR '','' # join_commas ts' @ CHR ''}'' # rest))"
      using Cons.prems(1) [of v t "CHR '','' # join_commas ts' @ CHR ''}'' # rest" m] t len kv
      by (simp add: json_delim_def)
    have "length (join_commas ts') < m" using Cons.prems(4) j n by simp
    then have "parse_members m (acc @ [(k, v)]) (join_commas ts' @ CHR ''}'' # rest) =
               Some (Inr (make_object ((acc @ [(k, v)]) @ kvs'), rest))"
      using Cons.IH [of ts' m "acc @ [(k, v)]"] Cons.prems(1) ts' False by simp
    then show ?thesis using pv j n kv
      by (simp add: parse_key_text skip_ws_def is_json_ws_def)
  qed
qed simp

lemma parse_value_text:
  "json_value v \<Longrightarrow> json_canonical v \<Longrightarrow> json_text v = Some t \<Longrightarrow> json_delim rest \<Longrightarrow> length t < n \<Longrightarrow>
   parse_value n (t @ rest) = Some (Inr (v, rest))"
proof (induction v arbitrary: t rest n)
  case JNull
  then obtain m where "n = Suc m" by (cases n) auto
  moreover have "t = ''null''" using JNull by simp
  ultimately show ?case by (simp add: skip_ws_def is_json_ws_def parse_scalar_def)
next
  case (JBool b)
  then obtain m where "n = Suc m" by (cases n) auto
  moreover have "t = (if b then ''true'' else ''false'')" using JBool by simp
  ultimately show ?case by (cases b) (simp_all add: skip_ws_def is_json_ws_def parse_scalar_def)
next
  case (JNum x)
  then obtain y where x: "x = Fin y" by (cases x) auto
  obtain m where n: "n = Suc m" using JNum by (cases n) auto
  have nt: "number_to_string (Fin y) = Some t" using JNum x by simp
  obtain c r where t: "t = c # r" using json_text_start [OF JNum(3)] by (cases t) auto
  have c: "is_digit c \<or> c = CHR ''-''"
    using nt t magnitude_hd [of y] magnitude_hd [of "- y"] by (auto simp: is_digit_def split: if_splits)
  have "\<not> is_json_ws c" using c by (auto simp: is_json_ws_def is_digit_def)
  moreover have "c \<noteq> CHR ''['' \<and> c \<noteq> CHR ''{'' \<and> c \<noteq> CHR 0x22 \<and> c \<noteq> CHR ''t'' \<and> c \<noteq> CHR ''f'' \<and> c \<noteq> CHR ''n''"
    using c by (auto simp: is_digit_def)
  moreover have "parse_json_number (c # r @ rest) = Some (Fin y, rest)"
    using number_parse [OF nt JNum(4)] t by simp
  ultimately show ?case using n t x by (simp add: skip_ws_def parse_scalar_def)
next
  case (JStr str)
  then obtain m where "n = Suc m" by (cases n) auto
  moreover have "t = quote_string str" using JStr by simp
  ultimately show ?case using string_parse [of "[]" str rest]
    by (simp add: skip_ws_def is_json_ws_def parse_scalar_def quote_string_def)
next
  case (JArr vs)
  obtain m where n: "n = Suc m" using JArr.prems by (cases n) auto
  have mj: "map (\<lambda>v. if v = JUndef then Some ''null'' else json_text v) vs = map json_text vs"
    using JArr.prems(1) by (auto simp: list_all_iff)
  show ?case
  proof (cases "vs = []")
    case True
    then have "t = ''[]''" using JArr.prems(3) by simp
    then show ?thesis using True n by (simp add: skip_ws_def is_json_ws_def)
  next
    case False
    from JArr.prems(3) mj obtain ts where ts: "those (map json_text vs) = Some ts"
      and t: "t = ''['' @ join_commas ts @ '']''" by auto
    obtain v0 vs0 where vs: "vs = v0 # vs0" using False by (cases vs) auto
    then obtain t0 ts0 where ts0: "ts = t0 # ts0" and t0: "json_text v0 = Some t0"
      using ts by (auto split: option.splits)
    have sk: "skip_ws (join_commas ts @ CHR '']'' # rest) = join_commas ts @ CHR '']'' # rest"
      and nb: "hd (join_commas ts @ CHR '']'' # rest) \<noteq> CHR '']''"
      using json_text_start [OF t0] start_not_ws [of t0] skip_ws_text [OF t0] ts0
      by (cases ts0; cases t0; simp)+
    have "parse_elements m [] (join_commas ts @ CHR '']'' # rest) = Some (Inr (JArr ([] @ vs), rest))"
    proof (rule parse_elements_text [OF _ ts False])
      fix v t' rest' n'
      assume "v \<in> set vs" "json_text v = Some t'" "json_delim rest'" "length t' < n'"
      then show "parse_value n' (t' @ rest') = Some (Inr (v, rest'))"
        using JArr.IH JArr.prems(1,2) by (auto simp: list_all_iff)
    next
      show "length (join_commas ts) < m" using JArr.prems(5) t n by simp
    qed
    moreover obtain d r' where "join_commas ts @ CHR '']'' # rest = d # r'" by (cases "join_commas ts") auto
    ultimately show ?thesis using t n sk nb by (simp add: skip_ws_def is_json_ws_def)
  qed
next
  case (JObj kvs)
  obtain m where n: "n = Suc m" using JObj.prems by (cases n) auto
  have fk: "filter (\<lambda>kv. snd kv \<noteq> JUndef) kvs = kvs"
    using JObj.prems(1) by (auto simp: list_all_iff intro: filter_True)
  show ?case
  proof (cases "kvs = []")
    case True
    then have "t = ''{}''" using JObj.prems(3) by simp
    then show ?thesis using True n by (simp add: skip_ws_def is_json_ws_def)
  next
    case False
    from JObj.prems(3) fk obtain ts
      where ts: "those (map (\<lambda>kv. map_option (\<lambda>t. quote_string (fst kv) @ '':'' @ t) (json_text (snd kv))) kvs) = Some ts"
      and t: "t = ''{'' @ join_commas ts @ ''}''" by auto
    obtain kv0 kvs0 where kvs: "kvs = kv0 # kvs0" using False by (cases kvs) auto
    then obtain t0 ts0 where ts0: "ts = t0 # ts0" and t0: "hd t0 = CHR 0x22" "t0 \<noteq> []"
      using ts by (auto simp: quote_string_def split: option.splits)
    have sk: "skip_ws (join_commas ts @ CHR ''}'' # rest) = join_commas ts @ CHR ''}'' # rest"
      and nb: "hd (join_commas ts @ CHR ''}'' # rest) \<noteq> CHR ''}''"
      using t0 ts0 by (cases ts0; cases t0; simp add: skip_ws_def is_json_ws_def)+
    have "parse_members m [] (join_commas ts @ CHR ''}'' # rest) = Some (Inr (make_object ([] @ kvs), rest))"
    proof (rule parse_members_text [OF _ ts False])
      fix v t' rest' n'
      assume "v \<in> snd ` set kvs" "json_text v = Some t'" "json_delim rest'" "length t' < n'"
      then show "parse_value n' (t' @ rest') = Some (Inr (v, rest'))"
        using JObj.IH JObj.prems(1,2) by (fastforce simp: list_all_iff)
    next
      show "length (join_commas ts) < m" using JObj.prems(5) t n by simp
    qed
    moreover have "make_object kvs = JObj kvs"
      using JObj.prems(1,2) by (simp add: make_object_canonical)
    moreover obtain d r' where "join_commas ts @ CHR ''}'' # rest = d # r'" by (cases "join_commas ts") auto
    ultimately show ?thesis using t n sk nb by (simp add: skip_ws_def is_json_ws_def)
  qed
qed simp

subsection \<open>Lemmas: what \<open>JSON.stringify\<close> writes\<close>

lemma insort_key_map:
  "(\<And>x. f (g x) = f x) \<Longrightarrow> insort_key f (g x) (map g ys) = map g (insort_key f x ys)"
  by (induction ys) auto

lemma sort_key_map:
  "(\<And>x. f (g x) = f x) \<Longrightarrow> sort_key f (map g xs) = map g (sort_key f xs)"
  by (induction xs) (simp_all add: insort_key_map)

lemma own_keys_order_filter: "own_keys_order (filter Q kvs) = filter Q (own_keys_order kvs)"
  by (simp add: own_keys_order_def filter_sort filter_filter conj_commute)

lemma own_keys_order_map_snd:
  "own_keys_order (map (\<lambda>kv. (fst kv, h (snd kv))) kvs) = map (\<lambda>kv. (fst kv, h (snd kv))) (own_keys_order kvs)"
  by (simp add: own_keys_order_def filter_map comp_def sort_key_map)

lemma stringify_sendable: "sendable v \<Longrightarrow> json_ok (stringify_value v)"
proof (induction v rule: stringify_value.induct)
  case (3 vs)
  then show ?case by (auto simp: list_all_iff)
next
  case (4 kvs)
  let ?kvs' = "map (\<lambda>kv. (fst kv, stringify_value (snd kv))) (filter (\<lambda>kv. snd kv \<noteq> JUndef) kvs)"
  have "distinct (map fst ?kvs')"
    using "4.prems" by (simp add: comp_def distinct_map_filter)
  moreover have "own_keys_order ?kvs' = ?kvs'"
    using "4.prems" by (simp add: own_keys_order_map_snd own_keys_order_filter)
  moreover have "list_all (\<lambda>kv. json_ok (snd kv)) ?kvs'"
    using "4.IH" "4.prems" by (fastforce simp: list_all_iff)
  ultimately show ?case by (auto simp: list_all_iff)
qed (auto split: jsnum.splits)

lemma json_ok_sendable: "json_ok v \<Longrightarrow> sendable v"
  by (induction v rule: sendable.induct) (auto simp: list_all_iff)

lemma parsed_ok_sendable: "parsed_ok v \<Longrightarrow> sendable v"
  by (induction v rule: sendable.induct) (auto simp: list_all_iff)

lemma json_text_parses:
  assumes "json_value v" and "json_canonical v" and "json_text v = Some t"
  shows "json_parse t = Some (Inr v)"
  using parse_value_text [OF assms, of "[]" "Suc (length t)"]
  by (simp add: json_parse_def json_delim_def skip_ws_def)

lemma number_to_string_nat:
  assumes "n < 10 ^ 21"
  shows "number_to_string (Fin (real n)) = Some (nat_to_dec n)"
proof (cases "n = 0")
  case True
  then show ?thesis by (simp add: nat_to_dec.simps digit_char_def)
next
  case False
  have "decimal_places (real n) = Some 0"
    by (simp add: decimal_places_def upt_conv_Cons)
  moreover have "\<not> 10 ^ 21 \<le> real n" using assms
    by (metis of_nat_less_iff of_nat_numeral of_nat_power not_le)
  moreover have "\<not> real n * 10 ^ 6 < 1" using False by simp
  ultimately show ?thesis using False by (simp add: magnitude_to_string_def)
qed

end
