(* ===== verification/Server.thy ===== *)
theory Server
  imports Settings_Store Alert_Log Upload_Storage Json_Print
begin

text \<open>
  The Express application of index.js: its three module-level stores as one
  state record, the route table (lines 38-130), the \<open>cors()\<close> middleware
  answering preflight requests (line 9), Express's 404 for an unmatched route
  and its 500 for a handler that throws or a multer error, and one server step
  that handles one request to completion. Node runs each handler to its end
  before the next request's handler starts, so a run of the server is a
  sequence of such steps. \<open>express.json()\<close> (line 10) is the parser of the
  request body; the model takes its result, and the body of a request it
  rejects (malformed JSON, answered 400 before any route) is not modelled.
\<close>

datatype http_method = GET | HEAD | POST | PUT | DELETE | PATCH | OPTIONS

fun method_name :: "http_method \<Rightarrow> jsstr" where
  "method_name GET = ''GET''"
| "method_name HEAD = ''HEAD''"
| "method_name POST = ''POST''"
| "method_name PUT = ''PUT''"
| "method_name DELETE = ''DELETE''"
| "method_name PATCH = ''PATCH''"
| "method_name OPTIONS = ''OPTIONS''"

record env =
  now_ms :: nat
  file_clock :: nat
  local_time :: jsstr
  disk_ok :: bool

record request =
  req_method :: http_method
  req_path :: jsstr
  req_body :: jsval
  req_files :: "(jsstr \<times> jsstr) list"

datatype payload = PText jsstr | PJson jsval | PEmpty

record response =
  status :: nat
  payload :: payload

record server_state =
  alerts :: "alert list"
  sounds :: "sound list"
  settings :: settings

definition initial_state :: server_state where
  "initial_state = \<lparr>alerts = [], sounds = initial_sounds, settings = initial_settings\<rparr>"

text \<open>\<open>res.json(v)\<close> with a status: the body is \<open>JSON.stringify(v)\<close>.\<close>

definition json_resp :: "nat \<Rightarrow> (jsstr \<times> jsval) list \<Rightarrow> response" where
  "json_resp code kvs = \<lparr>status = code, payload = PJson (stringify_value (JObj kvs))\<rparr>"

definition error_500 :: response where
  "error_500 = \<lparr>status = 500, payload = PText ''Internal Server Error''\<rparr>"

subsection \<open>Routing\<close>

datatype route = RRoot | RAlerts | RSounds | RUpload | RSelect | RDetection | RCommand
  | RGetSettings | RPutSettings

definition routes :: "(http_method \<times> jsstr \<times> route) list" where
  "routes = [(GET, ''/'', RRoot), (GET, ''/alerts'', RAlerts), (GET, ''/sounds'', RSounds),
             (POST, ''/sounds/upload'', RUpload), (POST, ''/sounds/select'', RSelect),
             (POST, ''/device/detection'', RDetection), (POST, ''/device/command'', RCommand),
             (GET, ''/settings'', RGetSettings), (PUT, ''/settings'', RPutSettings)]"

text \<open>
  Express matches a route path case-insensitively and with an optional
  trailing slash (its defaults, \<open>caseSensitive\<close> and \<open>strict\<close> off), and a
  \<open>HEAD\<close> request by the \<open>GET\<close> route of its path. Request paths are ASCII
  (the URL is percent-encoded), so the case folding is ASCII's.
\<close>

definition ascii_lower :: "char \<Rightarrow> char" where
  "ascii_lower c =
     (case map_of (zip ''ABCDEFGHIJKLMNOPQRSTUVWXYZ'' ''abcdefghijklmnopqrstuvwxyz'') c of
        Some d \<Rightarrow> d
      | None \<Rightarrow> c)"

definition strip_slash :: "jsstr \<Rightarrow> jsstr" where
  "strip_slash pat = (if pat \<noteq> [] \<and> last pat = CHR ''/'' then butlast pat else pat)"

definition path_matches :: "jsstr \<Rightarrow> jsstr \<Rightarrow> bool" where
  "path_matches pat p \<longleftrightarrow>
     (let q = map ascii_lower p; b = strip_slash pat in q = b \<or> q = b @ ''/'')"

definition method_matches :: "http_method \<Rightarrow> http_method \<Rightarrow> bool" where
  "method_matches m route_m \<longleftrightarrow> m = route_m \<or> (m = HEAD \<and> route_m = GET)"

definition dispatch :: "http_method \<Rightarrow> jsstr \<Rightarrow> route option" where
  "dispatch m p =
     map_option (\<lambda>(_, _, r). r) (find (\<lambda>(rm, pat, _). method_matches m rm \<and> path_matches pat p) routes)"

subsection \<open>The handlers\<close>

text \<open>
  Each handler returns the new state and the response, or \<open>None\<close> when it
  throws. The upload handler receives \<open>req.file\<close>; a multer error never
  reaches it (multer passes the error to Express, whose default handler
  answers 500), which \<open>run_route\<close> writes out.
\<close>

definition h_root :: "server_state \<Rightarrow> (server_state \<times> response) option" where
  "h_root s = Some (s, \<lparr>status = 200, payload = PText ''Smart Farm Cloud API is running''\<rparr>)"

definition h_alerts :: "server_state \<Rightarrow> (server_state \<times> response) option" where
  "h_alerts s = Some (s, json_resp 200 [(''alerts'', JArr (map alert_json (alerts s)))])"

definition h_sounds :: "server_state \<Rightarrow> (server_state \<times> response) option" where
  "h_sounds s = Some (s, json_resp 200 [(''sounds'', JArr (map sound_json (sounds s))),
                                        (''selectedSoundId'', selectedSoundId (settings s))])"

definition h_upload :: "server_state \<Rightarrow> env \<Rightarrow> (jsstr \<times> jsstr) option \<Rightarrow> (server_state \<times> response) option" where
  "h_upload s e file =
     (case file of
        None \<Rightarrow> Some (s, json_resp 400 [(''error'', JStr ''No file uploaded'')])
      | Some (originalname, filename) \<Rightarrow>
          (let snd = \<lparr>sound_id = nat_to_dec (now_ms e), sound_name = originalname,
                      sound_filename = Some filename, sound_source = Uploaded\<rparr>
           in Some (s\<lparr>sounds := add_sound (sounds s) snd,
                       settings := select_uploaded (sound_id snd) (settings s)\<rparr>,
                    json_resp 200 [(''status'', JStr ''uploaded''), (''sound'', sound_json snd),
                                   (''selectedSoundId'', JStr (sound_id snd))])))"

definition h_select :: "server_state \<Rightarrow> jsval \<Rightarrow> (server_state \<times> response) option" where
  "h_select s body = do {
     soundId \<leftarrow> js_get (js_or body (JObj [])) ''soundId'';
     (case select_sound (sounds s) soundId (settings s) of
        None \<Rightarrow> Some (s, json_resp 404 [(''error'', JStr ''Sound not found'')])
      | Some st \<Rightarrow> Some (s\<lparr>settings := st\<rparr>,
                         json_resp 200 [(''status'', JStr ''selected''), (''selectedSoundId'', soundId)])) }"

definition h_detection :: "server_state \<Rightarrow> env \<Rightarrow> jsval \<Rightarrow> (server_state \<times> response) option" where
  "h_detection s e body =
     Some (s\<lparr>alerts := record_detection (now_ms e) (local_time e) body (alerts s)\<rparr>,
           json_resp 200 [(''status'', JStr ''received'')])"

definition h_command :: "server_state \<Rightarrow> (server_state \<times> response) option" where
  "h_command s = Some (s, json_resp 200 [(''status'', JStr ''command sent'')])"

definition h_get_settings :: "server_state \<Rightarrow> (server_state \<times> response) option" where
  "h_get_settings s = Some (s, json_resp 200 [(''settings'', settings_json (settings s))])"

definition h_put_settings :: "server_state \<Rightarrow> jsval \<Rightarrow> (server_state \<times> response) option" where
  "h_put_settings s body = do {
     st \<leftarrow> update_settings (sounds s) (js_or body (JObj [])) (settings s);
     Some (s\<lparr>settings := st\<rparr>, json_resp 200 [(''status'', JStr ''updated''), (''settings'', settings_json st)]) }"

fun run_route :: "route \<Rightarrow> server_state \<Rightarrow> env \<Rightarrow> request \<Rightarrow> (server_state \<times> response) option" where
  "run_route RRoot s e r = h_root s"
| "run_route RAlerts s e r = h_alerts s"
| "run_route RSounds s e r = h_sounds s"
| "run_route RUpload s e r =
     (case multer_single ''file'' (disk_ok e) (file_clock e) (req_files r) of
        NoFile \<Rightarrow> h_upload s e None
      | UploadError \<Rightarrow> Some (s, error_500)
      | Stored originalname filename \<Rightarrow> h_upload s e (Some (originalname, filename)))"
| "run_route RSelect s e r = h_select s (req_body r)"
| "run_route RDetection s e r = h_detection s e (req_body r)"
| "run_route RCommand s e r = h_command s"
| "run_route RGetSettings s e r = h_get_settings s"
| "run_route RPutSettings s e r = h_put_settings s (req_body r)"

subsection \<open>One request\<close>

text \<open>
  \<open>cors()\<close> answers every \<open>OPTIONS\<close> request with 204 before routing; an
  unmatched request gets Express's 404; a throwing handler its 500; a
  \<open>HEAD\<close> response carries no body.
\<close>

definition server_step :: "server_state \<Rightarrow> env \<Rightarrow> request \<Rightarrow> server_state \<times> response" where
  "server_step s e r =
     (if req_method r = OPTIONS then (s, \<lparr>status = 204, payload = PEmpty\<rparr>)
      else case dispatch (req_method r) (req_path r) of
        None \<Rightarrow> (s, \<lparr>status = 404, payload = PText (''Cannot '' @ method_name (req_method r) @ '' '' @ req_path r)\<rparr>)
      | Some rt \<Rightarrow>
          (case run_route rt s e r of
             None \<Rightarrow> (s, error_500)
           | Some (s', resp) \<Rightarrow> (s', if req_method r = HEAD then resp\<lparr>payload := PEmpty\<rparr> else resp)))"

text \<open>
  A request as the body parser delivers it: no body, or a value
  \<open>JSON.parse\<close> returns, infinities included (lemma \<open>parse_ok\<close> of
  \<open>Json_Parse\<close>).
\<close>

definition wf_request :: "request \<Rightarrow> bool" where
  "wf_request r \<longleftrightarrow> req_body r = JUndef \<or> parsed_ok (req_body r)"

inductive reachable :: "server_state \<Rightarrow> bool" where
  init: "reachable initial_state"
| step: "reachable s \<Longrightarrow> wf_request r \<Longrightarrow> reachable (fst (server_step s e r))"

fun run_server :: "server_state \<Rightarrow> (env \<times> request) list \<Rightarrow> server_state" where
  "run_server s [] = s"
| "run_server s ((e, r) # rs) = run_server (fst (server_step s e r)) rs"

subsection \<open>The state invariant\<close>

text \<open>
  The selected id names a sound of the catalog, the threshold and the volume
  are numbers within their ranges, the built-in sound stays first, and every
  alert's time is a value \<open>res.json\<close> can send: the server's clock string,
  or a value \<open>JSON.parse\<close> returned, an infinity included.
\<close>

definition state_inv :: "server_state \<Rightarrow> bool" where
  "state_inv s \<longleftrightarrow> selection_ok (sounds s) (settings s) \<and> threshold_ok (settings s)
                  \<and> volume_ok (settings s) \<and> prefix initial_sounds (sounds s)
                  \<and> list_all (\<lambda>a. sendable (alert_time a)) (alerts s)"

subsection \<open>Runs under a clock\<close>

text \<open>
  Runs in which every request reads a later \<open>Date.now()\<close> than the one
  before (the second argument is the last reading); the ids of sounds and
  alerts are made from these readings.
\<close>

inductive clocked :: "server_state \<Rightarrow> nat \<Rightarrow> bool" where
  clocked_init: "clocked initial_state 0"
| clocked_step: "clocked s t \<Longrightarrow> wf_request r \<Longrightarrow> t < now_ms e \<Longrightarrow> clocked (fst (server_step s e r)) (now_ms e)"

text \<open>The ids made from readings up to \<open>t\<close>, all distinct.\<close>

definition ids_fresh :: "server_state \<Rightarrow> nat \<Rightarrow> bool" where
  "ids_fresh s t \<longleftrightarrow>
     distinct (map sound_id (sounds s)) \<and> distinct (map alert_id (alerts s))
     \<and> list_all (\<lambda>sd. sound_id sd = ''default'' \<or> (\<exists>k \<le> t. sound_id sd = nat_to_dec k)) (sounds s)
     \<and> list_all (\<lambda>a. \<exists>k \<le> t. alert_id a = nat_to_dec k) (alerts s)"

subsection \<open>Lemmas: handlers, totality, preservation\<close>

lemma body_obj_nonnull [simp]:
  "js_or body (JObj []) \<noteq> JUndef" "js_or body (JObj []) \<noteq> JNull"
  by (cases body; simp add: js_or_def)+

lemma body_obj_json: "wf_request r \<Longrightarrow> json_like (js_or (req_body r) (JObj []))"
  by (auto simp: wf_request_def js_or_def)

lemma h_select_eq [handler_simps]:
  "h_select s body =
     (let soundId = js_get_opt (js_or body (JObj [])) ''soundId'' in
      case select_sound (sounds s) soundId (settings s) of
        None \<Rightarrow> Some (s, json_resp 404 [(''error'', JStr ''Sound not found'')])
      | Some st \<Rightarrow> Some (s\<lparr>settings := st\<rparr>,
                         json_resp 200 [(''status'', JStr ''selected''), (''selectedSoundId'', soundId)]))"
  by (simp add: h_select_def js_get_nonnull Let_def)

lemma h_put_settings_eq [handler_simps]:
  "h_put_settings s body =
     (let st = merged_settings (sounds s) (js_or body (JObj [])) (settings s) in
      Some (s\<lparr>settings := st\<rparr>, json_resp 200 [(''status'', JStr ''updated''), (''settings'', settings_json st)]))"
  by (simp add: h_put_settings_def update_settings_eq Let_def)

lemmas simple_handlers [handler_simps] =
  h_root_def h_alerts_def h_sounds_def h_detection_def h_command_def h_get_settings_def

lemma run_route_total: "\<exists>s' resp. run_route rt s e r = Some (s', resp)"
  by (cases rt) (auto simp: handler_simps h_upload_def Let_def split: option.split upload_result.split)

lemma js_get_opt_ok:
  "parsed_ok v \<Longrightarrow> js_get_opt v k = JUndef \<or> parsed_ok (js_get_opt v k)"
  by (cases v) (auto simp: js_get_opt_def list_all_iff dest: map_of_SomeD split: option.splits)

lemma detection_time_ok:
  assumes "body = JUndef \<or> parsed_ok body"
  shows "sendable (detection_time body lt)"
proof -
  have "js_get_opt body ''time'' = JUndef \<or> sendable (js_get_opt body ''time'')"
    using assms js_get_opt_ok [of body "''time''"] parsed_ok_sendable by (auto simp: js_get_opt_def)
  then show ?thesis by (auto simp: detection_time_def js_or_def)
qed

lemma h_upload_inv:
  "h_upload s e file = Some (s', resp) \<Longrightarrow> state_inv s \<Longrightarrow> state_inv s'"
  by (auto simp: h_upload_def state_inv_def Let_def inv_intros split: option.splits)

lemma run_route_inv:
  assumes "run_route rt s e r = Some (s', resp)" and "wf_request r" and "state_inv s"
  shows "state_inv s'"
proof (cases rt)
  case RUpload
  with assms show ?thesis by (auto intro: h_upload_inv split: upload_result.splits)
next
  case RSelect
  with assms show ?thesis
    by (auto simp: h_select_eq state_inv_def Let_def inv_intros dest: select_sound_ranges
             split: option.splits)
next
  case RPutSettings
  with assms show ?thesis
    by (auto simp: h_put_settings_eq state_inv_def Let_def inv_intros body_obj_json)
next
  case RDetection
  with assms show ?thesis
    by (auto simp: handler_simps state_inv_def record_detection_def wf_request_def detection_time_ok)
qed (use assms in \<open>auto simp: handler_simps\<close>)

lemma server_step_cases:
  obtains (unchanged) "fst (server_step s e r) = s"
  | (routed) rt resp where "run_route rt s e r = Some (fst (server_step s e r), resp)"
proof (cases "req_method r = OPTIONS")
  case True
  with that(1) show ?thesis by (simp add: server_step_def)
next
  case False
  show ?thesis
  proof (cases "dispatch (req_method r) (req_path r)")
    case None
    with False that(1) show ?thesis by (simp add: server_step_def)
  next
    case (Some rt)
    note rt = this
    show ?thesis
    proof (cases "run_route rt s e r")
      case None
      with False rt that(1) show ?thesis by (simp add: server_step_def)
    next
      case (Some res)
      obtain s' resp where "res = (s', resp)" by (cases res)
      with False rt Some that(2) [of rt resp] show ?thesis by (simp add: server_step_def)
    qed
  qed
qed

lemma server_step_inv:
  "wf_request r \<Longrightarrow> state_inv s \<Longrightarrow> state_inv (fst (server_step s e r))"
  by (cases rule: server_step_cases [of s e r]) (auto intro: run_route_inv)

lemma reachable_state_inv: "reachable s \<Longrightarrow> state_inv s"
proof (induction rule: reachable.induct)
  case init
  show ?case by (simp add: state_inv_def initial_state_def initial_settings_ok)
next
  case (step s r e)
  from step.hyps(2) step.IH show ?case by (rule server_step_inv)
qed

lemma dispatch_route_paths:
  "dispatch GET ''/'' = Some RRoot"
  "dispatch GET ''/alerts'' = Some RAlerts"
  "dispatch GET ''/sounds'' = Some RSounds"
  "dispatch POST ''/sounds/upload'' = Some RUpload"
  "dispatch POST ''/sounds/select'' = Some RSelect"
  "dispatch POST ''/device/detection'' = Some RDetection"
  "dispatch POST ''/device/command'' = Some RCommand"
  "dispatch GET ''/settings'' = Some RGetSettings"
  "dispatch PUT ''/settings'' = Some RPutSettings"
  by (simp_all add: dispatch_def routes_def path_matches_def method_matches_def strip_slash_def ascii_lower_def)

lemma server_step_dispatched:
  assumes "req_method r \<noteq> OPTIONS" "req_method r \<noteq> HEAD"
    and "dispatch (req_method r) (req_path r) = Some rt"
  shows "server_step s e r = (case run_route rt s e r of Some res \<Rightarrow> res | None \<Rightarrow> (s, error_500))"
  using assms by (simp add: server_step_def split: option.split)

lemma put_settings_step:
  assumes "req_method r = PUT" and "req_path r = ''/settings''"
  shows "server_step s e r =
           (s\<lparr>settings := merged_settings (sounds s) (js_or (req_body r) (JObj [])) (settings s)\<rparr>,
            json_resp 200 [(''status'', JStr ''updated''),
                           (''settings'', settings_json (merged_settings (sounds s) (js_or (req_body r) (JObj [])) (settings s)))])"
  using assms server_step_dispatched [of r RPutSettings]
  by (simp add: dispatch_route_paths h_put_settings_eq Let_def)

lemma detection_step:
  assumes "req_method r = POST" and "req_path r = ''/device/detection''"
  shows "server_step s e r =
           (s\<lparr>alerts := \<lparr>alert_id = nat_to_dec (now_ms e), alert_time = detection_time (req_body r) (local_time e),
                          alert_confidence = detection_confidence (req_body r)\<rparr> # alerts s\<rparr>,
            json_resp 200 [(''status'', JStr ''received'')])"
  using assms server_step_dispatched [of r RDetection]
  by (simp add: dispatch_route_paths h_detection_def record_detection_def)

lemma dispatch_Some: "dispatch m p = Some rt \<Longrightarrow> \<exists>rm pat. (rm, pat, rt) \<in> set routes \<and> method_matches m rm"
  by (auto simp: dispatch_def dest!: find_Some_mem)

lemma dispatch_read_only:
  "dispatch m p = Some rt \<Longrightarrow> m \<noteq> POST \<Longrightarrow> m \<noteq> PUT \<Longrightarrow> rt \<in> {RRoot, RAlerts, RSounds, RGetSettings}"
  by (drule dispatch_Some) (auto simp: routes_def method_matches_def)

lemma run_route_read_only:
  "rt \<in> {RRoot, RAlerts, RSounds, RGetSettings} \<Longrightarrow> run_route rt s e r = Some (s', resp) \<Longrightarrow> s' = s"
  by (auto simp: handler_simps)

lemma run_route_grows:
  "run_route rt s e r = Some (s', resp) \<Longrightarrow> prefix (sounds s) (sounds s') \<and> suffix (alerts s) (alerts s')"
  by (cases rt) (auto simp: handler_simps h_upload_def Let_def split: upload_result.splits option.splits)

lemma run_route_status_500:
  "run_route rt s e r = Some (s', resp) \<Longrightarrow> status resp = 500 \<Longrightarrow>
     rt = RUpload \<and> multer_single ''file'' (disk_ok e) (file_clock e) (req_files r) = UploadError"
  by (cases rt) (auto simp: handler_simps h_upload_def json_resp_def error_500_def Let_def
                      split: upload_result.splits option.splits)

subsection \<open>Lemmas: the JSON of the responses\<close>

lemma literal_keys_order:
  assumes "list_all (\<lambda>kv. \<not> list_all is_digit (fst kv)) kvs"
  shows "own_keys_order kvs = kvs"
proof -
  have "filter (\<lambda>kv. is_array_index (fst kv)) kvs = []"
    using assms by (auto simp: filter_empty_conv is_array_index_def list_all_iff)
  moreover have "filter (\<lambda>kv. \<not> is_array_index (fst kv)) kvs = kvs"
    using assms by (auto simp: is_array_index_def list_all_iff intro: filter_True)
  ultimately show ?thesis by (simp add: own_keys_order_def)
qed

lemma alert_json_sendable: "sendable (alert_time a) \<Longrightarrow> sendable (alert_json a)"
  by (simp add: alert_json_def literal_keys_order is_digit_def)

lemma sound_json_sendable: "sendable (sound_json sd)"
  by (cases "sound_filename sd") (simp_all add: sound_json_def literal_keys_order is_digit_def)

lemma settings_json_sendable:
  "selection_ok ss st \<Longrightarrow> sendable (settings_json st)"
  by (auto simp: settings_json_def selection_ok_def literal_keys_order is_digit_def dest!: sound_exists_str)

lemma json_resp_payload:
  assumes "payload (json_resp code kvs) = PJson w" and "sendable (JObj kvs)"
  shows "json_ok w"
  using stringify_sendable [OF assms(2)] assms(1)
  by (simp add: json_resp_def del: stringify_value.simps)

lemma sendable_literal:
  "list_all (\<lambda>kv. \<not> list_all is_digit (fst kv)) kvs \<Longrightarrow> distinct (map fst kvs) \<Longrightarrow>
   list_all (\<lambda>kv. sendable (snd kv)) kvs \<Longrightarrow> sendable (JObj kvs)"
  by (auto simp: literal_keys_order list_all_iff)

lemma run_route_payload_ok:
  assumes "run_route rt s e r = Some (s', resp)" and "state_inv s" and "wf_request r"
    and "payload resp = PJson w"
  shows "json_ok w"
proof -
  have inv: "selection_ok (sounds s) (settings s)" "\<forall>a \<in> set (alerts s). sendable (alert_time a)"
    using assms(2) by (auto simp: state_inv_def list_all_iff)
  have inv': "selection_ok (sounds s') (settings s')"
    using run_route_inv [OF assms(1) assms(3) assms(2)] by (simp add: state_inv_def)
  have "\<exists>code kvs. resp = json_resp code kvs \<and> sendable (JObj kvs)"
  proof (cases rt)
    case RRoot
    then show ?thesis using assms(1,4) by (auto simp: handler_simps)
  next
    case RAlerts
    have "sendable (JObj [(''alerts'', JArr (map alert_json (alerts s)))])"
      using inv(2) by (simp add: literal_keys_order is_digit_def list_all_iff alert_json_sendable)
    then show ?thesis using RAlerts assms(1) by (auto simp: handler_simps simp del: sendable.simps)
  next
    case RSounds
    obtain i where "selectedSoundId (settings s) = JStr i"
      using inv(1) by (auto simp: selection_ok_def dest!: sound_exists_str)
    then have "sendable (JObj [(''sounds'', JArr (map sound_json (sounds s))),
                               (''selectedSoundId'', selectedSoundId (settings s))])"
      by (simp add: literal_keys_order is_digit_def list_all_iff sound_json_sendable)
    then show ?thesis using RSounds assms(1) by (auto simp: handler_simps simp del: sendable.simps)
  next
    case RUpload
    have sd: "sendable (JObj [(''error'', JStr ''No file uploaded'')])"
      "\<And>sd i. sendable (JObj [(''status'', JStr ''uploaded''), (''sound'', sound_json sd),
                               (''selectedSoundId'', JStr i)])"
      by (simp_all add: literal_keys_order is_digit_def sound_json_sendable)
    show ?thesis using RUpload assms(1,4) sd
      by (auto simp: h_upload_def Let_def error_500_def simp del: sendable.simps
               split: upload_result.splits option.splits)
  next
    case RSelect
    have sd: "sendable (JObj [(''error'', JStr ''Sound not found'')])"
      "\<And>i. sendable (JObj [(''status'', JStr ''selected''), (''selectedSoundId'', JStr i)])"
      by (simp_all add: literal_keys_order is_digit_def)
    show ?thesis using RSelect assms(1) sd
      by (auto simp: h_select_eq Let_def select_sound_def simp del: sendable.simps
               dest!: sound_exists_str split: option.splits if_splits) blast+
  next
    case RDetection
    have "sendable (JObj [(''status'', JStr ''received'')])" by (simp add: literal_keys_order is_digit_def)
    then show ?thesis using RDetection assms(1) by (auto simp: handler_simps simp del: sendable.simps)
  next
    case RCommand
    have "sendable (JObj [(''status'', JStr ''command sent'')])" by (simp add: literal_keys_order is_digit_def)
    then show ?thesis using RCommand assms(1) by (auto simp: handler_simps simp del: sendable.simps)
  next
    case RGetSettings
    have "sendable (JObj [(''settings'', settings_json (settings s))])"
      using settings_json_sendable [OF inv(1)] by (simp add: literal_keys_order is_digit_def)
    then show ?thesis using RGetSettings assms(1) by (auto simp: handler_simps simp del: sendable.simps)
  next
    case RPutSettings
    have "sendable (JObj [(''status'', JStr ''updated''), (''settings'', settings_json (settings s'))])"
      using settings_json_sendable [OF inv'] by (simp add: literal_keys_order is_digit_def)
    then show ?thesis using RPutSettings assms(1) by (auto simp: h_put_settings_eq Let_def simp del: sendable.simps) blast
  qed
  then show ?thesis using assms(4) json_resp_payload by blast
qed

lemma server_step_payload_ok:
  assumes "state_inv s" and "wf_request r" and "payload (snd (server_step s e r)) = PJson w"
  shows "json_ok w"
  using assms run_route_payload_ok [OF _ assms(1,2)]
  by (auto simp: server_step_def error_500_def split: if_splits option.splits)

subsection \<open>Lemmas: ids under a clock\<close>

lemma run_route_ids:
  assumes "run_route rt s e r = Some (s', resp)"
  shows "(sounds s' = sounds s \<or> (\<exists>sd. sounds s' = sounds s @ [sd] \<and> sound_id sd = nat_to_dec (now_ms e)))
       \<and> (alerts s' = alerts s \<or> (\<exists>a. alerts s' = a # alerts s \<and> alert_id a = nat_to_dec (now_ms e)))"
  using assms
  by (cases rt) (auto simp: handler_simps h_upload_def Let_def add_sound_def record_detection_def
                      split: upload_result.splits option.splits)

lemma server_step_ids:
  "(sounds (fst (server_step s e r)) = sounds s
      \<or> (\<exists>sd. sounds (fst (server_step s e r)) = sounds s @ [sd] \<and> sound_id sd = nat_to_dec (now_ms e)))
   \<and> (alerts (fst (server_step s e r)) = alerts s
      \<or> (\<exists>a. alerts (fst (server_step s e r)) = a # alerts s \<and> alert_id a = nat_to_dec (now_ms e)))"
  by (cases rule: server_step_cases [of s e r]) (auto dest: run_route_ids)

lemma fresh_id:
  "\<forall>x \<in> set xs. f x = ''default'' \<or> (\<exists>k \<le> t. f x = nat_to_dec k) \<Longrightarrow> t < n \<Longrightarrow>
   nat_to_dec n \<notin> f ` set xs"
  using nat_to_dec_injective by fastforce

lemma ids_fresh_mono: "ids_fresh s t \<Longrightarrow> t \<le> n \<Longrightarrow> ids_fresh s n"
  unfolding ids_fresh_def list_all_iff by (meson order.trans)

lemma ids_fresh_step:
  assumes "ids_fresh s t" and "t < now_ms e"
  shows "ids_fresh (fst (server_step s e r)) (now_ms e)"
proof -
  have old: "\<forall>x \<in> set (sounds s). sound_id x = ''default'' \<or> (\<exists>k \<le> t. sound_id x = nat_to_dec k)"
    "\<forall>x \<in> set (alerts s). alert_id x = ''default'' \<or> (\<exists>k \<le> t. alert_id x = nat_to_dec k)"
    using assms(1) by (auto simp: ids_fresh_def list_all_iff)
  have new: "nat_to_dec (now_ms e) \<notin> sound_id ` set (sounds s)"
    "nat_to_dec (now_ms e) \<notin> alert_id ` set (alerts s)"
    using fresh_id [OF old(1) assms(2)] fresh_id [OF old(2) assms(2)] by simp_all
  have mono: "ids_fresh s (now_ms e)" using ids_fresh_mono assms by simp
  have now: "\<exists>k \<le> now_ms e. nat_to_dec (now_ms e) = nat_to_dec k" by blast
  show ?thesis
    using server_step_ids [of s e r] mono new now
    by (auto simp: ids_fresh_def list_all_iff) blast+
qed

lemma clocked_ids_fresh: "clocked s t \<Longrightarrow> ids_fresh s t"
proof (induction rule: clocked.induct)
  case clocked_init
  show ?case by (simp add: ids_fresh_def initial_state_def initial_sounds_def default_sound_def)
next
  case (clocked_step s t r e)
  then show ?case by (simp add: ids_fresh_step)
qed

end
