(* ===== verification/Middleware.thy ===== *)
theory Middleware
  imports Server
begin

text \<open>
  The two middlewares index.js installs in front of its routes, and the
  console output of its handlers. \<open>cors()\<close> (line 9) with its defaults:
  every response gets \<open>Access-Control-Allow-Origin: *\<close>, and an \<open>OPTIONS\<close>
  request is answered 204 as a preflight, with the allowed methods and the
  requested headers reflected, before any route. \<open>express.json()\<close> (line 10)
  with its defaults: a body is parsed when its media type is
  \<open>application/json\<close>; a charset other than UTF-8, 16 or 32 is answered 415,
  a body of more than 100 kB 413, and in strict mode a body whose first
  non-blank character is not \<open>{\<close> or \<open>[\<close>, or that \<open>JSON.parse\<close> rejects,
  400, by Express's error handler; the empty body is \<open>{}\<close>. A request the
  parser skips has no body (\<open>undefined\<close>, as in Express 5; Express 4 leaves
  \<open>{}\<close>, and the root theory shows the handlers cannot tell
  the two apart). The detection and command handlers print their
  body (lines 80 and 92); how \<open>util.inspect\<close> renders it is not modelled.
  \<open>serve\<close> composes the chain: one HTTP request in, the new state, the
  response with the headers the middleware set, and the console lines out;
  \<open>None\<close> when the body has a \<open>\u\<close> escape of a code unit above 255, which
  the model does not represent.
\<close>

datatype http_body = NoBody | TextBody jsstr | MultipartBody "(jsstr \<times> jsstr \<times> jsstr) list"

record http_request =
  hr_method :: http_method
  hr_path :: jsstr
  hr_headers :: "(jsstr \<times> jsstr) list"
  hr_body :: http_body

record reply =
  reply_status :: nat
  reply_headers :: "(jsstr \<times> jsstr) list"
  reply_payload :: payload

datatype log_entry = LogValue jsstr jsval | LogText jsstr

subsection \<open>\<open>cors()\<close>\<close>

definition cors_headers :: "http_request \<Rightarrow> (jsstr \<times> jsstr) list" where
  "cors_headers hr =
     (if hr_method hr = OPTIONS then
        [(''Access-Control-Allow-Origin'', ''*''),
         (''Access-Control-Allow-Methods'', ''GET,HEAD,PUT,PATCH,POST,DELETE''),
         (''Vary'', ''Access-Control-Request-Headers'')]
        @ (case map_of (hr_headers hr) ''access-control-request-headers'' of
             Some h \<Rightarrow> if h = [] then [] else [(''Access-Control-Allow-Headers'', h)]
           | None \<Rightarrow> [])
        @ [(''Content-Length'', ''0'')]
      else [(''Access-Control-Allow-Origin'', ''*'')])"

subsection \<open>\<open>express.json()\<close>\<close>

text \<open>
  The media type of a \<open>Content-Type\<close> value (the part before the first
  \<open>;\<close>, without surrounding blanks, in lower case) and its \<open>charset\<close>
  parameter in lower case. Header names arrive in lower case.
\<close>

definition trim_blanks :: "jsstr \<Rightarrow> jsstr" where
  "trim_blanks s = rev (dropWhile (\<lambda>c. c = CHR '' '' \<or> c = CHR 0x09)
                     (rev (dropWhile (\<lambda>c. c = CHR '' '' \<or> c = CHR 0x09) s)))"

definition media_type :: "jsstr \<Rightarrow> jsstr" where
  "media_type ct = map ascii_lower (trim_blanks (takeWhile (\<lambda>c. c \<noteq> CHR '';'') ct))"

fun charset_param :: "jsstr list \<Rightarrow> jsstr option" where
  "charset_param [] = None"
| "charset_param (p # ps) =
     (let q = map ascii_lower (trim_blanks p) in
      if take 8 q = ''charset='' then Some (drop 8 q) else charset_param ps)"

function split_semicolons :: "jsstr \<Rightarrow> jsstr list" where
  "split_semicolons s =
     (case dropWhile (\<lambda>c. c \<noteq> CHR '';'') s of
        [] \<Rightarrow> [takeWhile (\<lambda>c. c \<noteq> CHR '';'') s]
      | _ # r' \<Rightarrow> takeWhile (\<lambda>c. c \<noteq> CHR '';'') s # split_semicolons r')"
  by pat_completeness auto
termination
proof (relation "measure length")
  fix s x r'
  assume "dropWhile (\<lambda>c. c \<noteq> CHR '';'') s = x # r'"
  then have "length (x # r') \<le> length s" by (metis length_dropWhile_le)
  then show "(r', s) \<in> measure length" by simp
qed simp

definition utf_charsets :: "jsstr list" where
  "utf_charsets = [''utf-8'', ''utf-7'', ''utf-16'', ''utf-16le'', ''utf-16be'',
                   ''utf-32'', ''utf-32le'', ''utf-32be'']"

definition utf8_length :: "jsstr \<Rightarrow> nat" where
  "utf8_length t = sum_list (map (\<lambda>c. if of_char c < (128 :: nat) then 1 else 2) t)"

datatype parse_outcome = Parsed jsval | Rejected nat | OutOfModel

text \<open>body-parser's \<open>parse\<close> in strict mode.\<close>

definition parse_json_body :: "jsstr \<Rightarrow> parse_outcome" where
  "parse_json_body t =
     (if t = [] then Parsed (JObj [])
      else case skip_ws t of
        c # _ \<Rightarrow>
          if c \<noteq> CHR ''{'' \<and> c \<noteq> CHR ''['' then Rejected 400
          else (case json_parse t of
                  Some (Inr v) \<Rightarrow> Parsed v
                | Some (Inl Syntax_Error) \<Rightarrow> Rejected 400
                | Some (Inl Unrepresentable) \<Rightarrow> OutOfModel
                | None \<Rightarrow> OutOfModel)
      | [] \<Rightarrow> Rejected 400)"

definition json_body_parser :: "http_request \<Rightarrow> parse_outcome" where
  "json_body_parser hr =
     (case (hr_body hr, map_of (hr_headers hr) ''content-type'') of
        (TextBody t, Some ct) \<Rightarrow>
          if media_type ct \<noteq> ''application/json'' then Parsed JUndef
          else if (case charset_param (tl (split_semicolons ct)) of
                     None \<Rightarrow> False
                   | Some cs \<Rightarrow> cs \<noteq> [] \<and> cs \<notin> set utf_charsets) then Rejected 415
          else if 102400 < utf8_length t then Rejected 413
          else parse_json_body t
      | _ \<Rightarrow> Parsed JUndef)"

definition status_text :: "nat \<Rightarrow> jsstr" where
  "status_text n =
     (if n = 400 then ''Bad Request'' else if n = 413 then ''Payload Too Large''
      else if n = 415 then ''Unsupported Media Type'' else ''Internal Server Error'')"

subsection \<open>Console output and the whole chain\<close>

definition request_log :: "request \<Rightarrow> log_entry list" where
  "request_log r =
     (if req_method r = OPTIONS then []
      else case dispatch (req_method r) (req_path r) of
        Some RDetection \<Rightarrow> [LogValue ''Detection event:'' (req_body r)]
      | Some RCommand \<Rightarrow> [LogValue ''Command from app:'' (req_body r)]
      | _ \<Rightarrow> [])"

definition to_request :: "http_request \<Rightarrow> jsval \<Rightarrow> request" where
  "to_request hr body =
     \<lparr>req_method = hr_method hr, req_path = hr_path hr, req_body = body,
      req_files = (case hr_body hr of MultipartBody ps \<Rightarrow> file_parts ps | _ \<Rightarrow> [])\<rparr>"

definition serve :: "server_state \<Rightarrow> env \<Rightarrow> http_request \<Rightarrow> (server_state \<times> reply \<times> log_entry list) option" where
  "serve s e hr =
     (case (if hr_method hr = OPTIONS then Parsed JUndef else json_body_parser hr) of
        OutOfModel \<Rightarrow> None
      | Rejected code \<Rightarrow>
          Some (s, \<lparr>reply_status = code, reply_headers = cors_headers hr,
                    reply_payload = PText (status_text code)\<rparr>, [])
      | Parsed body \<Rightarrow>
          (let r = to_request hr body; (s', resp) = server_step s e r in
           Some (s', \<lparr>reply_status = status resp, reply_headers = cors_headers hr,
                      reply_payload = payload resp\<rparr>, request_log r)))"

subsection \<open>Lemmas\<close>

lemma serve_parsed:
  assumes "(if hr_method hr = OPTIONS then Parsed JUndef else json_body_parser hr) = Parsed body"
  shows "serve s e hr =
           Some (fst (server_step s e (to_request hr body)),
                 \<lparr>reply_status = status (snd (server_step s e (to_request hr body))),
                  reply_headers = cors_headers hr,
                  reply_payload = payload (snd (server_step s e (to_request hr body)))\<rparr>,
                 request_log (to_request hr body))"
  using assms by (simp add: serve_def Let_def split: prod.split)

lemma serve_rejected:
  assumes "hr_method hr \<noteq> OPTIONS" and "json_body_parser hr = Rejected code"
  shows "serve s e hr =
           Some (s, \<lparr>reply_status = code, reply_headers = cors_headers hr,
                     reply_payload = PText (status_text code)\<rparr>, [])"
  using assms by (simp add: serve_def)

lemma json_content_type:
  "map_of (hr_headers hr) ''content-type'' = Some ''application/json'' \<Longrightarrow> hr_body hr = TextBody t \<Longrightarrow>
   utf8_length t \<le> 102400 \<Longrightarrow> json_body_parser hr = parse_json_body t"
  by (simp add: json_body_parser_def media_type_def trim_blanks_def ascii_lower_def)

lemma cors_origin: "(''Access-Control-Allow-Origin'', ''*'') \<in> set (cors_headers hr)"
  by (simp add: cors_headers_def)

lemma server_step_OPTIONS:
  "req_method r = OPTIONS \<Longrightarrow> server_step s e r = (s, \<lparr>status = 204, payload = PEmpty\<rparr>)"
  by (simp add: server_step_def)

lemma dispatch_logged:
  "dispatch m p = Some rt \<Longrightarrow> rt = RDetection \<or> rt = RCommand \<Longrightarrow> m = POST"
  by (auto simp: dispatch_def routes_def method_matches_def split: if_splits)

text \<open>
  The requests the chain has no answer for in the model: a JSON body with a
  \<open>\u\<close> escape above 255. Every other request is served.
\<close>

lemma serve_total:
  assumes "serve s e hr = None"
  shows "\<exists>t. hr_body hr = TextBody t \<and> json_parse t = Some (Inl Unrepresentable)"
proof -
  from assms have "hr_method hr \<noteq> OPTIONS" and jb: "json_body_parser hr = OutOfModel"
    by (auto simp: serve_def Let_def split: if_splits parse_outcome.splits prod.splits)
  from jb obtain t where t: "hr_body hr = TextBody t" and p: "parse_json_body t = OutOfModel"
    by (auto simp: json_body_parser_def split: http_body.splits option.splits prod.splits if_splits)
  have "json_parse t \<noteq> None"
    using parse_fuel(1) [of t "Suc (length t)"]
    by (auto simp: json_parse_def split: option.splits sum.splits)
  with p have "json_parse t = Some (Inl Unrepresentable)"
    by (auto simp: parse_json_body_def split: if_splits list.splits sum.splits json_error.splits option.splits)
  with t show ?thesis by blast
qed

end
