(* ===== verification/Startup.thy ===== *)
theory Startup
  imports Middleware Json_Print
begin

text \<open>
  The module's top level outside the routes: the uploads directory
  (lines 12-15), the port (line 132) and \<open>app.listen\<close> with the line its
  callback prints (lines 133-135); the stores start as \<open>initial_state\<close>
  (lines 26-36). \<open>process.env.PORT\<close> is the environment after
  \<open>dotenv\<close>, a string or absent. \<open>app.listen(PORT)\<close> is Node's
  \<open>net.Server.listen\<close>: a string that \<open>Number\<close> does not read as a
  non-negative number is a pipe path (a Unix socket); any other value must be
  an integer from 0 to 65535 (a blank string counts as none), or \<open>listen\<close>
  throws \<open>ERR_SOCKET_BAD_PORT\<close> and the process ends. The outcome of
  \<open>mkdirSync\<close> and of the bind are inputs.
\<close>

record boot_env =
  env_PORT :: "jsstr option"
  uploads_exists :: bool
  mkdir_ok :: bool
  bind_ok :: bool

datatype listen_target = TcpPort nat | PipePath jsstr

datatype boot_outcome = Crashed jsstr | BindFailed | Listening listen_target

record boot_result =
  boot_outcome :: boot_outcome
  created_uploads :: bool
  boot_log :: "log_entry list"

definition port_setting :: "jsstr option \<Rightarrow> jsval" where
  "port_setting p = js_or (case p of None \<Rightarrow> JUndef | Some v \<Rightarrow> JStr v) (JNum (Fin 5000))"

fun num_nonneg :: "jsnum \<Rightarrow> bool" where
  "num_nonneg (Fin x) \<longleftrightarrow> 0 \<le> x"
| "num_nonneg PosInf \<longleftrightarrow> True"
| "num_nonneg _ \<longleftrightarrow> False"

fun port_number :: "jsnum \<Rightarrow> nat option" where
  "port_number (Fin x) =
     (if real_of_int \<lfloor>x\<rfloor> = x \<and> 0 \<le> x \<and> x \<le> 65535 then Some (nat \<lfloor>x\<rfloor>) else None)"
| "port_number _ = None"

definition validate_port :: "jsval \<Rightarrow> jsstr + listen_target" where
  "validate_port v =
     (case (case v of
              JNum n \<Rightarrow> port_number n
            | JStr s \<Rightarrow> if trim_js s = [] then None else port_number (string_to_number s)
            | _ \<Rightarrow> None) of
        None \<Rightarrow> Inl ''ERR_SOCKET_BAD_PORT''
      | Some n \<Rightarrow> Inr (TcpPort n))"

definition listen_target :: "jsval \<Rightarrow> jsstr + listen_target" where
  "listen_target v =
     (case v of
        JStr s \<Rightarrow> if num_nonneg (string_to_number s) then validate_port v else Inr (PipePath s)
      | _ \<Rightarrow> validate_port v)"

text \<open>A template literal's \<open>${v}\<close> for the values \<open>PORT\<close> can hold.\<close>

definition template_string :: "jsval \<Rightarrow> jsstr option" where
  "template_string v = (case v of JStr s \<Rightarrow> Some s | JNum n \<Rightarrow> number_to_string n | _ \<Rightarrow> None)"

definition startup :: "boot_env \<Rightarrow> boot_result" where
  "startup b =
     (if \<not> uploads_exists b \<and> \<not> mkdir_ok b then
        \<lparr>boot_outcome = Crashed ''mkdirSync'', created_uploads = False, boot_log = []\<rparr>
      else
        let created = \<not> uploads_exists b; port = port_setting (env_PORT b) in
        case listen_target port of
          Inl err \<Rightarrow> \<lparr>boot_outcome = Crashed err, created_uploads = created, boot_log = []\<rparr>
        | Inr target \<Rightarrow>
            if bind_ok b then
              \<lparr>boot_outcome = Listening target, created_uploads = created,
               boot_log = (case template_string port of
                             Some t \<Rightarrow> [LogText (''Server running on port '' @ t)]
                           | None \<Rightarrow> [])\<rparr>
            else \<lparr>boot_outcome = BindFailed, created_uploads = created, boot_log = []\<rparr>)"

end
