(* ===== verification/System.thy ===== *)
theory System
  imports Startup
begin

text \<open>
  The whole process: the in-memory stores of index.js together with the
  uploads directory on disk. The process starts as \<open>startup\<close> says (the
  directory is empty when start-up created it, and holds what it held
  otherwise), and then serves HTTP requests one after another through the
  middleware chain \<open>serve\<close>; the upload route's \<open>upload.single("file")\<close>
  (line 50) writes the accepted file into the directory before the handler
  runs. \<open>sys_reachable\<close> is the inductive set of states a started process
  reaches.
\<close>

record system =
  sys_server :: server_state
  sys_disk :: disk

definition upload_parts :: "http_request \<Rightarrow> (jsstr \<times> jsstr \<times> jsstr) list" where
  "upload_parts hr = (case hr_body hr of MultipartBody ps \<Rightarrow> ps | _ \<Rightarrow> [])"

text \<open>
  Multer runs only on the upload route, and before its handler: what it does
  to the directory does not depend on the handler.
\<close>

definition disk_effect :: "env \<Rightarrow> http_request \<Rightarrow> disk \<Rightarrow> disk" where
  "disk_effect e hr d =
     (if hr_method hr \<noteq> OPTIONS \<and> dispatch (hr_method hr) (hr_path hr) = Some RUpload
      then snd (multer_disk ''file'' (disk_ok e) (file_clock e) (upload_parts hr) d)
      else d)"

definition serve_system :: "system \<Rightarrow> env \<Rightarrow> http_request \<Rightarrow> (system \<times> reply \<times> log_entry list) option" where
  "serve_system S e hr =
     (case serve (sys_server S) e hr of
        None \<Rightarrow> None
      | Some (s', rep, out) \<Rightarrow>
          Some (\<lparr>sys_server = s', sys_disk = disk_effect e hr (sys_disk S)\<rparr>, rep, out))"

definition boot_system :: "boot_env \<Rightarrow> disk \<Rightarrow> system option" where
  "boot_system b d0 =
     (case boot_outcome (startup b) of
        Listening _ \<Rightarrow>
          Some \<lparr>sys_server = initial_state,
                sys_disk = (if created_uploads (startup b) then Map.empty else d0)\<rparr>
      | _ \<Rightarrow> None)"

inductive sys_reachable :: "system \<Rightarrow> bool" where
  sys_init: "boot_system b d0 = Some S \<Longrightarrow> sys_reachable S"
| sys_step: "sys_reachable S \<Longrightarrow> serve_system S e hr = Some (S', rep, out) \<Longrightarrow> sys_reachable S'"

text \<open>Every sound with a file has its file in the uploads directory.\<close>

definition files_present :: "system \<Rightarrow> bool" where
  "files_present S \<longleftrightarrow>
     (\<forall>sd \<in> set (sounds (sys_server S)). \<forall>f. sound_filename sd = Some f \<longrightarrow> f \<in> dom (sys_disk S))"

subsection \<open>Lemmas: the body the handlers receive\<close>

lemma json_parse_Inr_ok: "json_parse t = Some (Inr v) \<Longrightarrow> parsed_ok v"
  by (auto simp: json_parse_def simp del: parse_value.simps(2)
           split: option.splits sum.splits if_splits dest: parse_ok(1))

lemma parse_json_body_wf: "parse_json_body t = Parsed v \<Longrightarrow> parsed_ok v"
  by (auto simp: parse_json_body_def split: if_splits list.splits option.splits sum.splits
           json_error.splits dest: json_parse_Inr_ok)

lemma json_body_parser_wf: "json_body_parser hr = Parsed v \<Longrightarrow> v = JUndef \<or> parsed_ok v"
  by (auto simp: json_body_parser_def split: http_body.splits option.splits if_splits
           dest: parse_json_body_wf)

lemma serve_cases:
  assumes "serve s e hr = Some (s', rep, out)"
  obtains (rejected) "s' = s"
  | (parsed) body where "wf_request (to_request hr body)" and "s' = fst (server_step s e (to_request hr body))"
    and "hr_method hr \<noteq> OPTIONS \<Longrightarrow> json_body_parser hr = Parsed body"
proof (cases "if hr_method hr = OPTIONS then Parsed JUndef else json_body_parser hr")
  case (Parsed body)
  then have "body = JUndef \<or> parsed_ok body" by (auto split: if_splits dest: json_body_parser_wf)
  then have "wf_request (to_request hr body)" by (auto simp: wf_request_def to_request_def)
  moreover have "s' = fst (server_step s e (to_request hr body))"
    using assms Parsed by (auto simp: serve_def Let_def split: prod.splits)
  ultimately show ?thesis using that(2) Parsed by (simp split: if_splits)
next
  case (Rejected code)
  then show ?thesis using assms that(1) by (simp add: serve_def)
next
  case OutOfModel
  then show ?thesis using assms by (simp add: serve_def)
qed

lemma serve_reachable: "reachable s \<Longrightarrow> serve s e hr = Some (s', rep, out) \<Longrightarrow> reachable s'"
  by (erule serve_cases) (auto intro: reachable.step)

lemma boot_system_initial: "boot_system b d0 = Some S \<Longrightarrow> sys_server S = initial_state"
  by (auto simp: boot_system_def split: boot_outcome.splits)

lemma sys_reachable_server: "sys_reachable S \<Longrightarrow> reachable (sys_server S)"
proof (induction rule: sys_reachable.induct)
  case (sys_init b d0 S)
  then show ?case using boot_system_initial reachable.init by simp
next
  case (sys_step S e hr S' rep out)
  then show ?case
    by (auto simp: serve_system_def split: option.splits intro: serve_reachable)
qed

subsection \<open>Lemmas: the files of the uploaded sounds\<close>

lemma req_files_to_request: "req_files (to_request hr body) = file_parts (upload_parts hr)"
  by (simp add: to_request_def upload_parts_def file_parts_def split: http_body.split)

lemma disk_effect_grows: "dom d \<subseteq> dom (disk_effect e hr d)"
  by (simp add: disk_effect_def multer_disk_grows)

text \<open>A sound a step adds comes from multer's stored file, under the same name.\<close>

lemma run_route_new_sound:
  assumes "run_route rt s e r = Some (s', resp)" and "sd \<in> set (sounds s')" and "sd \<notin> set (sounds s)"
    and "sound_filename sd = Some f"
  shows "rt = RUpload \<and> (\<exists>n. multer_single ''file'' (disk_ok e) (file_clock e) (req_files r) = Stored n f)"
  using assms
  by (cases rt) (auto simp: handler_simps h_upload_def Let_def add_sound_def
                      split: upload_result.splits option.splits)

lemma server_step_new_sound:
  assumes "sd \<in> set (sounds (fst (server_step s e r)))" and "sd \<notin> set (sounds s)"
    and "sound_filename sd = Some f"
  shows "req_method r \<noteq> OPTIONS \<and> dispatch (req_method r) (req_path r) = Some RUpload
         \<and> (\<exists>n. multer_single ''file'' (disk_ok e) (file_clock e) (req_files r) = Stored n f)"
proof -
  have m: "req_method r \<noteq> OPTIONS" using assms(1,2) by (auto simp: server_step_def)
  then obtain rt where d: "dispatch (req_method r) (req_path r) = Some rt"
    using assms(1,2) by (auto simp: server_step_def split: option.splits)
  then obtain s' resp where "run_route rt s e r = Some (s', resp)" "sd \<in> set (sounds s')"
    using assms(1,2) m by (auto simp: server_step_def split: option.splits)
  then show ?thesis using run_route_new_sound assms(2,3) m d by blast
qed

lemma files_present_step:
  assumes "files_present S" and "serve_system S e hr = Some (S', rep, out)"
  shows "files_present S'"
proof -
  obtain s' where srv: "serve (sys_server S) e hr = Some (s', rep, out)"
    and S': "S' = \<lparr>sys_server = s', sys_disk = disk_effect e hr (sys_disk S)\<rparr>"
    using assms(2) by (auto simp: serve_system_def split: option.splits)
  have old: "f \<in> dom (disk_effect e hr (sys_disk S))"
    if "sd \<in> set (sounds (sys_server S))" "sound_filename sd = Some f" for sd f
    using assms(1) that disk_effect_grows [of "sys_disk S" e hr] unfolding files_present_def by blast
  show ?thesis
  proof (rule serve_cases [OF srv])
    assume "s' = sys_server S"
    then show ?thesis using S' old by (auto simp: files_present_def)
  next
    fix body assume step: "s' = fst (server_step (sys_server S) e (to_request hr body))"
    let ?r = "to_request hr body"
    have "f \<in> dom (disk_effect e hr (sys_disk S))"
      if sd: "sd \<in> set (sounds s')" "sound_filename sd = Some f" for sd f
    proof (cases "sd \<in> set (sounds (sys_server S))")
      case False
      then have "req_method ?r \<noteq> OPTIONS \<and> dispatch (req_method ?r) (req_path ?r) = Some RUpload
                 \<and> (\<exists>n. multer_single ''file'' (disk_ok e) (file_clock e) (req_files ?r) = Stored n f)"
        using server_step_new_sound [of sd "sys_server S" e ?r f] sd step by simp
      then obtain n where "hr_method hr \<noteq> OPTIONS" "dispatch (hr_method hr) (hr_path hr) = Some RUpload"
        "multer_single ''file'' (disk_ok e) (file_clock e) (file_parts (upload_parts hr)) = Stored n f"
        by (auto simp: req_files_to_request) (auto simp: to_request_def)
      then show ?thesis by (simp add: disk_effect_def multer_disk_Stored)
    qed (use old sd in blast)
    then show ?thesis using S' by (auto simp: files_present_def)
  qed
qed

lemma sys_reachable_files_present: "sys_reachable S \<Longrightarrow> files_present S"
proof (induction rule: sys_reachable.induct)
  case (sys_init b d0 S)
  then show ?case
    by (simp add: boot_system_initial files_present_def initial_state_def initial_sounds_def default_sound_def)
next
  case (sys_step S e hr S' rep out)
  then show ?case using files_present_step by blast
qed

end
