(* ===== verification/Spec2Isabelle.thy ===== *)
theory Spec2Isabelle
  imports System
begin

text \<open>
  \<^bold>\<open>The program.\<close> src/smart-farm-backend/index.js is an Express server
  for a farm-monitoring device. It keeps three module-level stores: the
  alert log \<open>alerts\<close> (line 26), the sound catalog \<open>sounds\<close> (lines 27-29)
  and the settings record \<open>settings\<close> (lines 30-36). Nine route handlers
  (lines 38-130) read and change them. In front of the routes run
  \<open>cors()\<close> (line 9) and \<open>express.json()\<close> (line 10), and multer's disk
  storage (lines 17-24) runs before the upload handler. At start-up the
  module creates the uploads directory (lines 12-15) and listens on
  \<open>process.env.PORT || 5000\<close> (lines 132-135). The settings refer to the
  catalog by id: select, upload and the settings update all assign
  \<open>selectedSoundId\<close>, and two of them check it against the catalog with
  \<open>sounds.some((sound) => sound.id === x)\<close>.

  \<^bold>\<open>The theories\<close>, in import order.
  \<^item> \<open>Prelude\<close>: characters as code units, JavaScript white space
    (\<open>is_js_space\<close>), digits, list lemmas; the collections
    \<open>handler_simps\<close> and \<open>inv_intros\<close>.
  \<^item> \<open>JS_Values\<close>: the values a request body holds (\<open>jsval\<close>, numbers
    \<open>jsnum\<close> with infinities and NaN) and the language operators the
    handlers apply: \<open>||\<close> (\<open>js_or\<close>), \<open>typeof\<close>, \<open>v.k\<close> and \<open>v?.k\<close>
    (\<open>js_get\<close>, \<open>js_get_opt\<close>; a read on \<open>undefined\<close> or \<open>null\<close>
    throws, \<open>None\<close>), \<open>Math.min\<close>/\<open>Math.max\<close> (\<open>clamp_num\<close>), the JSON
    values with finite numbers (\<open>json_value\<close>) and those \<open>JSON.parse\<close>
    can return, infinities included (\<open>json_like\<close>), what \<open>res.json\<close>
    keeps of a value (\<open>stringify_value\<close>), and \<open>to_binary64\<close>, the
    range of binary64 applied to a number read from decimal text.
  \<^item> \<open>JS_Number\<close>: \<open>Number(x)\<close> (\<open>js_to_number\<close>, with ECMAScript's
    StringToNumber grammar in \<open>string_to_number\<close>) for line 81 and for
    \<open>PORT\<close>, and \<open>String(Date.now())\<close> (\<open>nat_to_dec\<close>) for the ids and
    file names, with the round trip and injectivity of the clock ids.
  \<^item> \<open>Json_Parse\<close>: \<open>JSON.parse\<close> as the body parser applies it, a
    recursive-descent parser (\<open>parse_value\<close>, \<open>parse_elements\<close>,
    \<open>parse_members\<close>) with fuel; objects with distinct keys in own-property
    order (\<open>make_object\<close>); \<open>parsed_ok\<close>, the values it can return,
    and \<open>json_ok\<close>, those among them with finite numbers.
  \<^item> \<open>Json_Print\<close>: \<open>JSON.stringify\<close> as text (\<open>json_text\<close>, with
    \<open>Number::toString\<close> in plain notation and the string escapes) and
    \<open>sendable\<close>, the values \<open>res.json\<close> writes as such a value.
  \<^item> \<open>Sound_Catalog\<close>, \<open>Settings_Store\<close>, \<open>Alert_Log\<close>,
    \<open>Upload_Storage\<close>: the three stores with their operations (\<open>add_sound\<close>,
    \<open>select_sound\<close>, \<open>update_settings\<close> one step per \<open>if\<close> of lines
    103-127 with its field-by-field form \<open>merged_settings\<close>,
    \<open>record_detection\<close>) and multer's file name, outcome and write into
    the uploads directory (\<open>safe_name\<close>, \<open>multer_filename\<close>,
    \<open>multer_single\<close>, \<open>multer_disk\<close>; the directory is a store
    \<open>disk\<close> from file names to contents).
  \<^item> \<open>Server\<close>: the state record \<open>server_state\<close> (the three stores), one
    handler per route (\<open>h_root\<close> \<dots> \<open>h_put_settings\<close>, each returning the
    new state and the response, or \<open>None\<close> for a throw), Express's routing
    (\<open>dispatch\<close>: case-insensitive, optional trailing slash, \<open>HEAD\<close> by
    \<open>GET\<close> routes) and \<open>server_step\<close> (the preflight 204, Express's 404
    and 500, the routed handler). \<open>reachable\<close> is the inductive set of
    states reached by steps on requests the body parser can deliver
    (\<open>wf_request\<close>), \<open>state_inv\<close> its invariant, proved by rule induction;
    \<open>clocked\<close> is the inductive set of runs whose requests read a strictly
    increasing clock, with the invariant \<open>ids_fresh\<close>.
  \<^item> \<open>Middleware\<close>: HTTP requests and replies, \<open>cors_headers\<close>,
    \<open>json_body_parser\<close> (media type, charset 415, 100 kB 413, strict mode
    and \<open>JSON.parse\<close> 400), the console lines \<open>request_log\<close>, and
    \<open>serve\<close>, the whole chain from an HTTP request to the new state, the
    reply and the console output.
  \<^item> \<open>Startup\<close>: the process environment \<open>boot_env\<close>, the port
    \<open>port_setting\<close>, Node's \<open>listen\<close> (\<open>listen_target\<close>,
    \<open>validate_port\<close>: TCP port, pipe path or \<open>ERR_SOCKET_BAD_PORT\<close>) and
    \<open>startup\<close>.
  \<^item> \<open>System\<close>: the whole process, the record \<open>system\<close> of the
    stores and the uploads directory; \<open>boot_system\<close> starts it as
    \<open>startup\<close> says, \<open>serve_system\<close> serves one HTTP request through
    \<open>serve\<close> and multer's write (\<open>disk_effect\<close>), and \<open>sys_reachable\<close>
    is the inductive set of the states a started process reaches, with the
    invariant \<open>files_present\<close> and the link to \<open>reachable\<close>.
  \<^item> This theory: sample inputs, the properties that span components, and
    their witnesses. The properties of one component are in its theory
    (C12, C32, C33 in \<open>Alert_Log\<close>). The parser's termination, the
    type of what it returns and the print/parse round trip are lemmas of
    \<open>Json_Parse\<close> and \<open>Json_Print\<close> (\<open>json_parse_total\<close>,
    \<open>json_parse_ok\<close>, \<open>json_text_parses\<close>): they are facts of the
    libraries the program calls, used by the properties of the chain.

  \<^bold>\<open>Inputs and effects.\<close> A step takes the state, an environment and a
  request. The environment holds what the code reads from outside:
  \<open>Date.now()\<close> in the handler (\<open>now_ms\<close>) and in multer's filename
  callback (\<open>file_clock\<close>, a separate call), \<open>toLocaleTimeString()\<close>
  (\<open>local_time\<close>) and whether the disk write succeeds (\<open>disk_ok\<close>). Node
  runs each handler to completion before the next starts and every handler
  here is synchronous, so a run is a sequence of steps. Console output is a
  list of \<open>log_entry\<close> values returned with the reply; whether the uploads
  directory exists, whether \<open>mkdirSync\<close> and the bind succeed, and
  \<open>PORT\<close> are inputs of \<open>startup\<close>.

  \<^bold>\<open>What the lemmas show.\<close> The selection always names a catalog sound
  and the threshold and volume stay in range in every reachable state
  (C1, C2); each handler's effect and response on every branch, errors
  included (C3-C13); which requests change nothing, that the stores only
  grow, that no handler throws and that only an upload adds to the catalog
  (C14-C17). The request chain refines the handlers on JSON bodies (C18).
  Ids are unique under a strictly increasing clock (C19); the initial
  settings can always be restored (C20); the handlers cannot tell a missing
  body from \<open>{}\<close> (C21); preflight, strict-mode rejection and console
  output (C22-C24); the listener's port, pipe and crash outcomes (C25-C28);
  the whole process keeps the invariant, every uploaded sound's file exists,
  and an upload replaces a file of the same name (C29-C31); behaviours the
  spec states otherwise or not at all (C32-C34, C23, C27, C28, C31, listed
  as findings).

  \<^bold>\<open>Bounds, fuel and termination.\<close> The program has no loop beyond
  \<open>Array.prototype.some\<close>, the regular-expression replacement and the
  libraries' parsers. \<open>safe_name\<close> and \<open>split_semicolons\<close> terminate by
  a length measure; \<open>JSON.parse\<close> is given fuel one more than the length of
  the text, which is enough because every nested call but the first element
  of an array consumes a character, and that call keeps the fuel
  (\<open>json_parse_total\<close>).
  \<open>Number::toString\<close> tries at most 22 decimal places, enough for every
  number whose expansion is finite within the plain-notation range
  \<open>10^-6 \<le> x < 10^21\<close>; the body limit is 102400 UTF-8 bytes and ports
  are 0-65535, as in Node. A number read from text (\<open>Number(s)\<close>,
  \<open>JSON.parse\<close>) overflows to an infinity at \<open>2^1024 - 2^970\<close> and
  underflows to 0 at \<open>2^-1075\<close>, as binary64 does; inside that range the
  model keeps the exact value instead of the nearest double, and \<open>-0\<close> is
  \<open>0\<close>. The properties about numbers depend only on the range ends
  (infinities, 0) and on NaN, never on the rounding inside the range.

  \<^bold>\<open>Not modelled.\<close> How \<open>util.inspect\<close> renders a logged value (the
  model logs the value itself); the rounding of a decimal literal to the
  nearest double inside the binary64 range (its ends are modelled); numbers that \<open>Number::toString\<close> writes with
  an exponent (\<open>json_text\<close> gives \<open>None\<close>); code units of 256 and above
  in strings (\<open>serve\<close> gives \<open>None\<close> only for such a body); the headers
  Express itself adds (\<open>Content-Type\<close>, \<open>ETag\<close>, \<open>X-Powered-By\<close>) and
  the HTML bodies of its error pages (the model answers with the status
  text); the byte stream multer writes (a file's content is a string); \<open>dotenv\<close>'s file parsing (its
  result is the \<open>PORT\<close> input). These are library internals that change
  neither the state nor which handler runs.
\<close>

section \<open>Sample inputs\<close>

text \<open>A clock, a wall-clock string and a working disk; an upload request of one file.\<close>

definition e0 :: env where "e0 = \<lparr>now_ms = 7, file_clock = 6, local_time = ''10:00:00'', disk_ok = True\<rparr>"
definition upload_req :: request where
  "upload_req = \<lparr>req_method = POST, req_path = ''/sounds/upload'', req_body = JObj [], req_files = [(''file'', ''owl call.mp3'')]\<rparr>"

definition e_disk_full :: env where
  "e_disk_full = e0\<lparr>disk_ok := False\<rparr>"

definition mk_req :: "http_method \<Rightarrow> jsstr \<Rightarrow> jsval \<Rightarrow> (jsstr \<times> jsstr) list \<Rightarrow> request" where
  "mk_req m p b fs = \<lparr>req_method = m, req_path = p, req_body = b, req_files = fs\<rparr>"

definition select_req :: "jsval \<Rightarrow> request" where
  "select_req v = mk_req POST ''/sounds/select'' (JObj [(''soundId'', v)]) []"

definition empty_upload_req :: request where
  "empty_upload_req = mk_req POST ''/sounds/upload'' (JObj []) []"

definition put_req :: "(jsstr \<times> jsval) list \<Rightarrow> request" where
  "put_req kvs = mk_req PUT ''/settings'' (JObj kvs) []"

definition detect_req :: "(jsstr \<times> jsval) list \<Rightarrow> request" where
  "detect_req kvs = mk_req POST ''/device/detection'' (JObj kvs) []"

text \<open>HTTP requests as they reach the middleware, and a process environment.\<close>

definition hreq :: "http_method \<Rightarrow> jsstr \<Rightarrow> (jsstr \<times> jsstr) list \<Rightarrow> http_body \<Rightarrow> http_request" where
  "hreq m p hs b = \<lparr>hr_method = m, hr_path = p, hr_headers = hs, hr_body = b\<rparr>"

definition json_hdr :: "(jsstr \<times> jsstr) list" where
  "json_hdr = [(''content-type'', ''application/json'')]"

definition boot :: "jsstr option \<Rightarrow> boot_env" where
  "boot p = \<lparr>env_PORT = p, uploads_exists = False, mkdir_ok = True, bind_ok = True\<rparr>"

definition upload_http :: "jsstr \<Rightarrow> http_request" where
  "upload_http c = hreq POST ''/sounds/upload'' [] (MultipartBody [(''file'', ''owl call.mp3'', c)])"

text \<open>The process after one upload of \<open>owl call.mp3\<close> with content \<open>A\<close>, and the sound it adds.\<close>

definition sys1 :: system where
  "sys1 = fst (the (serve_system \<lparr>sys_server = initial_state, sys_disk = Map.empty\<rparr> e0 (upload_http ''A'')))"

definition owl_sound :: sound where
  "owl_sound = \<lparr>sound_id = nat_to_dec 7, sound_name = ''owl call.mp3'',
                sound_filename = Some (multer_filename 6 ''owl call.mp3''), sound_source = Uploaded\<rparr>"

lemmas sample_defs = detect_req_def put_req_def e0_def e_disk_full_def mk_req_def select_req_def empty_upload_req_def upload_req_def

section \<open>Properties of the server\<close>

subsection \<open>Invariants of the reachable states\<close>

text \<open>
  C1. In every state the server reaches from its start, through any sequence
  of requests the body parser can deliver, the selected sound id is the id of
  a sound in the catalog.
\<close>

theorem reachable_selection_valid:
  "reachable s \<Longrightarrow> \<exists>snd \<in> set (sounds s). selectedSoundId (settings s) = JStr (sound_id snd)"
  using reachable_state_inv by (auto simp: state_inv_def selection_ok_def sound_exists_iff)

text \<open>
  C2. In every reachable state the confidence threshold is a number in
  [0, 1] and the volume a number in [0, 100].
\<close>

theorem reachable_settings_in_range:
  assumes "reachable s"
  shows "\<exists>c v. confidenceThreshold (settings s) = Fin c \<and> 0 \<le> c \<and> c \<le> 1
              \<and> volume (settings s) = Fin v \<and> 0 \<le> v \<and> v \<le> 100"
proof -
  from assms have "threshold_ok (settings s)" "volume_ok (settings s)"
    by (simp_all add: reachable_state_inv [THEN state_inv_def [THEN iffD1]])
  then show ?thesis
    by (auto simp: threshold_ok_def volume_ok_def split: jsnum.splits)
qed

subsection \<open>Selecting a sound\<close>

text \<open>
  C3. \<open>POST /sounds/select\<close> with the id of a sound of the catalog selects
  it: the settings record gets that id, nothing else changes, and the answer
  is 200 with \<open>{status: "selected", selectedSoundId}\<close>.
\<close>

theorem select_known_sound:
  assumes "req_method r = POST" and "req_path r = ''/sounds/select''"
    and "js_get_opt (js_or (req_body r) (JObj [])) ''soundId'' = JStr i"
    and "i \<in> set (sound_ids (sounds s))"
  shows "server_step s e r =
           (s\<lparr>settings := (settings s)\<lparr>selectedSoundId := JStr i\<rparr>\<rparr>,
            json_resp 200 [(''status'', JStr ''selected''), (''selectedSoundId'', JStr i)])"
  using assms server_step_dispatched [of r RSelect]
  by (simp add: dispatch_route_paths h_select_eq select_sound_def Let_def)

text \<open>
  C4. \<open>POST /sounds/select\<close> whose \<open>soundId\<close> is not the id of a sound
  of the catalog (an unknown string, or no string at all) changes nothing and
  is answered 404 with \<open>{error: "Sound not found"}\<close>.
\<close>

theorem select_unknown_sound:
  assumes "req_method r = POST" and "req_path r = ''/sounds/select''"
    and "\<not> sound_exists (sounds s) (js_get_opt (js_or (req_body r) (JObj [])) ''soundId'')"
  shows "server_step s e r = (s, json_resp 404 [(''error'', JStr ''Sound not found'')])"
  using assms server_step_dispatched [of r RSelect]
  by (simp add: dispatch_route_paths h_select_eq select_sound_def Let_def)

subsection \<open>Uploading a sound\<close>

text \<open>
  C5. A successful upload appends exactly one sound, with the clock reading as
  its id, the original name, the generated file name and source
  \<open>uploaded\<close>, selects it, and is answered 200.
\<close>

theorem upload_stored:
  assumes "req_method r = POST" and "req_path r = ''/sounds/upload''"
    and "req_files r = [(''file'', name)]" and "disk_ok e"
  shows "fst (server_step s e r) =
           s\<lparr>sounds := sounds s @ [\<lparr>sound_id = nat_to_dec (now_ms e), sound_name = name,
                                     sound_filename = Some (multer_filename (file_clock e) name),
                                     sound_source = Uploaded\<rparr>],
             settings := (settings s)\<lparr>selectedSoundId := JStr (nat_to_dec (now_ms e))\<rparr>\<rparr>
         \<and> status (snd (server_step s e r)) = 200"
  using assms server_step_dispatched [of r RUpload]
  by (simp add: dispatch_route_paths h_upload_def multer_single_def add_sound_def select_uploaded_def
                json_resp_def Let_def)

text \<open>
  C6. An upload request without a file changes nothing and is answered 400
  with \<open>{error: "No file uploaded"}\<close>.
\<close>

theorem upload_without_file:
  assumes "req_method r = POST" and "req_path r = ''/sounds/upload''" and "req_files r = []"
  shows "server_step s e r = (s, json_resp 400 [(''error'', JStr ''No file uploaded'')])"
  using assms server_step_dispatched [of r RUpload]
  by (simp add: dispatch_route_paths h_upload_def multer_single_def)

text \<open>
  C7. An upload that multer fails (a failed disk write, a file under another
  field, more than one file) changes neither the catalog nor the settings:
  the request is answered 500 and the state is the one before.
\<close>

theorem upload_failure_leaves_state:
  assumes "req_method r = POST" and "req_path r = ''/sounds/upload''"
    and "multer_single ''file'' (disk_ok e) (file_clock e) (req_files r) = UploadError"
  shows "server_step s e r = (s, error_500)"
  using assms server_step_dispatched [of r RUpload]
  by (simp add: dispatch_route_paths h_upload_def)

subsection \<open>Updating the settings\<close>

text \<open>
  C8. \<open>PUT /settings\<close> clamps: a numeric volume \<open>v\<close> is stored as
  \<open>min 100 (max 0 v)\<close> and a numeric threshold \<open>c\<close> as \<open>min 1 (max 0 c)\<close>
  (so 150 becomes 100, -5 becomes 0, 2.0 becomes 1).
\<close>

theorem put_settings_clamps:
  assumes "req_method r = PUT" and "req_path r = ''/settings''"
    and "js_get_opt (js_or (req_body r) (JObj [])) ''volume'' = JNum (Fin v)"
    and "js_get_opt (js_or (req_body r) (JObj [])) ''confidenceThreshold'' = JNum (Fin c)"
  shows "volume (settings (fst (server_step s e r))) = Fin (min 100 (max 0 v))
       \<and> confidenceThreshold (settings (fst (server_step s e r))) = Fin (min 1 (max 0 c))"
  using assms by (simp add: put_settings_step merged_settings_def)

text \<open>
  C9. \<open>PUT /settings\<close> stores a \<open>selectedSoundId\<close> only when it is the id
  of a sound of the catalog; any other value (an unknown id, a non-string)
  leaves the selection as it was, without an error.
\<close>

theorem put_settings_selection:
  assumes "req_method r = PUT" and "req_path r = ''/settings''"
  shows "selectedSoundId (settings (fst (server_step s e r))) =
           (let v = js_get_opt (js_or (req_body r) (JObj [])) ''selectedSoundId''
            in if sound_exists (sounds s) v then v else selectedSoundId (settings s))"
  using assms
  by (auto simp: put_settings_step merged_settings_def Let_def sound_exists_iff sound_ids_def
           split: jsval.split)

text \<open>
  C10. \<open>PUT /settings\<close> ignores fields of the wrong type: when no field
  has the type its guard asks for (\<open>typeof\<close> number, boolean, boolean,
  number, string), the request changes nothing; a numeric string such as
  \<open>"50"\<close> is not converted.
\<close>

theorem put_settings_ill_typed_ignored:
  assumes "req_method r = PUT" and "req_path r = ''/settings''"
    and "js_typeof (js_get_opt (js_or (req_body r) (JObj [])) ''confidenceThreshold'') \<noteq> ''number''"
    and "js_typeof (js_get_opt (js_or (req_body r) (JObj [])) ''autoSound'') \<noteq> ''boolean''"
    and "js_typeof (js_get_opt (js_or (req_body r) (JObj [])) ''pushAlerts'') \<noteq> ''boolean''"
    and "js_typeof (js_get_opt (js_or (req_body r) (JObj [])) ''volume'') \<noteq> ''number''"
    and "js_typeof (js_get_opt (js_or (req_body r) (JObj [])) ''selectedSoundId'') \<noteq> ''string''"
  shows "fst (server_step s e r) = s"
  using assms by (simp add: put_settings_step merged_settings_ill_typed)

subsection \<open>Recording a detection\<close>

text \<open>
  C11. \<open>POST /device/detection\<close> puts one new alert in front of the log
  (its id the clock reading, its time and confidence from the request),
  leaves catalog and settings alone and answers 200 \<open>{status: "received"}\<close>.
\<close>

theorem detection_prepends:
  assumes "req_method r = POST" and "req_path r = ''/device/detection''"
  shows "server_step s e r =
           (s\<lparr>alerts := \<lparr>alert_id = nat_to_dec (now_ms e), alert_time = detection_time (req_body r) (local_time e),
                          alert_confidence = detection_confidence (req_body r)\<rparr> # alerts s\<rparr>,
            json_resp 200 [(''status'', JStr ''received'')])"
  using assms server_step_dispatched [of r RDetection]
  by (simp add: dispatch_route_paths h_detection_def record_detection_def)

text \<open>
  C13. A detection whose body has neither a confidence nor a time (no body,
  \<open>{}\<close>, or other fields only) puts one alert in front of the log, with
  the clock id, confidence 0.8 and the server's wall-clock string as its
  time, and leaves the older alerts as they were.
\<close>

theorem detection_without_fields:
  assumes "req_method r = POST" and "req_path r = ''/device/detection''"
    and "js_get_opt (req_body r) ''confidence'' = JUndef" and "js_get_opt (req_body r) ''time'' = JUndef"
  shows "alerts (fst (server_step s e r)) =
           \<lparr>alert_id = nat_to_dec (now_ms e), alert_time = JStr (local_time e),
            alert_confidence = Fin (8 / 10)\<rparr> # alerts s"
  using detection_step [OF assms(1,2)] assms(3,4)
  by (simp add: detection_time_def detection_confidence_def js_or_def num_or_def)

subsection \<open>Frame and error properties of a step\<close>

text \<open>
  C14. Only \<open>POST\<close> and \<open>PUT\<close> requests change the state: a \<open>GET\<close>, a
  \<open>HEAD\<close>, a CORS preflight \<open>OPTIONS\<close> or any other method leaves
  alerts, sounds and settings as they were, whatever its path.
\<close>

theorem requests_without_effect:
  assumes "req_method r \<noteq> POST" and "req_method r \<noteq> PUT"
  shows "fst (server_step s e r) = s"
proof (cases "req_method r = OPTIONS")
  case False
  show ?thesis
  proof (cases "dispatch (req_method r) (req_path r)")
    case (Some rt)
    from Some assms have ro: "rt \<in> {RRoot, RAlerts, RSounds, RGetSettings}"
      by (rule dispatch_read_only)
    obtain s' resp where run: "run_route rt s e r = Some (s', resp)"
      using run_route_total by blast
    from ro run have "s' = s" by (rule run_route_read_only)
    with False Some run show ?thesis by (simp add: server_step_def)
  qed (simp add: server_step_def False)
qed (simp add: server_step_def)

text \<open>
  C15. The catalog and the log only grow: after any request the old catalog is
  a prefix of the new one (sounds are appended, never changed or removed) and
  the old log a suffix of the new one (alerts are put in front).
\<close>

theorem step_append_only:
  "prefix (sounds s) (sounds (fst (server_step s e r))) \<and> suffix (alerts s) (alerts (fst (server_step s e r)))"
  by (cases rule: server_step_cases [of s e r]) (auto dest: run_route_grows)

text \<open>
  C16. No handler throws: the server answers 500 only for an upload request
  that multer fails.
\<close>

theorem no_internal_error:
  assumes "status (snd (server_step s e r)) = 500"
  shows "dispatch (req_method r) (req_path r) = Some RUpload
         \<and> multer_single ''file'' (disk_ok e) (file_clock e) (req_files r) = UploadError"
proof (cases "req_method r = OPTIONS")
  case False
  show ?thesis
  proof (cases "dispatch (req_method r) (req_path r)")
    case (Some rt)
    obtain s' resp where run: "run_route rt s e r = Some (s', resp)"
      using run_route_total by blast
    with assms False Some have "status resp = 500" by (simp add: server_step_def split: if_splits)
    with run have "rt = RUpload \<and> multer_single ''file'' (disk_ok e) (file_clock e) (req_files r) = UploadError"
      by (rule run_route_status_500)
    with Some show ?thesis by simp
  qed (use assms False in \<open>simp add: server_step_def\<close>)
qed (use assms in \<open>simp add: server_step_def\<close>)

text \<open>
  C17. Only an upload adds to the catalog: a request after which the sound
  catalog differs is a \<open>POST\<close> that Express routes to
  \<open>/sounds/upload\<close> (the spec's catalog supports append on upload only).
\<close>

theorem catalog_only_upload:
  assumes "sounds (fst (server_step s e r)) \<noteq> sounds s"
  shows "req_method r = POST \<and> dispatch POST (req_path r) = Some RUpload"
proof -
  have m: "req_method r \<noteq> OPTIONS" using assms by (auto simp: server_step_def)
  obtain rt where d: "dispatch (req_method r) (req_path r) = Some rt"
    using assms m by (auto simp: server_step_def split: option.splits)
  have "rt = RUpload"
  proof (rule ccontr)
    assume "rt \<noteq> RUpload"
    then have "sounds (fst (server_step s e r)) = sounds s" using m d
      by (cases rt) (auto simp: server_step_def handler_simps Let_def split: option.splits)
    with assms show False by simp
  qed
  moreover have "req_method r = POST"
    using d calculation by (auto simp: dispatch_def routes_def method_matches_def split: if_splits)
  ultimately show ?thesis using d by simp
qed

section \<open>Properties of the request chain\<close>

text \<open>
  C18. Refinement of the request chain: a request whose body is the JSON text
  of a value \<open>v\<close> that \<open>JSON.parse\<close> can return, an object or an
  array, sent as \<open>application/json\<close> within the 100 kB limit, is served
  exactly as the route handlers serve the request with body \<open>v\<close>: same new
  state, status and payload, with the CORS headers and the handler's console
  lines.
\<close>

theorem serve_json_body:
  assumes "hr_method hr \<noteq> OPTIONS" and "hr_body hr = TextBody t"
    and "map_of (hr_headers hr) ''content-type'' = Some ''application/json''"
    and "utf8_length t \<le> 102400"
    and "json_ok v" and "json_text v = Some t" and "hd t \<in> {CHR ''{'', CHR ''[''}"
  shows "serve s e hr =
           Some (fst (server_step s e (to_request hr v)),
                 \<lparr>reply_status = status (snd (server_step s e (to_request hr v))),
                  reply_headers = cors_headers hr,
                  reply_payload = payload (snd (server_step s e (to_request hr v)))\<rparr>,
                 request_log (to_request hr v))"
proof -
  have t: "t \<noteq> []" using json_text_start [OF assms(6)] by simp
  have ws: "skip_ws t = t" using skip_ws_text [OF assms(6), of "[]"] by simp
  have "json_parse t = Some (Inr v)" using json_text_parses assms(5,6) by blast
  then have "parse_json_body t = Parsed v"
    using t ws assms(7) by (cases t) (auto simp: parse_json_body_def)
  then show ?thesis
    using serve_parsed json_content_type [OF assms(3,2,4)] assms(1) by simp
qed

text \<open>
  C21. Express 4 and Express 5 agree: the handlers answer a request without a
  body (\<open>req.body\<close> undefined) and one with the empty object \<open>{}\<close> the
  same way, state and response.
\<close>

theorem server_step_empty_body:
  "server_step s e (r\<lparr>req_body := JUndef\<rparr>) = server_step s e (r\<lparr>req_body := JObj []\<rparr>)"
proof -
  have eq: "run_route rt s e (r\<lparr>req_body := JUndef\<rparr>) = run_route rt s e (r\<lparr>req_body := JObj []\<rparr>)" for rt
    by (cases rt) (simp_all add: handler_simps h_select_def h_put_settings_def js_or_def
                                record_detection_def detection_time_def detection_confidence_def
                                js_get_opt_def)
  show ?thesis by (simp add: server_step_def eq cong: option.case_cong)
qed

text \<open>
  C22. An \<open>OPTIONS\<close> request is a CORS preflight: it is answered 204 with
  no body and the CORS headers, whatever its path, and changes nothing and
  prints nothing.
\<close>

theorem serve_preflight:
  assumes "hr_method hr = OPTIONS"
  shows "serve s e hr = Some (s, \<lparr>reply_status = 204, reply_headers = cors_headers hr, reply_payload = PEmpty\<rparr>, [])"
  using serve_parsed [of hr JUndef s e] assms
  by (simp add: server_step_OPTIONS to_request_def request_log_def)

text \<open>
  C23. Strict mode: a non-empty \<open>application/json\<close> body whose first
  non-blank character is not \<open>{\<close> or \<open>[\<close>, or that \<open>JSON.parse\<close>
  rejects, is answered 400 before any route runs, with the state unchanged
  and nothing printed.
\<close>

theorem serve_strict_rejects:
  assumes "hr_method hr \<noteq> OPTIONS" and "hr_body hr = TextBody t"
    and "map_of (hr_headers hr) ''content-type'' = Some ''application/json''"
    and "utf8_length t \<le> 102400" and "t \<noteq> []"
    and "skip_ws t = [] \<or> hd (skip_ws t) \<notin> {CHR ''{'', CHR ''[''} \<or> json_parse t = Some (Inl Syntax_Error)"
  shows "serve s e hr = Some (s, \<lparr>reply_status = 400, reply_headers = cors_headers hr,
                                  reply_payload = PText ''Bad Request''\<rparr>, [])"
proof -
  have "parse_json_body t = Rejected 400"
    using assms(5,6) by (auto simp: parse_json_body_def neq_Nil_conv split: list.splits)
  then show ?thesis
    using serve_rejected [OF assms(1)] json_content_type [OF assms(3) assms(2) assms(4)]
    by (simp add: status_text_def)
qed

text \<open>
  C24. Console output: a request prints something only when it is routed to
  \<open>POST /device/detection\<close> or \<open>POST /device/command\<close>, which answer
  200; it prints one line, with the label of that route and the parsed body.
\<close>

theorem serve_log:
  assumes "serve s e hr = Some (s', rep, out)" and "out \<noteq> []"
  shows "hr_method hr = POST \<and> reply_status rep = 200 \<and>
         (\<exists>b. (dispatch POST (hr_path hr) = Some RDetection \<and> out = [LogValue ''Detection event:'' b])
            \<or> (dispatch POST (hr_path hr) = Some RCommand \<and> out = [LogValue ''Command from app:'' b]))"
proof -
  obtain body where p: "(if hr_method hr = OPTIONS then Parsed JUndef else json_body_parser hr) = Parsed body"
    and o: "out = request_log (to_request hr body)"
    and st: "reply_status rep = status (snd (server_step s e (to_request hr body)))"
    using assms by (auto simp: serve_def Let_def split: parse_outcome.splits prod.splits)
  let ?r = "to_request hr body"
  obtain rt where m: "hr_method hr \<noteq> OPTIONS" and d: "dispatch (hr_method hr) (hr_path hr) = Some rt"
    and rt: "rt = RDetection \<or> rt = RCommand"
    using assms(2) o by (auto simp: request_log_def to_request_def split: if_splits option.splits route.splits)
  have post: "hr_method hr = POST" using dispatch_logged [OF d rt] .
  have "status (snd (server_step s e ?r)) = 200"
    using rt server_step_dispatched [of ?r rt s e] d post
    by (auto simp: to_request_def h_detection_def h_command_def json_resp_def)
  then show ?thesis using o st d post rt by (auto simp: request_log_def to_request_def)
qed

subsection \<open>Runs under a clock and recovery\<close>

text \<open>
  C19. Ids are unique: in any run whose requests read a strictly increasing
  clock, the sound ids of the catalog are distinct and the alert ids of the
  log are distinct.
\<close>

theorem clocked_ids_distinct:
  assumes "clocked s t"
  shows "distinct (map sound_id (sounds s)) \<and> distinct (map alert_id (alerts s))"
  using clocked_ids_fresh [OF assms] by (simp add: ids_fresh_def)

text \<open>
  C20. The default settings can always be restored: from every reachable
  state, one \<open>PUT /settings\<close> with the initial settings as body gives
  back exactly the initial settings.
\<close>

theorem settings_recoverable:
  assumes "reachable s"
  shows "settings (fst (server_step s e (mk_req PUT ''/settings'' (settings_json initial_settings) []))) = initial_settings"
proof -
  have "prefix initial_sounds (sounds s)" using reachable_state_inv [OF assms] by (simp add: state_inv_def)
  then have "''default'' \<in> set (sound_ids (sounds s))"
    by (auto simp: initial_sounds_def default_sound_def sound_ids_def prefix_def)
  then show ?thesis
    by (simp add: put_settings_step mk_req_def merged_settings_def settings_json_def initial_settings_def
                  js_get_opt_def js_or_def clamp_num_def)
qed

section \<open>Start-up\<close>

text \<open>
  C25. Without \<open>PORT\<close> (absent or empty) the server creates the uploads
  directory when it is missing, listens on TCP port 5000 and prints
  \<open>Server running on port 5000\<close>.
\<close>

theorem startup_default_port:
  assumes "env_PORT b = None \<or> env_PORT b = Some []" and "uploads_exists b \<or> mkdir_ok b" and "bind_ok b"
  shows "startup b = \<lparr>boot_outcome = Listening (TcpPort 5000), created_uploads = (\<not> uploads_exists b),
                      boot_log = [LogText ''Server running on port 5000'']\<rparr>"
proof -
  have "port_setting (env_PORT b) = JNum (Fin 5000)" using assms(1) by (auto simp: port_setting_def js_or_def)
  moreover have "number_to_string (Fin 5000) = Some ''5000''"
    using number_to_string_nat [of 5000] by (simp add: nat_to_dec.simps digit_char_def)
  ultimately show ?thesis using assms(2,3)
    by (auto simp: startup_def listen_target_def validate_port_def template_string_def)
qed

text \<open>
  C26. With \<open>PORT\<close> the decimal digits of a port number n up to 65535,
  the server listens on port n and prints that string.
\<close>

theorem startup_decimal_port:
  assumes "env_PORT b = Some (nat_to_dec n)" and "n \<le> 65535" and "uploads_exists b \<or> mkdir_ok b" and "bind_ok b"
  shows "boot_outcome (startup b) = Listening (TcpPort n)
         \<and> boot_log (startup b) = [LogText (''Server running on port '' @ nat_to_dec n)]"
proof -
  have "port_setting (env_PORT b) = JStr (nat_to_dec n)"
    using assms(1) nat_to_dec_ne by (simp add: port_setting_def js_or_def)
  moreover have "\<not> list_ex is_js_space (nat_to_dec n)"
    using nat_to_dec_digits [of n] by (fastforce simp: list_all_iff list_ex_iff is_digit_def is_js_space_def)
  then have "trim_js (nat_to_dec n) \<noteq> []" using trim_js_no_space nat_to_dec_ne by simp
  ultimately show ?thesis using assms(2-4)
    by (simp add: startup_def listen_target_def validate_port_def template_string_def
                  string_to_number_nat_to_dec)
qed

text \<open>
  C27. A \<open>PORT\<close> that \<open>Number\<close> does not read as a non-negative number
  (\<open>"abc"\<close>, \<open>"-1"\<close>) is not rejected: \<open>listen\<close> takes it as the path
  of a Unix socket (pipe).
\<close>

theorem startup_pipe:
  assumes "env_PORT b = Some p" and "p \<noteq> []" and "\<not> num_nonneg (string_to_number p)"
    and "uploads_exists b \<or> mkdir_ok b" and "bind_ok b"
  shows "boot_outcome (startup b) = Listening (PipePath p)"
  using assms by (simp add: startup_def port_setting_def js_or_def listen_target_def)

text \<open>
  C28. A \<open>PORT\<close> that reads as a non-negative number that is not an
  integer up to 65535 (\<open>"70000"\<close>, \<open>"80.5"\<close>) makes \<open>listen\<close> throw
  \<open>ERR_SOCKET_BAD_PORT\<close>: the process ends without listening and without
  its start-up line.
\<close>

theorem startup_bad_port:
  assumes "env_PORT b = Some p" and "string_to_number p = Fin x" and "0 \<le> x"
    and "65535 < x \<or> real_of_int \<lfloor>x\<rfloor> \<noteq> x" and "uploads_exists b \<or> mkdir_ok b"
  shows "boot_outcome (startup b) = Crashed ''ERR_SOCKET_BAD_PORT'' \<and> boot_log (startup b) = []"
proof -
  have "p \<noteq> []" using assms(2,4) by (auto simp: string_to_number_def trim_js_def)
  then show ?thesis using assms
    by (auto simp: startup_def port_setting_def js_or_def listen_target_def validate_port_def)
qed

section \<open>The whole process\<close>

text \<open>
  C29. Every state the started process reaches, serving any HTTP requests
  through the middleware chain and the upload middleware, satisfies the
  invariant of the handler-level model: the selection names a catalog sound,
  the threshold and volume are in range, the built-in sound stays first and
  every alert time is a value \<open>res.json\<close> can send (the server's clock
  string, or what \<open>JSON.parse\<close> returned, an infinity included).
\<close>

theorem process_state_inv: "sys_reachable S \<Longrightarrow> state_inv (sys_server S)"
  using sys_reachable_server reachable_state_inv by blast

text \<open>
  C30. Every uploaded sound's file is in the uploads directory: in every
  state the started process reaches, the file name a sound of the catalog
  records names a file that multer wrote.
\<close>

theorem uploaded_file_present:
  assumes "sys_reachable S" and "sd \<in> set (sounds (sys_server S))" and "sound_filename sd = Some f"
  shows "f \<in> dom (sys_disk S)"
  using sys_reachable_files_present [OF assms(1)] assms(2,3) unfolding files_present_def by blast

text \<open>
  C31. An upload replaces any file of the same generated name: the uploads
  directory then maps that name to the new content, the answer is 200, and
  every earlier sound, including one that recorded that file name, stays in
  the catalog (two uploads of one name within the same millisecond leave the
  first sound pointing at the second file).
\<close>

theorem upload_overwrites:
  assumes "serve_system S e hr = Some (S', rep, out)"
    and "hr_method hr = POST" and "hr_path hr = ''/sounds/upload''"
    and "hr_body hr = MultipartBody [(''file'', name, c)]" and "disk_ok e"
  shows "sys_disk S' = (sys_disk S)(multer_filename (file_clock e) name \<mapsto> c) \<and> reply_status rep = 200
         \<and> set (sounds (sys_server S)) \<subseteq> set (sounds (sys_server S'))"
proof -
  have ms: "multer_single ''file'' (disk_ok e) (file_clock e) (file_parts [(''file'', name, c)]) =
            Stored name (multer_filename (file_clock e) name)"
    using assms(5) by (simp add: multer_single_def file_parts_def)
  have p: "json_body_parser hr = Parsed JUndef" using assms(4) by (simp add: json_body_parser_def)
  let ?r = "to_request hr JUndef"
  have r: "req_method ?r = POST" "req_path ?r = ''/sounds/upload''"
          "req_files ?r = file_parts [(''file'', name, c)]"
    using assms(2-4) by (simp_all add: to_request_def)
  have step: "server_step (sys_server S) e ?r =
              (case h_upload (sys_server S) e (Some (name, multer_filename (file_clock e) name)) of
                 Some res \<Rightarrow> res | None \<Rightarrow> (sys_server S, error_500))"
    using server_step_dispatched [of ?r RUpload] r ms by (simp add: dispatch_route_paths)
  have "serve (sys_server S) e hr = Some (fst (server_step (sys_server S) e ?r),
          \<lparr>reply_status = status (snd (server_step (sys_server S) e ?r)), reply_headers = cors_headers hr,
           reply_payload = payload (snd (server_step (sys_server S) e ?r))\<rparr>, request_log ?r)"
    using serve_parsed p assms(2) by simp
  then have S': "S' = \<lparr>sys_server = fst (server_step (sys_server S) e ?r), sys_disk = disk_effect e hr (sys_disk S)\<rparr>"
    and rep: "reply_status rep = status (snd (server_step (sys_server S) e ?r))"
    using assms(1) by (auto simp: serve_system_def)
  have "disk_effect e hr (sys_disk S) = (sys_disk S)(multer_filename (file_clock e) name \<mapsto> c)"
    using assms(2-4) ms by (simp add: disk_effect_def upload_parts_def dispatch_route_paths multer_disk_Stored)
  then show ?thesis using S' rep step
    by (auto simp: h_upload_def Let_def json_resp_def add_sound_def)
qed

section \<open>Behaviours the spec does not state\<close>

text \<open>
  C34. A detection whose confidence \<open>Number()\<close> reads as an infinity
  (\<open>"Infinity"\<close>, \<open>"-Infinity"\<close>, or a number beyond the binary64 range
  such as \<open>1e400\<close>) stores that infinity, which is truthy, and
  \<open>GET /alerts\<close> then serves the alert first, with confidence \<open>null\<close>
  (\<open>JSON.stringify\<close> writes non-finite numbers as null; the spec says the
  confidence is a float).
\<close>

theorem infinite_confidence_served_null:
  assumes "req_method r = POST" and "req_path r = ''/device/detection''"
    and "js_to_number (js_get_opt (req_body r) ''confidence'') \<in> {PosInf, NegInf}"
  shows "\<exists>a rest. alerts (fst (server_step s e r)) = a # alerts s
           \<and> alert_confidence a = js_to_number (js_get_opt (req_body r) ''confidence'')
           \<and> payload (snd (server_step (fst (server_step s e r)) e' (mk_req GET ''/alerts'' b fs))) =
                PJson (JObj [(''alerts'', JArr (JObj [(''id'', JStr (alert_id a)),
                   (''time'', stringify_value (alert_time a)), (''confidence'', JNull)] # rest))])"
proof -
  let ?a = "\<lparr>alert_id = nat_to_dec (now_ms e), alert_time = detection_time (req_body r) (local_time e),
             alert_confidence = detection_confidence (req_body r)\<rparr>"
  have al: "alerts (fst (server_step s e r)) = ?a # alerts s"
    using detection_step [OF assms(1,2)] by simp
  have c: "detection_confidence (req_body r) = js_to_number (js_get_opt (req_body r) ''confidence'')"
    using assms(3) by (auto simp: detection_confidence_def num_or_def)
  have t: "detection_time (req_body r) (local_time e) \<noteq> JUndef"
    by (auto simp: detection_time_def js_or_def)
  show ?thesis
    using al c t assms(3)
    by (auto simp: server_step_def mk_req_def dispatch_route_paths h_alerts_def json_resp_def alert_json_def)
qed

section \<open>Witnesses\<close>

theorem reachable_selection_valid_witness:
  "reachable (fst (server_step initial_state e0 upload_req)) \<and>
   (\<exists>snd \<in> set (sounds (fst (server_step initial_state e0 upload_req))).
      selectedSoundId (settings (fst (server_step initial_state e0 upload_req))) = JStr (sound_id snd))"
proof -
  have r: "reachable (fst (server_step initial_state e0 upload_req))"
    by (rule reachable.step [OF reachable.init]) (simp add: wf_request_def upload_req_def)
  with reachable_selection_valid [OF r] show ?thesis by blast
qed

theorem reachable_settings_in_range_witness:
  "reachable initial_state \<and>
   (\<exists>c v. confidenceThreshold (settings initial_state) = Fin c \<and> 0 \<le> c \<and> c \<le> 1
          \<and> volume (settings initial_state) = Fin v \<and> 0 \<le> v \<and> v \<le> 100)"
  using reachable_settings_in_range [OF reachable.init] reachable.init by blast

theorem select_known_sound_witness:
  "req_method (select_req (JStr ''default'')) = POST \<and> req_path (select_req (JStr ''default'')) = ''/sounds/select''
   \<and> js_get_opt (js_or (req_body (select_req (JStr ''default''))) (JObj [])) ''soundId'' = JStr ''default''
   \<and> ''default'' \<in> set (sound_ids (sounds initial_state))
   \<and> server_step initial_state e0 (select_req (JStr ''default'')) =
        (initial_state\<lparr>settings := (settings initial_state)\<lparr>selectedSoundId := JStr ''default''\<rparr>\<rparr>,
         json_resp 200 [(''status'', JStr ''selected''), (''selectedSoundId'', JStr ''default'')])"
  using select_known_sound [of "select_req (JStr ''default'')" "''default''" initial_state e0]
  by (simp add: sample_defs js_or_def js_get_opt_def initial_state_def)

theorem select_unknown_sound_witness:
  "req_method (select_req (JStr ''nope'')) = POST \<and> req_path (select_req (JStr ''nope'')) = ''/sounds/select''
   \<and> \<not> sound_exists (sounds initial_state) (js_get_opt (js_or (req_body (select_req (JStr ''nope''))) (JObj [])) ''soundId'')
   \<and> server_step initial_state e0 (select_req (JStr ''nope'')) =
        (initial_state, json_resp 404 [(''error'', JStr ''Sound not found'')])"
  using select_unknown_sound [of "select_req (JStr ''nope'')" initial_state e0]
  by (simp add: sample_defs js_or_def js_get_opt_def initial_state_def)

theorem upload_stored_witness:
  "req_method upload_req = POST \<and> req_path upload_req = ''/sounds/upload''
   \<and> req_files upload_req = [(''file'', ''owl call.mp3'')] \<and> disk_ok e0
   \<and> fst (server_step initial_state e0 upload_req) =
        initial_state\<lparr>sounds := sounds initial_state @
            [\<lparr>sound_id = nat_to_dec (now_ms e0), sound_name = ''owl call.mp3'',
              sound_filename = Some (multer_filename (file_clock e0) ''owl call.mp3''),
              sound_source = Uploaded\<rparr>],
          settings := (settings initial_state)\<lparr>selectedSoundId := JStr (nat_to_dec (now_ms e0))\<rparr>\<rparr>
   \<and> status (snd (server_step initial_state e0 upload_req)) = 200"
  using upload_stored [of upload_req "''owl call.mp3''" e0 initial_state]
  by (simp add: sample_defs)

theorem upload_without_file_witness:
  "req_method empty_upload_req = POST \<and> req_path empty_upload_req = ''/sounds/upload''
   \<and> req_files empty_upload_req = []
   \<and> server_step initial_state e0 empty_upload_req =
        (initial_state, json_resp 400 [(''error'', JStr ''No file uploaded'')])"
  using upload_without_file [of empty_upload_req initial_state e0]
  by (simp add: sample_defs)

theorem upload_failure_leaves_state_witness:
  "req_method upload_req = POST \<and> req_path upload_req = ''/sounds/upload''
   \<and> multer_single ''file'' (disk_ok e_disk_full) (file_clock e_disk_full) (req_files upload_req) = UploadError
   \<and> server_step initial_state e_disk_full upload_req = (initial_state, error_500)"
  using upload_failure_leaves_state [of upload_req e_disk_full initial_state]
  by (simp add: sample_defs multer_single_def)

theorem put_settings_clamps_witness:
  "req_method (put_req [(''volume'', JNum (Fin 150)), (''confidenceThreshold'', JNum (Fin 2))]) = PUT
   \<and> req_path (put_req [(''volume'', JNum (Fin 150)), (''confidenceThreshold'', JNum (Fin 2))]) = ''/settings''
   \<and> js_get_opt (js_or (req_body (put_req [(''volume'', JNum (Fin 150)), (''confidenceThreshold'', JNum (Fin 2))])) (JObj [])) ''volume'' = JNum (Fin 150)
   \<and> js_get_opt (js_or (req_body (put_req [(''volume'', JNum (Fin 150)), (''confidenceThreshold'', JNum (Fin 2))])) (JObj [])) ''confidenceThreshold'' = JNum (Fin 2)
   \<and> volume (settings (fst (server_step initial_state e0 (put_req [(''volume'', JNum (Fin 150)), (''confidenceThreshold'', JNum (Fin 2))])))) = Fin 100
   \<and> confidenceThreshold (settings (fst (server_step initial_state e0 (put_req [(''volume'', JNum (Fin 150)), (''confidenceThreshold'', JNum (Fin 2))])))) = Fin 1"
  using put_settings_clamps [of "put_req [(''volume'', JNum (Fin 150)), (''confidenceThreshold'', JNum (Fin 2))]" 150 2 initial_state e0]
  by (simp add: put_req_def sample_defs js_or_def js_get_opt_def)

theorem put_settings_ill_typed_ignored_witness:
  "req_method (put_req [(''volume'', JStr ''50''), (''autoSound'', JStr ''no'')]) = PUT
   \<and> req_path (put_req [(''volume'', JStr ''50''), (''autoSound'', JStr ''no'')]) = ''/settings''
   \<and> js_typeof (js_get_opt (js_or (req_body (put_req [(''volume'', JStr ''50''), (''autoSound'', JStr ''no'')])) (JObj [])) ''confidenceThreshold'') \<noteq> ''number''
   \<and> js_typeof (js_get_opt (js_or (req_body (put_req [(''volume'', JStr ''50''), (''autoSound'', JStr ''no'')])) (JObj [])) ''autoSound'') \<noteq> ''boolean''
   \<and> js_typeof (js_get_opt (js_or (req_body (put_req [(''volume'', JStr ''50''), (''autoSound'', JStr ''no'')])) (JObj [])) ''pushAlerts'') \<noteq> ''boolean''
   \<and> js_typeof (js_get_opt (js_or (req_body (put_req [(''volume'', JStr ''50''), (''autoSound'', JStr ''no'')])) (JObj [])) ''volume'') \<noteq> ''number''
   \<and> js_typeof (js_get_opt (js_or (req_body (put_req [(''volume'', JStr ''50''), (''autoSound'', JStr ''no'')])) (JObj [])) ''selectedSoundId'') \<noteq> ''string''
   \<and> fst (server_step initial_state e0 (put_req [(''volume'', JStr ''50''), (''autoSound'', JStr ''no'')])) = initial_state"
  using put_settings_ill_typed_ignored [of "put_req [(''volume'', JStr ''50''), (''autoSound'', JStr ''no'')]" initial_state e0]
  by (simp add: put_req_def sample_defs js_or_def js_get_opt_def)

theorem put_settings_selection_witness:
  "req_method (put_req [(''selectedSoundId'', JStr ''nope'')]) = PUT
   \<and> req_path (put_req [(''selectedSoundId'', JStr ''nope'')]) = ''/settings''
   \<and> selectedSoundId (settings (fst (server_step initial_state e0 (put_req [(''selectedSoundId'', JStr ''nope'')])))) =
        (let v = js_get_opt (js_or (req_body (put_req [(''selectedSoundId'', JStr ''nope'')])) (JObj [])) ''selectedSoundId''
         in if sound_exists (sounds initial_state) v then v else selectedSoundId (settings initial_state))"
  using put_settings_selection [of "put_req [(''selectedSoundId'', JStr ''nope'')]" initial_state e0]
  by (simp add: sample_defs)

theorem detection_prepends_witness:
  "req_method (detect_req [(''confidence'', JNum (Fin (93/100)))]) = POST
   \<and> req_path (detect_req [(''confidence'', JNum (Fin (93/100)))]) = ''/device/detection''
   \<and> server_step initial_state e0 (detect_req [(''confidence'', JNum (Fin (93/100)))]) =
       (initial_state\<lparr>alerts := [\<lparr>alert_id = ''7'', alert_time = JStr ''10:00:00'', alert_confidence = Fin (93/100)\<rparr>]\<rparr>,
        json_resp 200 [(''status'', JStr ''received'')])"
  using detection_prepends [of "detect_req [(''confidence'', JNum (Fin (93/100)))]" initial_state e0]
  by (simp add: detect_req_def sample_defs detection_time_def detection_confidence_def js_get_opt_def
                js_or_def num_or_def initial_state_def nat_to_dec.simps digit_char_def)

theorem requests_without_effect_witness:
  "req_method (mk_req DELETE ''/settings'' JUndef []) \<noteq> POST \<and> req_method (mk_req DELETE ''/settings'' JUndef []) \<noteq> PUT
   \<and> fst (server_step initial_state e0 (mk_req DELETE ''/settings'' JUndef [])) = initial_state"
  using requests_without_effect [of "mk_req DELETE ''/settings'' JUndef []" initial_state e0]
  by (simp add: mk_req_def)

theorem no_internal_error_witness:
  "status (snd (server_step initial_state e_disk_full upload_req)) = 500
   \<and> dispatch (req_method upload_req) (req_path upload_req) = Some RUpload
   \<and> multer_single ''file'' (disk_ok e_disk_full) (file_clock e_disk_full) (req_files upload_req) = UploadError"
proof -
  have h: "status (snd (server_step initial_state e_disk_full upload_req)) = 500"
    by (simp add: server_step_def sample_defs dispatch_route_paths h_upload_def multer_single_def error_500_def)
  show ?thesis using h no_internal_error [OF h] by simp
qed

theorem serve_json_body_witness:
  "hr_method (hreq POST ''/device/command'' json_hdr (TextBody ''{}'')) \<noteq> OPTIONS
   \<and> hr_body (hreq POST ''/device/command'' json_hdr (TextBody ''{}'')) = TextBody ''{}''
   \<and> map_of (hr_headers (hreq POST ''/device/command'' json_hdr (TextBody ''{}''))) ''content-type'' = Some ''application/json''
   \<and> utf8_length ''{}'' \<le> 102400 \<and> json_ok (JObj []) \<and> json_text (JObj []) = Some ''{}''
   \<and> hd ''{}'' \<in> {CHR ''{'', CHR ''[''}
   \<and> serve initial_state e0 (hreq POST ''/device/command'' json_hdr (TextBody ''{}'')) =
       Some (initial_state, \<lparr>reply_status = 200, reply_headers = [(''Access-Control-Allow-Origin'', ''*'')],
                             reply_payload = PJson (JObj [(''status'', JStr ''command sent'')])\<rparr>,
             [LogValue ''Command from app:'' (JObj [])])"
  using serve_json_body [of "hreq POST ''/device/command'' json_hdr (TextBody ''{}'')" "''{}''" "JObj []" initial_state e0]
  by (simp add: hreq_def json_hdr_def utf8_length_def to_request_def server_step_def dispatch_route_paths
                h_command_def json_resp_def cors_headers_def request_log_def)

theorem serve_log_witness:
  "serve initial_state e0 (hreq POST ''/device/command'' [] NoBody) =
     Some (initial_state, \<lparr>reply_status = 200, reply_headers = [(''Access-Control-Allow-Origin'', ''*'')],
                           reply_payload = PJson (JObj [(''status'', JStr ''command sent'')])\<rparr>,
           [LogValue ''Command from app:'' JUndef])
   \<and> [LogValue ''Command from app:'' JUndef] \<noteq> []
   \<and> hr_method (hreq POST ''/device/command'' [] NoBody) = POST"
proof -
  have "serve initial_state e0 (hreq POST ''/device/command'' [] NoBody) =
     Some (initial_state, \<lparr>reply_status = 200, reply_headers = [(''Access-Control-Allow-Origin'', ''*'')],
                           reply_payload = PJson (JObj [(''status'', JStr ''command sent'')])\<rparr>,
           [LogValue ''Command from app:'' JUndef])"
    by (simp add: serve_def hreq_def json_body_parser_def to_request_def server_step_def dispatch_route_paths
                  h_command_def json_resp_def cors_headers_def request_log_def)
  then show ?thesis using serve_log [of initial_state e0 "hreq POST ''/device/command'' [] NoBody"] by simp
qed

theorem clocked_ids_distinct_witness:
  "clocked (fst (server_step initial_state e0 upload_req)) 7
   \<and> distinct (map sound_id (sounds (fst (server_step initial_state e0 upload_req))))
   \<and> distinct (map alert_id (alerts (fst (server_step initial_state e0 upload_req))))"
proof -
  have "clocked (fst (server_step initial_state e0 upload_req)) (now_ms e0)"
    by (rule clocked_step [OF clocked_init]) (simp_all add: wf_request_def upload_req_def e0_def)
  then have c: "clocked (fst (server_step initial_state e0 upload_req)) 7" by (simp add: e0_def)
  show ?thesis using c clocked_ids_distinct [OF c] by simp
qed

theorem settings_recoverable_witness:
  "reachable initial_state
   \<and> settings (fst (server_step initial_state e0 (mk_req PUT ''/settings'' (settings_json initial_settings) []))) = initial_settings"
  using settings_recoverable [OF reachable.init, of e0] reachable.init by simp

theorem startup_default_port_witness:
  "startup (boot None) = \<lparr>boot_outcome = Listening (TcpPort 5000), created_uploads = True,
                          boot_log = [LogText ''Server running on port 5000'']\<rparr>"
  using startup_default_port [of "boot None"] by (simp add: boot_def)

theorem startup_decimal_port_witness:
  "boot_outcome (startup (boot (Some ''8080''))) = Listening (TcpPort 8080)
   \<and> boot_log (startup (boot (Some ''8080''))) = [LogText ''Server running on port 8080'']"
proof -
  have "nat_to_dec 8080 = ''8080''" by (simp add: nat_to_dec.simps digit_char_def)
  then show ?thesis using startup_decimal_port [of "boot (Some ''8080'')" 8080] by (simp add: boot_def)
qed

theorem startup_pipe_witness:
  "boot_outcome (startup (boot (Some ''abc''))) = Listening (PipePath ''abc'')"
proof -
  have "string_to_number ''abc'' = NaN" by code_simp
  then show ?thesis using startup_pipe [of "boot (Some ''abc'')" "''abc''"] by (simp add: boot_def)
qed

theorem startup_bad_port_witness:
  "boot_outcome (startup (boot (Some ''70000''))) = Crashed ''ERR_SOCKET_BAD_PORT''
   \<and> boot_log (startup (boot (Some ''70000''))) = []"
proof -
  have "nat_to_dec 70000 = ''70000''" by (simp add: nat_to_dec.simps digit_char_def)
  then have "string_to_number ''70000'' = Fin 70000" using string_to_number_nat_to_dec [of 70000] by simp
  then show ?thesis using startup_bad_port [of "boot (Some ''70000'')" "''70000''" 70000] by (simp add: boot_def)
qed

theorem serve_preflight_witness:
  "serve initial_state e0 (hreq OPTIONS ''/device/detection'' [(''access-control-request-headers'', ''content-type'')] NoBody)
   = Some (initial_state, \<lparr>reply_status = 204,
                           reply_headers = [(''Access-Control-Allow-Origin'', ''*''),
                                            (''Access-Control-Allow-Methods'', ''GET,HEAD,PUT,PATCH,POST,DELETE''),
                                            (''Vary'', ''Access-Control-Request-Headers''),
                                            (''Access-Control-Allow-Headers'', ''content-type''),
                                            (''Content-Length'', ''0'')],
                           reply_payload = PEmpty\<rparr>, [])"
  using serve_preflight [of "hreq OPTIONS ''/device/detection'' [(''access-control-request-headers'', ''content-type'')] NoBody" initial_state e0]
  by (simp add: hreq_def cors_headers_def)

theorem serve_strict_rejects_witness:
  "hr_method (hreq POST ''/device/detection'' json_hdr (TextBody ''1'')) \<noteq> OPTIONS
   \<and> hr_body (hreq POST ''/device/detection'' json_hdr (TextBody ''1'')) = TextBody ''1''
   \<and> map_of (hr_headers (hreq POST ''/device/detection'' json_hdr (TextBody ''1''))) ''content-type'' = Some ''application/json''
   \<and> utf8_length ''1'' \<le> 102400 \<and> ''1'' \<noteq> [] \<and> hd (skip_ws ''1'') \<notin> {CHR ''{'', CHR ''[''}
   \<and> serve initial_state e0 (hreq POST ''/device/detection'' json_hdr (TextBody ''1'')) =
       Some (initial_state, \<lparr>reply_status = 400, reply_headers = [(''Access-Control-Allow-Origin'', ''*'')],
                             reply_payload = PText ''Bad Request''\<rparr>, [])"
  using serve_strict_rejects [of "hreq POST ''/device/detection'' json_hdr (TextBody ''1'')" "''1''" initial_state e0]
  by (simp add: hreq_def json_hdr_def utf8_length_def skip_ws_def is_json_ws_def cors_headers_def)

lemma sys1_reachable: "sys_reachable sys1"
proof -
  have b: "boot_system (boot None) Map.empty = Some \<lparr>sys_server = initial_state, sys_disk = Map.empty\<rparr>"
    by (simp add: boot_system_def boot_def startup_def port_setting_def js_or_def listen_target_def
                  validate_port_def Let_def split: sum.split)
  have "serve_system \<lparr>sys_server = initial_state, sys_disk = Map.empty\<rparr> e0 (upload_http ''A'') \<noteq> None"
    by (simp add: serve_system_def serve_def upload_http_def hreq_def json_body_parser_def to_request_def
       server_step_def dispatch_route_paths Let_def file_parts_def multer_single_def e0_def h_upload_def)
  then have "serve_system \<lparr>sys_server = initial_state, sys_disk = Map.empty\<rparr> e0 (upload_http ''A'') =
               Some (sys1, fst (snd (the (serve_system \<lparr>sys_server = initial_state, sys_disk = Map.empty\<rparr> e0 (upload_http ''A'')))),
                           snd (snd (the (serve_system \<lparr>sys_server = initial_state, sys_disk = Map.empty\<rparr> e0 (upload_http ''A'')))))"
    by (auto simp: sys1_def)
  then show ?thesis using sys_reachable.sys_step [OF sys_reachable.sys_init [OF b]] by blast
qed

lemma sys1_eq:
  "sys1 = \<lparr>sys_server = initial_state\<lparr>sounds := add_sound (sounds initial_state) owl_sound,
                                       settings := select_uploaded (nat_to_dec 7) (settings initial_state)\<rparr>,
           sys_disk = [multer_filename 6 ''owl call.mp3'' \<mapsto> ''A'']\<rparr>"
  by (simp add: sys1_def owl_sound_def serve_system_def serve_def upload_http_def hreq_def json_body_parser_def
       to_request_def server_step_def dispatch_route_paths Let_def file_parts_def multer_single_def e0_def
       disk_effect_def multer_disk_def upload_parts_def h_upload_def request_log_def cors_headers_def)

theorem process_state_inv_witness: "sys_reachable sys1 \<and> state_inv (sys_server sys1)"
  using process_state_inv [OF sys1_reachable] sys1_reachable by simp

theorem uploaded_file_present_witness:
  "sys_reachable sys1 \<and> owl_sound \<in> set (sounds (sys_server sys1))
   \<and> sound_filename owl_sound = Some (multer_filename 6 ''owl call.mp3'')
   \<and> multer_filename 6 ''owl call.mp3'' \<in> dom (sys_disk sys1)"
proof -
  have "owl_sound \<in> set (sounds (sys_server sys1))" by (simp add: sys1_eq add_sound_def)
  moreover have "sound_filename owl_sound = Some (multer_filename 6 ''owl call.mp3'')" by (simp add: owl_sound_def)
  ultimately show ?thesis using uploaded_file_present [OF sys1_reachable] sys1_reachable by blast
qed

theorem upload_overwrites_witness:
  "serve_system sys1 e0 (upload_http ''B'') =
     Some (fst (the (serve_system sys1 e0 (upload_http ''B''))), fst (snd (the (serve_system sys1 e0 (upload_http ''B'')))),
           snd (snd (the (serve_system sys1 e0 (upload_http ''B'')))))
   \<and> sys_disk (fst (the (serve_system sys1 e0 (upload_http ''B'')))) = [multer_filename 6 ''owl call.mp3'' \<mapsto> ''B'']
   \<and> owl_sound \<in> set (sounds (sys_server (fst (the (serve_system sys1 e0 (upload_http ''B''))))))"
proof -
  have some: "serve_system sys1 e0 (upload_http ''B'') \<noteq> None"
    by (simp add: sys1_eq serve_system_def serve_def upload_http_def hreq_def json_body_parser_def to_request_def
       server_step_def dispatch_route_paths Let_def file_parts_def multer_single_def e0_def h_upload_def)
  then have eq: "serve_system sys1 e0 (upload_http ''B'') =
     Some (fst (the (serve_system sys1 e0 (upload_http ''B''))), fst (snd (the (serve_system sys1 e0 (upload_http ''B'')))),
           snd (snd (the (serve_system sys1 e0 (upload_http ''B'')))))" by auto
  have o: "sys_disk (fst (the (serve_system sys1 e0 (upload_http ''B'')))) = (sys_disk sys1)(multer_filename 6 ''owl call.mp3'' \<mapsto> ''B'')
           \<and> set (sounds (sys_server sys1)) \<subseteq> set (sounds (sys_server (fst (the (serve_system sys1 e0 (upload_http ''B''))))))"
    using upload_overwrites [OF eq] by (simp add: upload_http_def hreq_def e0_def)
  have "owl_sound \<in> set (sounds (sys_server sys1))" "sys_disk sys1 = [multer_filename 6 ''owl call.mp3'' \<mapsto> ''A'']"
    by (simp_all add: sys1_eq add_sound_def)
  then show ?thesis using eq o by auto
qed

theorem detection_without_fields_witness:
  "req_method (detect_req [(''sensor'', JStr ''cam1'')]) = POST
   \<and> req_path (detect_req [(''sensor'', JStr ''cam1'')]) = ''/device/detection''
   \<and> js_get_opt (req_body (detect_req [(''sensor'', JStr ''cam1'')])) ''confidence'' = JUndef
   \<and> js_get_opt (req_body (detect_req [(''sensor'', JStr ''cam1'')])) ''time'' = JUndef
   \<and> alerts (fst (server_step initial_state e0 (detect_req [(''sensor'', JStr ''cam1'')]))) =
        [\<lparr>alert_id = nat_to_dec 7, alert_time = JStr ''10:00:00'', alert_confidence = Fin (8 / 10)\<rparr>]"
  using detection_without_fields [of "detect_req [(''sensor'', JStr ''cam1'')]" initial_state e0]
  by (simp add: sample_defs js_get_opt_def initial_state_def)

theorem catalog_only_upload_witness:
  "sounds (fst (server_step initial_state e0 upload_req)) \<noteq> sounds initial_state
   \<and> req_method upload_req = POST \<and> dispatch POST (req_path upload_req) = Some RUpload"
proof -
  have "sounds (fst (server_step initial_state e0 upload_req)) \<noteq> sounds initial_state"
    by (simp add: server_step_def sample_defs dispatch_route_paths h_upload_def multer_single_def
                  add_sound_def Let_def)
  then show ?thesis using catalog_only_upload by blast
qed

theorem infinite_confidence_served_null_witness:
  "req_method (detect_req [(''confidence'', JStr ''Infinity'')]) = POST
   \<and> req_path (detect_req [(''confidence'', JStr ''Infinity'')]) = ''/device/detection''
   \<and> js_to_number (js_get_opt (req_body (detect_req [(''confidence'', JStr ''Infinity'')])) ''confidence'') = PosInf
   \<and> (\<exists>a rest. alerts (fst (server_step initial_state e0 (detect_req [(''confidence'', JStr ''Infinity'')]))) = a # alerts initial_state
        \<and> alert_confidence a = PosInf
        \<and> payload (snd (server_step (fst (server_step initial_state e0 (detect_req [(''confidence'', JStr ''Infinity'')])))
                          e0 (mk_req GET ''/alerts'' JUndef []))) =
             PJson (JObj [(''alerts'', JArr (JObj [(''id'', JStr (alert_id a)),
                (''time'', stringify_value (alert_time a)), (''confidence'', JNull)] # rest))]))"
proof -
  have inf: "js_to_number (js_get_opt (req_body (detect_req [(''confidence'', JStr ''Infinity'')])) ''confidence'') = PosInf"
    by (simp add: sample_defs js_get_opt_def string_to_number_def trim_js_def parse_numeric_def
                  parse_unsigned_decimal_def is_js_space_def)
  show ?thesis
    using infinite_confidence_served_null [of "detect_req [(''confidence'', JStr ''Infinity'')]" initial_state e0 e0 JUndef "[]"] inf
    by (simp add: sample_defs)
qed

end
